theory Spec2Isabelle
  imports Main "HOL-Library.Word"
begin

text \<open>
  A model of the Terraform provider for Make.com: the API client with its gateways for
  scenarios, connections, webhooks, teams, organizations and data stores, and the
  resources that drive them. The remote service, the standard library and the plugin
  framework are parameters. The claims C1 to C10 about the provider are settled at the
  end.
\<close>

section \<open>Values of the plugin framework\<close>

text \<open>
  The provider stores every attribute as a framework value that is null, unknown or known.
  \<open>ValueString\<close> and \<open>ValueBool\<close> return the zero value for null and unknown, as the
  framework's accessors do.
\<close>

datatype tf_string = StringNull | StringUnknown | StringValue string

fun String_IsNull :: "tf_string \<Rightarrow> bool" where
  "String_IsNull StringNull = True"
| "String_IsNull StringUnknown = False"
| "String_IsNull (StringValue s) = False"

fun ValueString :: "tf_string \<Rightarrow> string" where
  "ValueString StringNull = []"
| "ValueString StringUnknown = []"
| "ValueString (StringValue s) = s"

datatype tf_bool = BoolNull | BoolUnknown | BoolValue bool

fun ValueBool :: "tf_bool \<Rightarrow> bool" where
  "ValueBool BoolNull = False"
| "ValueBool BoolUnknown = False"
| "ValueBool (BoolValue b) = b"

text \<open>
  A \<open>types.Map\<close> whose element type is \<open>types.StringType\<close>, the only element type the
  schemas of this provider declare. The elements are kept as an association list with the
  keys of the Go map.
\<close>

datatype tf_map = MapNull | MapUnknown | MapValue "(string \<times> tf_string) list"

fun Map_IsNull :: "tf_map \<Rightarrow> bool" where
  "Map_IsNull MapNull = True"
| "Map_IsNull MapUnknown = False"
| "Map_IsNull (MapValue es) = False"

subsection \<open>Diagnostics\<close>

datatype diagnostic = ErrorDiagnostic string string | WarningDiagnostic string string

fun is_error :: "diagnostic \<Rightarrow> bool" where
  "is_error (ErrorDiagnostic summary detail) = True"
| "is_error (WarningDiagnostic summary detail) = False"

definition HasError :: "diagnostic list \<Rightarrow> bool" where
  "HasError ds = list_ex is_error ds"

text \<open>\<open>Diagnostics.Append\<close> skips a diagnostic the collection already holds.\<close>

fun Append :: "diagnostic list \<Rightarrow> diagnostic list \<Rightarrow> diagnostic list" where
  "Append ds [] = ds"
| "Append ds (d # new) = Append (if d \<in> set ds then ds else ds @ [d]) new"

definition AddError :: "string \<Rightarrow> string \<Rightarrow> diagnostic list \<Rightarrow> diagnostic list" where
  "AddError summary detail ds = Append ds [ErrorDiagnostic summary detail]"

text \<open>
  What \<open>req.Plan.Get\<close>, \<open>req.State.Get\<close> deliver: the diagnostics of the conversion and
  the model read. The response of a resource operation carries the diagnostics and the
  state; \<open>None\<close> is the state of a resource that does not exist (before a create).
\<close>

record 'm tfsdk_data =
  Get_diags :: "diagnostic list"
  Get_data :: 'm

record 'm tf_response =
  Diagnostics :: "diagnostic list"
  State :: "'m option"

section \<open>The verbs of \<open>fmt\<close> the provider uses\<close>

text \<open>
  \<open>%d\<close> prints an integer in base 10: an optional minus sign and the digits, no
  separators, no leading zero. \<open>%t\<close> prints \<open>true\<close> or \<open>false\<close>.
\<close>

definition digit :: "nat \<Rightarrow> char" where
  "digit n = ''0123456789'' ! (n mod 10)"

fun FormatUint :: "nat \<Rightarrow> string" where
  "FormatUint n = (if n < 10 then [digit n] else FormatUint (n div 10) @ [digit n])"

declare FormatUint.simps [simp del]

definition Sprintf_d :: "int \<Rightarrow> string" where
  "Sprintf_d i = (if i < 0 then CHR ''-'' # FormatUint (nat (- i)) else FormatUint (nat i))"

definition Sprintf_t :: "bool \<Rightarrow> string" where
  "Sprintf_t b = (if b then ''true'' else ''false'')"

text \<open>
  A floating-point value of Go that is a number: sign, significand and binary exponent,
  the value being \<open>\<plusminus> m * 2 ^ e\<close>. Settings are decoded from JSON, which has no
  notation for NaN or the infinities, so these are not part of the type.

  \<open>%f\<close> prints the value rounded to six decimals (ties to even, as \<open>strconv\<close> rounds
  the exact decimal expansion): the sign when the sign bit is set, the integer part, a
  point and six digits.
\<close>

datatype go_float = Float (negative: bool) (significand: nat) (exponent: int)

definition round_half_even :: "nat \<Rightarrow> nat \<Rightarrow> nat" where
  "round_half_even num den =
     (let q = num div den; r = num mod den
      in if 2 * r > den \<or> (2 * r = den \<and> odd q) then q + 1 else q)"

definition micros :: "go_float \<Rightarrow> nat" where
  "micros f =
     (if 0 \<le> exponent f
      then significand f * 2 ^ nat (exponent f) * 1000000
      else round_half_even (significand f * 1000000) (2 ^ nat (- exponent f)))"

definition six_digits :: "nat \<Rightarrow> string" where
  "six_digits k = map (\<lambda>i. digit (k div 10 ^ i)) [5, 4, 3, 2, 1, 0]"

definition Sprintf_f :: "go_float \<Rightarrow> string" where
  "Sprintf_f f =
     (let n = micros f
      in (if negative f then ''-'' else '''') @ FormatUint (n div 1000000) @ ''.'' @
         six_digits (n mod 1000000))"

section \<open>Dynamic values of a settings map\<close>

text \<open>
  A value of type \<open>interface{}\<close> in a \<open>map[string]interface{}\<close>, by the dynamic types the
  provider's type switch tells apart. \<open>GoStringer\<close> is a value of a type with a
  \<open>String()\<close> method, carried as the text the method returns. \<open>GoNil\<close>, \<open>GoSlice\<close> and
  \<open>GoMap\<close> are what the JSON decoder delivers for null, arrays and objects; \<open>GoOther\<close>
  is a value of any further type, by a description of it. The platform's \<open>int\<close> and
  \<open>uint\<close> are 64 bits wide.
\<close>

datatype go_value =
    GoString string
  | GoStringer string
  | GoInt "64 word" | GoInt8 "8 word" | GoInt16 "16 word" | GoInt32 "32 word" | GoInt64 "64 word"
  | GoUint "64 word" | GoUint8 "8 word" | GoUint16 "16 word" | GoUint32 "32 word"
  | GoUint64 "64 word"
  | GoFloat32 go_float | GoFloat64 go_float
  | GoBool bool
  | GoNil
  | GoSlice "go_value list"
  | GoMap "(string \<times> go_value) list"
  | GoOther string

section \<open>The API client\<close>

subsection \<open>Wire records\<close>

record ScenarioResponse =
  ScenarioResponse_ID :: string
  ScenarioResponse_Name :: string
  ScenarioResponse_Description :: string
  ScenarioResponse_Active :: bool
  ScenarioResponse_TeamID :: string

record ScenarioRequest =
  ScenarioRequest_Name :: string
  ScenarioRequest_Description :: string
  ScenarioRequest_Active :: bool
  ScenarioRequest_TeamID :: string

record ErrorResponse =
  ErrorResponse_Error :: string
  ErrorResponse_Message :: string
  ErrorResponse_Code :: int

text \<open>
  Modelled from the spec: the field \<open>Settings\<close> of \<open>ConnectionResponse\<close>. The
  connection resource reads \<open>connection.Settings\<close>, and the declaration of the record
  at hand does not have the field. The specification attaches a settings map to connection
  and webhook records alike, so the field is the one \<open>WebhookResponse\<close> declares.
\<close>

record ConnectionResponse =
  ConnectionResponse_ID :: string
  ConnectionResponse_Name :: string
  ConnectionResponse_AppName :: string
  ConnectionResponse_TeamID :: string
  ConnectionResponse_Verified :: bool
  ConnectionResponse_Settings :: "(string \<times> go_value) list"

record ConnectionRequest =
  ConnectionRequest_Name :: string
  ConnectionRequest_AppName :: string
  ConnectionRequest_TeamID :: string
  ConnectionRequest_Settings :: "(string \<times> go_value) list"

record WebhookResponse =
  WebhookResponse_ID :: string
  WebhookResponse_Name :: string
  WebhookResponse_URL :: string
  WebhookResponse_TeamID :: string
  WebhookResponse_Active :: bool
  WebhookResponse_Settings :: "(string \<times> go_value) list"

record WebhookRequest =
  WebhookRequest_Name :: string
  WebhookRequest_URL :: string
  WebhookRequest_TeamID :: string
  WebhookRequest_Active :: bool
  WebhookRequest_Settings :: "(string \<times> go_value) list"

record TeamResponse =
  TeamResponse_ID :: string
  TeamResponse_Name :: string
  TeamResponse_OrganizationID :: string

record TeamRequest =
  TeamRequest_Name :: string
  TeamRequest_OrganizationID :: string

record OrganizationResponse =
  OrganizationResponse_ID :: string
  OrganizationResponse_Name :: string

record OrganizationRequest =
  OrganizationRequest_Name :: string

record DataStoreResponse =
  DataStoreResponse_ID :: string
  DataStoreResponse_Name :: string
  DataStoreResponse_Description :: string
  DataStoreResponse_TeamID :: string

record DataStoreRequest =
  DataStoreRequest_Name :: string
  DataStoreRequest_Description :: string
  DataStoreRequest_TeamID :: string

subsection \<open>Requests, responses and the transport\<close>

text \<open>
  An error of Go is modelled by its text. The body a gateway hands to \<open>MakeRequest\<close> is
  the request record of its kind, \<open>None\<close> for \<open>nil\<close>. An HTTP request has its method,
  its URL, its headers and its body; a response has its status code, its status line and
  its body, which is \<open>None\<close> when reading it fails. A URL of the standard library has a
  path, which \<open>MakeRequest\<close> assigns, and its other components.
\<close>

type_synonym go_error = string

datatype api_request =
    ScenarioBody ScenarioRequest
  | ConnectionBody ConnectionRequest
  | WebhookBody WebhookRequest
  | TeamBody TeamRequest
  | OrganizationBody OrganizationRequest
  | DataStoreBody DataStoreRequest

record go_URL =
  URL_Path :: string
  URL_others :: string

record http_request =
  Method :: string
  URL :: string
  Header :: "(string \<times> string) list"
  Request_Body :: "string option"

record http_response =
  StatusCode :: int
  Status :: string
  Body :: "string option"

type_synonym trace = "http_request list"

text \<open>
  The functions of the standard library and of the framework whose results the provider
  only passes on are parameters of the model: \<open>url.Parse\<close>, \<open>path.Join\<close>, the \<open>String\<close>
  method of a URL, \<open>json.Marshal\<close> of a request record, the error of
  \<open>http.NewRequestWithContext\<close> (\<open>None\<close> for \<open>nil\<close>), \<open>json.Unmarshal\<close> into an
  \<open>ErrorResponse\<close> (\<open>None\<close> when it returns an error), the JSON decoder for each response
  record (the text of its error, or the record), \<open>fmt.Sprintf("%v", v)\<close>, and
  \<open>ElementsAs\<close> into a \<open>map[string]string\<close>.
\<close>

record go_lib =
  url_Parse :: "string \<Rightarrow> go_error + go_URL"
  path_Join :: "string \<Rightarrow> string \<Rightarrow> string"
  URL_String :: "go_URL \<Rightarrow> string"
  json_Marshal :: "api_request \<Rightarrow> go_error + string"
  http_NewRequest :: "string \<Rightarrow> string \<Rightarrow> go_error option"
  Unmarshal_ErrorResponse :: "string \<Rightarrow> ErrorResponse option"
  Decode_ScenarioResponse :: "string option \<Rightarrow> go_error + ScenarioResponse"
  Decode_ConnectionResponse :: "string option \<Rightarrow> go_error + ConnectionResponse"
  Decode_WebhookResponse :: "string option \<Rightarrow> go_error + WebhookResponse"
  Decode_TeamResponse :: "string option \<Rightarrow> go_error + TeamResponse"
  Decode_OrganizationResponse :: "string option \<Rightarrow> go_error + OrganizationResponse"
  Decode_DataStoreResponse :: "string option \<Rightarrow> go_error + DataStoreResponse"
  Sprintf_v :: "go_value \<Rightarrow> string"
  ElementsAs :: "tf_map \<Rightarrow> diagnostic list \<times> (string \<times> string) list"

text \<open>
  Modelled from the spec: the field \<open>HTTPClient\<close> of the client, which \<open>MakeRequest\<close>
  calls and the declaration of \<open>MakeAPIClient\<close> at hand does not have. The specification
  has the core consume an HTTP client that sends a request and receives a status and a
  body. Here it is the \<open>Do\<close> of that client with the remote service behind it: given the
  requests performed so far, the last being the current one, it yields the response or an
  error. The trace is the list of the requests performed; \<open>MakeRequest\<close> appends the
  request it performs.
\<close>

record MakeAPIClient =
  ApiToken :: string
  BaseUrl :: string
  HTTPClient :: "trace \<Rightarrow> go_error + http_response"

definition MakeRequest ::
  "go_lib \<Rightarrow> MakeAPIClient \<Rightarrow> string \<Rightarrow> string \<Rightarrow> api_request option \<Rightarrow> trace \<Rightarrow>
   (go_error + http_response) \<times> trace" where
  "MakeRequest L c method endpoint body tr =
     (case url_Parse L (BaseUrl c) of
        Inl err \<Rightarrow> (Inl (''invalid base URL: '' @ err), tr)
      | Inr baseURL \<Rightarrow>
          (let baseURL = baseURL\<lparr>URL_Path := path_Join L (URL_Path baseURL) endpoint\<rparr>
           in case (case body of
                      None \<Rightarrow> Inr None
                    | Some b \<Rightarrow>
                        (case json_Marshal L b of
                           Inl err \<Rightarrow> Inl err
                         | Inr jsonData \<Rightarrow> Inr (Some jsonData))) of
                Inl err \<Rightarrow> (Inl (''failed to marshal request body: '' @ err), tr)
              | Inr reqBody \<Rightarrow>
                  (case http_NewRequest L method (URL_String L baseURL) of
                     Some err \<Rightarrow> (Inl (''failed to create request: '' @ err), tr)
                   | None \<Rightarrow>
                       (let req = \<lparr>Method = method, URL = URL_String L baseURL,
                                   Header = [(''Authorization'', ''Token '' @ ApiToken c),
                                             (''Content-Type'', ''application/json''),
                                             (''Accept'', ''application/json'')],
                                   Request_Body = reqBody\<rparr>;
                            tr' = tr @ [req]
                        in case HTTPClient c tr' of
                             Inl err \<Rightarrow> (Inl (''failed to perform request: '' @ err), tr')
                           | Inr resp \<Rightarrow> (Inr resp, tr')))))"

subsection \<open>Error responses\<close>

definition HandleErrorResponse :: "go_lib \<Rightarrow> http_response \<Rightarrow> go_error" where
  "HandleErrorResponse L resp =
     (case Body resp of
        None \<Rightarrow>
          ''API request failed with status '' @ Sprintf_d (StatusCode resp) @ '': '' @ Status resp
      | Some body \<Rightarrow>
          (case Unmarshal_ErrorResponse L body of
             None \<Rightarrow>
               ''API request failed with status '' @ Sprintf_d (StatusCode resp) @ '': '' @ body
           | Some errorResp \<Rightarrow>
               (let message = ErrorResponse_Message errorResp;
                    message = (if message = [] then ErrorResponse_Error errorResp else message);
                    message = (if message = [] then body else message)
                in ''API request failed with status '' @ Sprintf_d (StatusCode resp) @ '': '' @
                   message)))"

subsection \<open>Gateways\<close>

definition CreateScenario ::
  "go_lib \<Rightarrow> MakeAPIClient \<Rightarrow> ScenarioRequest \<Rightarrow> trace \<Rightarrow> (go_error + ScenarioResponse) \<times> trace" where
  "CreateScenario L c req tr =
     (case MakeRequest L c ''POST'' ''v2/scenarios'' (Some (ScenarioBody req)) tr of
        (Inl err, tr') \<Rightarrow> (Inl err, tr')
      | (Inr resp, tr') \<Rightarrow>
          if StatusCode resp \<ge> 400 then (Inl (HandleErrorResponse L resp), tr')
          else (case Decode_ScenarioResponse L (Body resp) of
                  Inl err \<Rightarrow> (Inl (''failed to decode response: '' @ err), tr')
                | Inr scenario \<Rightarrow> (Inr scenario, tr')))"

definition GetScenario ::
  "go_lib \<Rightarrow> MakeAPIClient \<Rightarrow> string \<Rightarrow> trace \<Rightarrow> (go_error + ScenarioResponse) \<times> trace" where
  "GetScenario L c id' tr =
     (let endpoint = ''v2/scenarios/'' @ id'
      in case MakeRequest L c ''GET'' endpoint None tr of
           (Inl err, tr') \<Rightarrow> (Inl err, tr')
         | (Inr resp, tr') \<Rightarrow>
             if StatusCode resp = 404
             then (Inl (''scenario with ID '' @ id' @ '' not found''), tr')
             else if StatusCode resp \<ge> 400 then (Inl (HandleErrorResponse L resp), tr')
             else (case Decode_ScenarioResponse L (Body resp) of
                     Inl err \<Rightarrow> (Inl (''failed to decode response: '' @ err), tr')
                   | Inr scenario \<Rightarrow> (Inr scenario, tr')))"

definition UpdateScenario ::
  "go_lib \<Rightarrow> MakeAPIClient \<Rightarrow> string \<Rightarrow> ScenarioRequest \<Rightarrow> trace \<Rightarrow>
   (go_error + ScenarioResponse) \<times> trace" where
  "UpdateScenario L c id' req tr =
     (let endpoint = ''v2/scenarios/'' @ id'
      in case MakeRequest L c ''PUT'' endpoint (Some (ScenarioBody req)) tr of
           (Inl err, tr') \<Rightarrow> (Inl err, tr')
         | (Inr resp, tr') \<Rightarrow>
             if StatusCode resp = 404
             then (Inl (''scenario with ID '' @ id' @ '' not found''), tr')
             else if StatusCode resp \<ge> 400 then (Inl (HandleErrorResponse L resp), tr')
             else (case Decode_ScenarioResponse L (Body resp) of
                     Inl err \<Rightarrow> (Inl (''failed to decode response: '' @ err), tr')
                   | Inr scenario \<Rightarrow> (Inr scenario, tr')))"

definition DeleteScenario ::
  "go_lib \<Rightarrow> MakeAPIClient \<Rightarrow> string \<Rightarrow> trace \<Rightarrow> (go_error + unit) \<times> trace" where
  "DeleteScenario L c id' tr =
     (let endpoint = ''v2/scenarios/'' @ id'
      in case MakeRequest L c ''DELETE'' endpoint None tr of
           (Inl err, tr') \<Rightarrow> (Inl err, tr')
         | (Inr resp, tr') \<Rightarrow>
             if StatusCode resp = 404 then (Inr (), tr')
             else if StatusCode resp \<ge> 400 then (Inl (HandleErrorResponse L resp), tr')
             else (Inr (), tr'))"

definition CreateConnection ::
  "go_lib \<Rightarrow> MakeAPIClient \<Rightarrow> ConnectionRequest \<Rightarrow> trace \<Rightarrow> (go_error + ConnectionResponse) \<times> trace" where
  "CreateConnection L c req tr =
     (case MakeRequest L c ''POST'' ''v2/connections'' (Some (ConnectionBody req)) tr of
        (Inl err, tr') \<Rightarrow> (Inl err, tr')
      | (Inr resp, tr') \<Rightarrow>
          if StatusCode resp \<ge> 400 then (Inl (HandleErrorResponse L resp), tr')
          else (case Decode_ConnectionResponse L (Body resp) of
                  Inl err \<Rightarrow> (Inl (''failed to decode response: '' @ err), tr')
                | Inr connection \<Rightarrow> (Inr connection, tr')))"

definition GetConnection ::
  "go_lib \<Rightarrow> MakeAPIClient \<Rightarrow> string \<Rightarrow> trace \<Rightarrow> (go_error + ConnectionResponse) \<times> trace" where
  "GetConnection L c id' tr =
     (let endpoint = ''v2/connections/'' @ id'
      in case MakeRequest L c ''GET'' endpoint None tr of
           (Inl err, tr') \<Rightarrow> (Inl err, tr')
         | (Inr resp, tr') \<Rightarrow>
             if StatusCode resp = 404
             then (Inl (''connection with ID '' @ id' @ '' not found''), tr')
             else if StatusCode resp \<ge> 400 then (Inl (HandleErrorResponse L resp), tr')
             else (case Decode_ConnectionResponse L (Body resp) of
                     Inl err \<Rightarrow> (Inl (''failed to decode response: '' @ err), tr')
                   | Inr connection \<Rightarrow> (Inr connection, tr')))"

definition UpdateConnection ::
  "go_lib \<Rightarrow> MakeAPIClient \<Rightarrow> string \<Rightarrow> ConnectionRequest \<Rightarrow> trace \<Rightarrow>
   (go_error + ConnectionResponse) \<times> trace" where
  "UpdateConnection L c id' req tr =
     (let endpoint = ''v2/connections/'' @ id'
      in case MakeRequest L c ''PUT'' endpoint (Some (ConnectionBody req)) tr of
           (Inl err, tr') \<Rightarrow> (Inl err, tr')
         | (Inr resp, tr') \<Rightarrow>
             if StatusCode resp = 404
             then (Inl (''connection with ID '' @ id' @ '' not found''), tr')
             else if StatusCode resp \<ge> 400 then (Inl (HandleErrorResponse L resp), tr')
             else (case Decode_ConnectionResponse L (Body resp) of
                     Inl err \<Rightarrow> (Inl (''failed to decode response: '' @ err), tr')
                   | Inr connection \<Rightarrow> (Inr connection, tr')))"

definition DeleteConnection ::
  "go_lib \<Rightarrow> MakeAPIClient \<Rightarrow> string \<Rightarrow> trace \<Rightarrow> (go_error + unit) \<times> trace" where
  "DeleteConnection L c id' tr =
     (let endpoint = ''v2/connections/'' @ id'
      in case MakeRequest L c ''DELETE'' endpoint None tr of
           (Inl err, tr') \<Rightarrow> (Inl err, tr')
         | (Inr resp, tr') \<Rightarrow>
             if StatusCode resp = 404 then (Inr (), tr')
             else if StatusCode resp \<ge> 400 then (Inl (HandleErrorResponse L resp), tr')
             else (Inr (), tr'))"

definition CreateWebhook ::
  "go_lib \<Rightarrow> MakeAPIClient \<Rightarrow> WebhookRequest \<Rightarrow> trace \<Rightarrow> (go_error + WebhookResponse) \<times> trace" where
  "CreateWebhook L c req tr =
     (case MakeRequest L c ''POST'' ''v2/webhooks'' (Some (WebhookBody req)) tr of
        (Inl err, tr') \<Rightarrow> (Inl err, tr')
      | (Inr resp, tr') \<Rightarrow>
          if StatusCode resp \<ge> 400 then (Inl (HandleErrorResponse L resp), tr')
          else (case Decode_WebhookResponse L (Body resp) of
                  Inl err \<Rightarrow> (Inl (''failed to decode response: '' @ err), tr')
                | Inr webhook \<Rightarrow> (Inr webhook, tr')))"

definition GetWebhook ::
  "go_lib \<Rightarrow> MakeAPIClient \<Rightarrow> string \<Rightarrow> trace \<Rightarrow> (go_error + WebhookResponse) \<times> trace" where
  "GetWebhook L c id' tr =
     (let endpoint = ''v2/webhooks/'' @ id'
      in case MakeRequest L c ''GET'' endpoint None tr of
           (Inl err, tr') \<Rightarrow> (Inl err, tr')
         | (Inr resp, tr') \<Rightarrow>
             if StatusCode resp = 404
             then (Inl (''webhook with ID '' @ id' @ '' not found''), tr')
             else if StatusCode resp \<ge> 400 then (Inl (HandleErrorResponse L resp), tr')
             else (case Decode_WebhookResponse L (Body resp) of
                     Inl err \<Rightarrow> (Inl (''failed to decode response: '' @ err), tr')
                   | Inr webhook \<Rightarrow> (Inr webhook, tr')))"

definition UpdateWebhook ::
  "go_lib \<Rightarrow> MakeAPIClient \<Rightarrow> string \<Rightarrow> WebhookRequest \<Rightarrow> trace \<Rightarrow>
   (go_error + WebhookResponse) \<times> trace" where
  "UpdateWebhook L c id' req tr =
     (let endpoint = ''v2/webhooks/'' @ id'
      in case MakeRequest L c ''PUT'' endpoint (Some (WebhookBody req)) tr of
           (Inl err, tr') \<Rightarrow> (Inl err, tr')
         | (Inr resp, tr') \<Rightarrow>
             if StatusCode resp = 404
             then (Inl (''webhook with ID '' @ id' @ '' not found''), tr')
             else if StatusCode resp \<ge> 400 then (Inl (HandleErrorResponse L resp), tr')
             else (case Decode_WebhookResponse L (Body resp) of
                     Inl err \<Rightarrow> (Inl (''failed to decode response: '' @ err), tr')
                   | Inr webhook \<Rightarrow> (Inr webhook, tr')))"

definition DeleteWebhook ::
  "go_lib \<Rightarrow> MakeAPIClient \<Rightarrow> string \<Rightarrow> trace \<Rightarrow> (go_error + unit) \<times> trace" where
  "DeleteWebhook L c id' tr =
     (let endpoint = ''v2/webhooks/'' @ id'
      in case MakeRequest L c ''DELETE'' endpoint None tr of
           (Inl err, tr') \<Rightarrow> (Inl err, tr')
         | (Inr resp, tr') \<Rightarrow>
             if StatusCode resp = 404 then (Inr (), tr')
             else if StatusCode resp \<ge> 400 then (Inl (HandleErrorResponse L resp), tr')
             else (Inr (), tr'))"

definition CreateTeam ::
  "go_lib \<Rightarrow> MakeAPIClient \<Rightarrow> TeamRequest \<Rightarrow> trace \<Rightarrow> (go_error + TeamResponse) \<times> trace" where
  "CreateTeam L c req tr =
     (case MakeRequest L c ''POST'' ''v2/teams'' (Some (TeamBody req)) tr of
        (Inl err, tr') \<Rightarrow> (Inl err, tr')
      | (Inr resp, tr') \<Rightarrow>
          if StatusCode resp \<ge> 400 then (Inl (HandleErrorResponse L resp), tr')
          else (case Decode_TeamResponse L (Body resp) of
                  Inl err \<Rightarrow> (Inl (''failed to decode response: '' @ err), tr')
                | Inr team \<Rightarrow> (Inr team, tr')))"

definition GetTeam ::
  "go_lib \<Rightarrow> MakeAPIClient \<Rightarrow> string \<Rightarrow> trace \<Rightarrow> (go_error + TeamResponse) \<times> trace" where
  "GetTeam L c id' tr =
     (let endpoint = ''v2/teams/'' @ id'
      in case MakeRequest L c ''GET'' endpoint None tr of
           (Inl err, tr') \<Rightarrow> (Inl err, tr')
         | (Inr resp, tr') \<Rightarrow>
             if StatusCode resp = 404
             then (Inl (''team with ID '' @ id' @ '' not found''), tr')
             else if StatusCode resp \<ge> 400 then (Inl (HandleErrorResponse L resp), tr')
             else (case Decode_TeamResponse L (Body resp) of
                     Inl err \<Rightarrow> (Inl (''failed to decode response: '' @ err), tr')
                   | Inr team \<Rightarrow> (Inr team, tr')))"

definition UpdateTeam ::
  "go_lib \<Rightarrow> MakeAPIClient \<Rightarrow> string \<Rightarrow> TeamRequest \<Rightarrow> trace \<Rightarrow>
   (go_error + TeamResponse) \<times> trace" where
  "UpdateTeam L c id' req tr =
     (let endpoint = ''v2/teams/'' @ id'
      in case MakeRequest L c ''PUT'' endpoint (Some (TeamBody req)) tr of
           (Inl err, tr') \<Rightarrow> (Inl err, tr')
         | (Inr resp, tr') \<Rightarrow>
             if StatusCode resp = 404
             then (Inl (''team with ID '' @ id' @ '' not found''), tr')
             else if StatusCode resp \<ge> 400 then (Inl (HandleErrorResponse L resp), tr')
             else (case Decode_TeamResponse L (Body resp) of
                     Inl err \<Rightarrow> (Inl (''failed to decode response: '' @ err), tr')
                   | Inr team \<Rightarrow> (Inr team, tr')))"

definition DeleteTeam ::
  "go_lib \<Rightarrow> MakeAPIClient \<Rightarrow> string \<Rightarrow> trace \<Rightarrow> (go_error + unit) \<times> trace" where
  "DeleteTeam L c id' tr =
     (let endpoint = ''v2/teams/'' @ id'
      in case MakeRequest L c ''DELETE'' endpoint None tr of
           (Inl err, tr') \<Rightarrow> (Inl err, tr')
         | (Inr resp, tr') \<Rightarrow>
             if StatusCode resp = 404 then (Inr (), tr')
             else if StatusCode resp \<ge> 400 then (Inl (HandleErrorResponse L resp), tr')
             else (Inr (), tr'))"

definition CreateOrganization ::
  "go_lib \<Rightarrow> MakeAPIClient \<Rightarrow> OrganizationRequest \<Rightarrow> trace \<Rightarrow> (go_error + OrganizationResponse) \<times> trace" where
  "CreateOrganization L c req tr =
     (case MakeRequest L c ''POST'' ''v2/organizations'' (Some (OrganizationBody req)) tr of
        (Inl err, tr') \<Rightarrow> (Inl err, tr')
      | (Inr resp, tr') \<Rightarrow>
          if StatusCode resp \<ge> 400 then (Inl (HandleErrorResponse L resp), tr')
          else (case Decode_OrganizationResponse L (Body resp) of
                  Inl err \<Rightarrow> (Inl (''failed to decode response: '' @ err), tr')
                | Inr org \<Rightarrow> (Inr org, tr')))"

definition GetOrganization ::
  "go_lib \<Rightarrow> MakeAPIClient \<Rightarrow> string \<Rightarrow> trace \<Rightarrow> (go_error + OrganizationResponse) \<times> trace" where
  "GetOrganization L c id' tr =
     (let endpoint = ''v2/organizations/'' @ id'
      in case MakeRequest L c ''GET'' endpoint None tr of
           (Inl err, tr') \<Rightarrow> (Inl err, tr')
         | (Inr resp, tr') \<Rightarrow>
             if StatusCode resp = 404
             then (Inl (''organization with ID '' @ id' @ '' not found''), tr')
             else if StatusCode resp \<ge> 400 then (Inl (HandleErrorResponse L resp), tr')
             else (case Decode_OrganizationResponse L (Body resp) of
                     Inl err \<Rightarrow> (Inl (''failed to decode response: '' @ err), tr')
                   | Inr org \<Rightarrow> (Inr org, tr')))"

definition UpdateOrganization ::
  "go_lib \<Rightarrow> MakeAPIClient \<Rightarrow> string \<Rightarrow> OrganizationRequest \<Rightarrow> trace \<Rightarrow>
   (go_error + OrganizationResponse) \<times> trace" where
  "UpdateOrganization L c id' req tr =
     (let endpoint = ''v2/organizations/'' @ id'
      in case MakeRequest L c ''PUT'' endpoint (Some (OrganizationBody req)) tr of
           (Inl err, tr') \<Rightarrow> (Inl err, tr')
         | (Inr resp, tr') \<Rightarrow>
             if StatusCode resp = 404
             then (Inl (''organization with ID '' @ id' @ '' not found''), tr')
             else if StatusCode resp \<ge> 400 then (Inl (HandleErrorResponse L resp), tr')
             else (case Decode_OrganizationResponse L (Body resp) of
                     Inl err \<Rightarrow> (Inl (''failed to decode response: '' @ err), tr')
                   | Inr org \<Rightarrow> (Inr org, tr')))"

definition DeleteOrganization ::
  "go_lib \<Rightarrow> MakeAPIClient \<Rightarrow> string \<Rightarrow> trace \<Rightarrow> (go_error + unit) \<times> trace" where
  "DeleteOrganization L c id' tr =
     (let endpoint = ''v2/organizations/'' @ id'
      in case MakeRequest L c ''DELETE'' endpoint None tr of
           (Inl err, tr') \<Rightarrow> (Inl err, tr')
         | (Inr resp, tr') \<Rightarrow>
             if StatusCode resp = 404 then (Inr (), tr')
             else if StatusCode resp \<ge> 400 then (Inl (HandleErrorResponse L resp), tr')
             else (Inr (), tr'))"

definition CreateDataStore ::
  "go_lib \<Rightarrow> MakeAPIClient \<Rightarrow> DataStoreRequest \<Rightarrow> trace \<Rightarrow> (go_error + DataStoreResponse) \<times> trace" where
  "CreateDataStore L c req tr =
     (case MakeRequest L c ''POST'' ''v2/data-stores'' (Some (DataStoreBody req)) tr of
        (Inl err, tr') \<Rightarrow> (Inl err, tr')
      | (Inr resp, tr') \<Rightarrow>
          if StatusCode resp \<ge> 400 then (Inl (HandleErrorResponse L resp), tr')
          else (case Decode_DataStoreResponse L (Body resp) of
                  Inl err \<Rightarrow> (Inl (''failed to decode response: '' @ err), tr')
                | Inr ds \<Rightarrow> (Inr ds, tr')))"

definition GetDataStore ::
  "go_lib \<Rightarrow> MakeAPIClient \<Rightarrow> string \<Rightarrow> trace \<Rightarrow> (go_error + DataStoreResponse) \<times> trace" where
  "GetDataStore L c id' tr =
     (let endpoint = ''v2/data-stores/'' @ id'
      in case MakeRequest L c ''GET'' endpoint None tr of
           (Inl err, tr') \<Rightarrow> (Inl err, tr')
         | (Inr resp, tr') \<Rightarrow>
             if StatusCode resp = 404
             then (Inl (''data store with ID '' @ id' @ '' not found''), tr')
             else if StatusCode resp \<ge> 400 then (Inl (HandleErrorResponse L resp), tr')
             else (case Decode_DataStoreResponse L (Body resp) of
                     Inl err \<Rightarrow> (Inl (''failed to decode response: '' @ err), tr')
                   | Inr ds \<Rightarrow> (Inr ds, tr')))"

definition UpdateDataStore ::
  "go_lib \<Rightarrow> MakeAPIClient \<Rightarrow> string \<Rightarrow> DataStoreRequest \<Rightarrow> trace \<Rightarrow>
   (go_error + DataStoreResponse) \<times> trace" where
  "UpdateDataStore L c id' req tr =
     (let endpoint = ''v2/data-stores/'' @ id'
      in case MakeRequest L c ''PUT'' endpoint (Some (DataStoreBody req)) tr of
           (Inl err, tr') \<Rightarrow> (Inl err, tr')
         | (Inr resp, tr') \<Rightarrow>
             if StatusCode resp = 404
             then (Inl (''data store with ID '' @ id' @ '' not found''), tr')
             else if StatusCode resp \<ge> 400 then (Inl (HandleErrorResponse L resp), tr')
             else (case Decode_DataStoreResponse L (Body resp) of
                     Inl err \<Rightarrow> (Inl (''failed to decode response: '' @ err), tr')
                   | Inr ds \<Rightarrow> (Inr ds, tr')))"

definition DeleteDataStore ::
  "go_lib \<Rightarrow> MakeAPIClient \<Rightarrow> string \<Rightarrow> trace \<Rightarrow> (go_error + unit) \<times> trace" where
  "DeleteDataStore L c id' tr =
     (let endpoint = ''v2/data-stores/'' @ id'
      in case MakeRequest L c ''DELETE'' endpoint None tr of
           (Inl err, tr') \<Rightarrow> (Inl err, tr')
         | (Inr resp, tr') \<Rightarrow>
             if StatusCode resp = 404 then (Inr (), tr')
             else if StatusCode resp \<ge> 400 then (Inl (HandleErrorResponse L resp), tr')
             else (Inr (), tr'))"

subsection \<open>The four operations of every kind\<close>

text \<open>
  The gateways are six copies of the same four functions. To state a property of all of
  them at once, \<open>gateway\<close> runs the function a call names and keeps the error it returns
  (\<open>None\<close> for \<open>nil\<close>) and the trace; \<open>call_MakeRequest\<close> is the call of
  \<open>MakeRequest\<close> that function makes.
\<close>

datatype resource_kind = Scenario | Connection | Webhook | Team | Organization | DataStore

datatype gateway_call =
    CreateCall api_request
  | GetCall resource_kind string
  | UpdateCall string api_request
  | DeleteCall resource_kind string

fun returned_error :: "go_error + 'a \<Rightarrow> go_error option" where
  "returned_error (Inl err) = Some err"
| "returned_error (Inr r) = None"

fun gateway :: "go_lib \<Rightarrow> MakeAPIClient \<Rightarrow> gateway_call \<Rightarrow> trace \<Rightarrow> go_error option \<times> trace" where
  "gateway L c (CreateCall (ScenarioBody req)) tr = apfst returned_error (CreateScenario L c req tr)"
| "gateway L c (CreateCall (ConnectionBody req)) tr = apfst returned_error (CreateConnection L c req tr)"
| "gateway L c (CreateCall (WebhookBody req)) tr = apfst returned_error (CreateWebhook L c req tr)"
| "gateway L c (CreateCall (TeamBody req)) tr = apfst returned_error (CreateTeam L c req tr)"
| "gateway L c (CreateCall (OrganizationBody req)) tr = apfst returned_error (CreateOrganization L c req tr)"
| "gateway L c (CreateCall (DataStoreBody req)) tr = apfst returned_error (CreateDataStore L c req tr)"
| "gateway L c (GetCall Scenario id') tr = apfst returned_error (GetScenario L c id' tr)"
| "gateway L c (GetCall Connection id') tr = apfst returned_error (GetConnection L c id' tr)"
| "gateway L c (GetCall Webhook id') tr = apfst returned_error (GetWebhook L c id' tr)"
| "gateway L c (GetCall Team id') tr = apfst returned_error (GetTeam L c id' tr)"
| "gateway L c (GetCall Organization id') tr = apfst returned_error (GetOrganization L c id' tr)"
| "gateway L c (GetCall DataStore id') tr = apfst returned_error (GetDataStore L c id' tr)"
| "gateway L c (UpdateCall id' (ScenarioBody req)) tr = apfst returned_error (UpdateScenario L c id' req tr)"
| "gateway L c (UpdateCall id' (ConnectionBody req)) tr = apfst returned_error (UpdateConnection L c id' req tr)"
| "gateway L c (UpdateCall id' (WebhookBody req)) tr = apfst returned_error (UpdateWebhook L c id' req tr)"
| "gateway L c (UpdateCall id' (TeamBody req)) tr = apfst returned_error (UpdateTeam L c id' req tr)"
| "gateway L c (UpdateCall id' (OrganizationBody req)) tr = apfst returned_error (UpdateOrganization L c id' req tr)"
| "gateway L c (UpdateCall id' (DataStoreBody req)) tr = apfst returned_error (UpdateDataStore L c id' req tr)"
| "gateway L c (DeleteCall Scenario id') tr = apfst returned_error (DeleteScenario L c id' tr)"
| "gateway L c (DeleteCall Connection id') tr = apfst returned_error (DeleteConnection L c id' tr)"
| "gateway L c (DeleteCall Webhook id') tr = apfst returned_error (DeleteWebhook L c id' tr)"
| "gateway L c (DeleteCall Team id') tr = apfst returned_error (DeleteTeam L c id' tr)"
| "gateway L c (DeleteCall Organization id') tr = apfst returned_error (DeleteOrganization L c id' tr)"
| "gateway L c (DeleteCall DataStore id') tr = apfst returned_error (DeleteDataStore L c id' tr)"

fun kind_of :: "api_request \<Rightarrow> resource_kind" where
  "kind_of (ScenarioBody req) = Scenario"
| "kind_of (ConnectionBody req) = Connection"
| "kind_of (WebhookBody req) = Webhook"
| "kind_of (TeamBody req) = Team"
| "kind_of (OrganizationBody req) = Organization"
| "kind_of (DataStoreBody req) = DataStore"

fun kind_name :: "resource_kind \<Rightarrow> string" where
  "kind_name Scenario = ''scenario''"
| "kind_name Connection = ''connection''"
| "kind_name Webhook = ''webhook''"
| "kind_name Team = ''team''"
| "kind_name Organization = ''organization''"
| "kind_name DataStore = ''data store''"

fun collection :: "resource_kind \<Rightarrow> string" where
  "collection Scenario = ''v2/scenarios''"
| "collection Connection = ''v2/connections''"
| "collection Webhook = ''v2/webhooks''"
| "collection Team = ''v2/teams''"
| "collection Organization = ''v2/organizations''"
| "collection DataStore = ''v2/data-stores''"

fun call_MakeRequest ::
  "go_lib \<Rightarrow> MakeAPIClient \<Rightarrow> gateway_call \<Rightarrow> trace \<Rightarrow> (go_error + http_response) \<times> trace" where
  "call_MakeRequest L c (CreateCall req) tr =
     MakeRequest L c ''POST'' (collection (kind_of req)) (Some req) tr"
| "call_MakeRequest L c (GetCall k id') tr =
     MakeRequest L c ''GET'' (collection k @ ''/'' @ id') None tr"
| "call_MakeRequest L c (UpdateCall id' req) tr =
     MakeRequest L c ''PUT'' (collection (kind_of req) @ ''/'' @ id') (Some req) tr"
| "call_MakeRequest L c (DeleteCall k id') tr =
     MakeRequest L c ''DELETE'' (collection k @ ''/'' @ id') None tr"

section \<open>Resources\<close>

text \<open>
  Each resource has the operations \<open>Create\<close>, \<open>Read\<close>, \<open>Update\<close>, \<open>Delete\<close> and
  \<open>ImportState\<close>. An operation takes the plan or the prior state of the request and the
  response of the framework, and returns the response as the function leaves it, with the
  trace of the requests. Two blocks of each function have a definition of their own:
  \<open>_apiReq\<close> is the block that prepares the API request, \<open>_data\<close> the block that maps
  the response of the API to the model. \<open>State.Set\<close> stores the model it is given.
\<close>

subsection \<open>Models\<close>

record ScenarioResourceModel =
  Scenario_Id :: tf_string
  Scenario_Name :: tf_string
  Scenario_Description :: tf_string
  Scenario_Active :: tf_bool
  Scenario_TeamId :: tf_string

record ConnectionResourceModel =
  Connection_Id :: tf_string
  Connection_Name :: tf_string
  Connection_AppName :: tf_string
  Connection_TeamId :: tf_string
  Connection_Settings :: tf_map
  Connection_Verified :: tf_bool

record WebhookResourceModel =
  Webhook_Id :: tf_string
  Webhook_Name :: tf_string
  Webhook_URL :: tf_string
  Webhook_TeamId :: tf_string
  Webhook_Active :: tf_bool
  Webhook_Settings :: tf_map

record TeamResourceModel =
  Team_Id :: tf_string
  Team_Name :: tf_string
  Team_OrganizationId :: tf_string

record OrganizationResourceModel =
  Organization_Id :: tf_string
  Organization_Name :: tf_string

record DataStoreResourceModel =
  DataStore_Id :: tf_string
  DataStore_Name :: tf_string
  DataStore_Description :: tf_string
  DataStore_TeamId :: tf_string

subsection \<open>Settings\<close>

text \<open>
  The type switch of \<open>WebhookResource.Create\<close>: the value of \<open>strVal\<close> for one value of
  the settings map, and the map \<open>settingsVals\<close> the loop builds.
\<close>

definition strVal :: "go_lib \<Rightarrow> go_value \<Rightarrow> string" where
  "strVal L v =
     (case v of
        GoString val \<Rightarrow> val
      | GoStringer val \<Rightarrow> val
      | GoInt val \<Rightarrow> Sprintf_d (sint val)
      | GoInt8 val \<Rightarrow> Sprintf_d (sint val)
      | GoInt16 val \<Rightarrow> Sprintf_d (sint val)
      | GoInt32 val \<Rightarrow> Sprintf_d (sint val)
      | GoInt64 val \<Rightarrow> Sprintf_d (sint val)
      | GoUint val \<Rightarrow> Sprintf_d (uint val)
      | GoUint8 val \<Rightarrow> Sprintf_d (uint val)
      | GoUint16 val \<Rightarrow> Sprintf_d (uint val)
      | GoUint32 val \<Rightarrow> Sprintf_d (uint val)
      | GoUint64 val \<Rightarrow> Sprintf_d (uint val)
      | GoFloat32 val \<Rightarrow> Sprintf_f val
      | GoFloat64 val \<Rightarrow> Sprintf_f val
      | GoBool val \<Rightarrow> Sprintf_t val
      | _ \<Rightarrow> Sprintf_v L v)"

definition settingsVals :: "go_lib \<Rightarrow> (string \<times> go_value) list \<Rightarrow> (string \<times> tf_string) list" where
  "settingsVals L settings = map (\<lambda>(k, v). (k, StringValue (strVal L v))) settings"

text \<open>The loop of the other operations, which format every value with \<open>%v\<close>.\<close>

definition settingsVals_v :: "go_lib \<Rightarrow> (string \<times> go_value) list \<Rightarrow> (string \<times> tf_string) list" where
  "settingsVals_v L settings = map (\<lambda>(k, v). (k, StringValue (Sprintf_v L v))) settings"

text \<open>The settings of a request, from the \<open>map[string]string\<close> read from the plan.\<close>

definition request_Settings :: "(string \<times> string) list \<Rightarrow> (string \<times> go_value) list" where
  "request_Settings settingsMap = map (\<lambda>(k, v). (k, GoString v)) settingsMap"

subsection \<open>Scenario\<close>

definition ScenarioResource_Create_apiReq :: "ScenarioResourceModel \<Rightarrow> ScenarioRequest" where
  "ScenarioResource_Create_apiReq data =
     (let apiReq = \<lparr>ScenarioRequest_Name = ValueString (Scenario_Name data),
                    ScenarioRequest_Description = [],
                    ScenarioRequest_Active = ValueBool (Scenario_Active data),
                    ScenarioRequest_TeamID = []\<rparr>;
          apiReq = (if \<not> String_IsNull (Scenario_Description data)
                    then apiReq\<lparr>ScenarioRequest_Description := ValueString (Scenario_Description data)\<rparr>
                    else apiReq);
          apiReq = (if \<not> String_IsNull (Scenario_TeamId data)
                    then apiReq\<lparr>ScenarioRequest_TeamID := ValueString (Scenario_TeamId data)\<rparr>
                    else apiReq)
      in apiReq)"

definition ScenarioResource_Create_data ::
  "ScenarioResourceModel \<Rightarrow> ScenarioResponse \<Rightarrow> ScenarioResourceModel" where
  "ScenarioResource_Create_data data scenario =
     (let data = data\<lparr>Scenario_Id := StringValue (ScenarioResponse_ID scenario),
                      Scenario_Name := StringValue (ScenarioResponse_Name scenario),
                      Scenario_Active := BoolValue (ScenarioResponse_Active scenario)\<rparr>;
          data = (if ScenarioResponse_Description scenario \<noteq> []
                  then data\<lparr>Scenario_Description := StringValue (ScenarioResponse_Description scenario)\<rparr>
                  else data);
          data = (if ScenarioResponse_TeamID scenario \<noteq> []
                  then data\<lparr>Scenario_TeamId := StringValue (ScenarioResponse_TeamID scenario)\<rparr>
                  else data)
      in data)"

definition ScenarioResource_Create ::
  "go_lib \<Rightarrow> MakeAPIClient \<Rightarrow> ScenarioResourceModel tfsdk_data \<Rightarrow>
   ScenarioResourceModel tf_response \<Rightarrow> trace \<Rightarrow> ScenarioResourceModel tf_response \<times> trace" where
  "ScenarioResource_Create L c req_Plan resp tr =
     (let data = Get_data req_Plan;
          resp = resp\<lparr>Diagnostics := Append (Diagnostics resp) (Get_diags req_Plan)\<rparr>
      in if HasError (Diagnostics resp) then (resp, tr)
         else
           (let apiReq = ScenarioResource_Create_apiReq data
            in case CreateScenario L c apiReq tr of
                 (Inl err, tr') \<Rightarrow>
                   (resp\<lparr>Diagnostics := AddError ''Client Error''
                       (''Unable to create scenario, got error: '' @ err) (Diagnostics resp)\<rparr>, tr')
               | (Inr scenario, tr') \<Rightarrow>
                   (resp\<lparr>State := Some (ScenarioResource_Create_data data scenario)\<rparr>, tr')))"

definition ScenarioResource_Read_data ::
  "ScenarioResourceModel \<Rightarrow> ScenarioResponse \<Rightarrow> ScenarioResourceModel" where
  "ScenarioResource_Read_data data scenario =
     (let data = data\<lparr>Scenario_Id := StringValue (ScenarioResponse_ID scenario),
                      Scenario_Name := StringValue (ScenarioResponse_Name scenario),
                      Scenario_Active := BoolValue (ScenarioResponse_Active scenario)\<rparr>;
          data = (if ScenarioResponse_Description scenario \<noteq> []
                  then data\<lparr>Scenario_Description := StringValue (ScenarioResponse_Description scenario)\<rparr>
                  else data\<lparr>Scenario_Description := StringNull\<rparr>);
          data = (if ScenarioResponse_TeamID scenario \<noteq> []
                  then data\<lparr>Scenario_TeamId := StringValue (ScenarioResponse_TeamID scenario)\<rparr>
                  else data\<lparr>Scenario_TeamId := StringNull\<rparr>)
      in data)"

definition ScenarioResource_Read ::
  "go_lib \<Rightarrow> MakeAPIClient \<Rightarrow> ScenarioResourceModel tfsdk_data \<Rightarrow>
   ScenarioResourceModel tf_response \<Rightarrow> trace \<Rightarrow> ScenarioResourceModel tf_response \<times> trace" where
  "ScenarioResource_Read L c req_State resp tr =
     (let data = Get_data req_State;
          resp = resp\<lparr>Diagnostics := Append (Diagnostics resp) (Get_diags req_State)\<rparr>
      in if HasError (Diagnostics resp) then (resp, tr)
         else
           (case GetScenario L c (ValueString (Scenario_Id data)) tr of
              (Inl err, tr') \<Rightarrow>
                (resp\<lparr>Diagnostics := AddError ''Client Error''
                    (''Unable to read scenario, got error: '' @ err) (Diagnostics resp)\<rparr>, tr')
            | (Inr scenario, tr') \<Rightarrow>
                (resp\<lparr>State := Some (ScenarioResource_Read_data data scenario)\<rparr>, tr')))"

definition ScenarioResource_Update_apiReq :: "ScenarioResourceModel \<Rightarrow> ScenarioRequest" where
  "ScenarioResource_Update_apiReq data =
     (let apiReq = \<lparr>ScenarioRequest_Name = ValueString (Scenario_Name data),
                    ScenarioRequest_Description = [],
                    ScenarioRequest_Active = ValueBool (Scenario_Active data),
                    ScenarioRequest_TeamID = []\<rparr>;
          apiReq = (if \<not> String_IsNull (Scenario_Description data)
                    then apiReq\<lparr>ScenarioRequest_Description := ValueString (Scenario_Description data)\<rparr>
                    else apiReq);
          apiReq = (if \<not> String_IsNull (Scenario_TeamId data)
                    then apiReq\<lparr>ScenarioRequest_TeamID := ValueString (Scenario_TeamId data)\<rparr>
                    else apiReq)
      in apiReq)"

definition ScenarioResource_Update_data ::
  "ScenarioResourceModel \<Rightarrow> ScenarioResponse \<Rightarrow> ScenarioResourceModel" where
  "ScenarioResource_Update_data data scenario =
     (let data = data\<lparr>Scenario_Id := StringValue (ScenarioResponse_ID scenario),
                      Scenario_Name := StringValue (ScenarioResponse_Name scenario),
                      Scenario_Active := BoolValue (ScenarioResponse_Active scenario)\<rparr>;
          data = (if ScenarioResponse_Description scenario \<noteq> []
                  then data\<lparr>Scenario_Description := StringValue (ScenarioResponse_Description scenario)\<rparr>
                  else data\<lparr>Scenario_Description := StringNull\<rparr>);
          data = (if ScenarioResponse_TeamID scenario \<noteq> []
                  then data\<lparr>Scenario_TeamId := StringValue (ScenarioResponse_TeamID scenario)\<rparr>
                  else data\<lparr>Scenario_TeamId := StringNull\<rparr>)
      in data)"

definition ScenarioResource_Update ::
  "go_lib \<Rightarrow> MakeAPIClient \<Rightarrow> ScenarioResourceModel tfsdk_data \<Rightarrow>
   ScenarioResourceModel tf_response \<Rightarrow> trace \<Rightarrow> ScenarioResourceModel tf_response \<times> trace" where
  "ScenarioResource_Update L c req_Plan resp tr =
     (let data = Get_data req_Plan;
          resp = resp\<lparr>Diagnostics := Append (Diagnostics resp) (Get_diags req_Plan)\<rparr>
      in if HasError (Diagnostics resp) then (resp, tr)
         else
           (let apiReq = ScenarioResource_Update_apiReq data
            in case UpdateScenario L c (ValueString (Scenario_Id data)) apiReq tr of
                 (Inl err, tr') \<Rightarrow>
                   (resp\<lparr>Diagnostics := AddError ''Client Error''
                       (''Unable to update scenario, got error: '' @ err) (Diagnostics resp)\<rparr>, tr')
               | (Inr scenario, tr') \<Rightarrow>
                   (resp\<lparr>State := Some (ScenarioResource_Update_data data scenario)\<rparr>, tr')))"

definition ScenarioResource_Delete ::
  "go_lib \<Rightarrow> MakeAPIClient \<Rightarrow> ScenarioResourceModel tfsdk_data \<Rightarrow>
   ScenarioResourceModel tf_response \<Rightarrow> trace \<Rightarrow> ScenarioResourceModel tf_response \<times> trace" where
  "ScenarioResource_Delete L c req_State resp tr =
     (let data = Get_data req_State;
          resp = resp\<lparr>Diagnostics := Append (Diagnostics resp) (Get_diags req_State)\<rparr>
      in if HasError (Diagnostics resp) then (resp, tr)
         else
           (case DeleteScenario L c (ValueString (Scenario_Id data)) tr of
              (Inl err, tr') \<Rightarrow>
                (resp\<lparr>Diagnostics := AddError ''Client Error''
                    (''Unable to delete scenario, got error: '' @ err) (Diagnostics resp)\<rparr>, tr')
            | (Inr u, tr') \<Rightarrow> (resp, tr')))"


subsection \<open>Connection\<close>

text \<open>
  \<open>Create\<close> and \<open>Update\<close> return early when reading the settings of the plan fails; the
  rest of each function, from the call of the API on, is \<open>ConnectionResource_Create_call\<close> and
  \<open>ConnectionResource_Update_call\<close>.
\<close>

definition ConnectionResource_Create_apiReq :: "ConnectionResourceModel \<Rightarrow> ConnectionRequest" where
  "ConnectionResource_Create_apiReq data =
     (let apiReq = \<lparr>ConnectionRequest_Name = ValueString (Connection_Name data),
                    ConnectionRequest_AppName = ValueString (Connection_AppName data),
                    ConnectionRequest_TeamID = [],
                    ConnectionRequest_Settings = []\<rparr>;
          apiReq = (if \<not> String_IsNull (Connection_TeamId data)
                    then apiReq\<lparr>ConnectionRequest_TeamID := ValueString (Connection_TeamId data)\<rparr>
                    else apiReq)
      in apiReq)"

definition ConnectionResource_Create_data ::
  "go_lib \<Rightarrow> ConnectionResourceModel \<Rightarrow> ConnectionResponse \<Rightarrow> ConnectionResourceModel" where
  "ConnectionResource_Create_data L data connection =
     (let data = data\<lparr>Connection_Id := StringValue (ConnectionResponse_ID connection),
                      Connection_Name := StringValue (ConnectionResponse_Name connection),
                      Connection_AppName := StringValue (ConnectionResponse_AppName connection),
                      Connection_Verified := BoolValue (ConnectionResponse_Verified connection)\<rparr>;
          data = (if ConnectionResponse_TeamID connection \<noteq> []
                  then data\<lparr>Connection_TeamId := StringValue (ConnectionResponse_TeamID connection)\<rparr>
                  else data);
          data = (if ConnectionResponse_Settings connection \<noteq> []
                  then data\<lparr>Connection_Settings :=
                              MapValue (settingsVals_v L (ConnectionResponse_Settings connection))\<rparr>
                  else data)
      in data)"

definition ConnectionResource_Create_call ::
  "go_lib \<Rightarrow> MakeAPIClient \<Rightarrow> ConnectionResourceModel \<Rightarrow> ConnectionRequest \<Rightarrow>
   ConnectionResourceModel tf_response \<Rightarrow> trace \<Rightarrow> ConnectionResourceModel tf_response \<times> trace" where
  "ConnectionResource_Create_call L c data apiReq resp tr =
     (case CreateConnection L c apiReq tr of
        (Inl err, tr') \<Rightarrow>
          (resp\<lparr>Diagnostics := AddError ''Client Error''
              (''Unable to create connection, got error: '' @ err) (Diagnostics resp)\<rparr>, tr')
      | (Inr connection, tr') \<Rightarrow>
          (resp\<lparr>State := Some (ConnectionResource_Create_data L data connection)\<rparr>, tr'))"

definition ConnectionResource_Create ::
  "go_lib \<Rightarrow> MakeAPIClient \<Rightarrow> ConnectionResourceModel tfsdk_data \<Rightarrow>
   ConnectionResourceModel tf_response \<Rightarrow> trace \<Rightarrow> ConnectionResourceModel tf_response \<times> trace" where
  "ConnectionResource_Create L c req_Plan resp tr =
     (let data = Get_data req_Plan;
          resp = resp\<lparr>Diagnostics := Append (Diagnostics resp) (Get_diags req_Plan)\<rparr>
      in if HasError (Diagnostics resp) then (resp, tr)
         else
           (let apiReq = ConnectionResource_Create_apiReq data
            in if \<not> Map_IsNull (Connection_Settings data)
               then (case ElementsAs L (Connection_Settings data) of
                       (ds, settingsMap) \<Rightarrow>
                         (let resp = resp\<lparr>Diagnostics := Append (Diagnostics resp) ds\<rparr>
                          in if HasError (Diagnostics resp) then (resp, tr)
                             else ConnectionResource_Create_call L c data
                                    (apiReq\<lparr>ConnectionRequest_Settings := request_Settings settingsMap\<rparr>)
                                    resp tr))
               else ConnectionResource_Create_call L c data apiReq resp tr))"

definition ConnectionResource_Read_data ::
  "go_lib \<Rightarrow> ConnectionResourceModel \<Rightarrow> ConnectionResponse \<Rightarrow> ConnectionResourceModel" where
  "ConnectionResource_Read_data L data connection =
     (let data = data\<lparr>Connection_Id := StringValue (ConnectionResponse_ID connection),
                      Connection_Name := StringValue (ConnectionResponse_Name connection),
                      Connection_AppName := StringValue (ConnectionResponse_AppName connection),
                      Connection_Verified := BoolValue (ConnectionResponse_Verified connection)\<rparr>;
          data = (if ConnectionResponse_TeamID connection \<noteq> []
                  then data\<lparr>Connection_TeamId := StringValue (ConnectionResponse_TeamID connection)\<rparr>
                  else data\<lparr>Connection_TeamId := StringNull\<rparr>);
          data = (if ConnectionResponse_Settings connection \<noteq> []
                  then data\<lparr>Connection_Settings :=
                              MapValue (settingsVals_v L (ConnectionResponse_Settings connection))\<rparr>
                  else data\<lparr>Connection_Settings := MapNull\<rparr>)
      in data)"

definition ConnectionResource_Read ::
  "go_lib \<Rightarrow> MakeAPIClient \<Rightarrow> ConnectionResourceModel tfsdk_data \<Rightarrow>
   ConnectionResourceModel tf_response \<Rightarrow> trace \<Rightarrow> ConnectionResourceModel tf_response \<times> trace" where
  "ConnectionResource_Read L c req_State resp tr =
     (let data = Get_data req_State;
          resp = resp\<lparr>Diagnostics := Append (Diagnostics resp) (Get_diags req_State)\<rparr>
      in if HasError (Diagnostics resp) then (resp, tr)
         else
           (case GetConnection L c (ValueString (Connection_Id data)) tr of
              (Inl err, tr') \<Rightarrow>
                (resp\<lparr>Diagnostics := AddError ''Client Error''
                    (''Unable to read connection, got error: '' @ err) (Diagnostics resp)\<rparr>, tr')
            | (Inr connection, tr') \<Rightarrow>
                (resp\<lparr>State := Some (ConnectionResource_Read_data L data connection)\<rparr>, tr')))"

definition ConnectionResource_Update_apiReq :: "ConnectionResourceModel \<Rightarrow> ConnectionRequest" where
  "ConnectionResource_Update_apiReq data =
     (let apiReq = \<lparr>ConnectionRequest_Name = ValueString (Connection_Name data),
                    ConnectionRequest_AppName = ValueString (Connection_AppName data),
                    ConnectionRequest_TeamID = [],
                    ConnectionRequest_Settings = []\<rparr>;
          apiReq = (if \<not> String_IsNull (Connection_TeamId data)
                    then apiReq\<lparr>ConnectionRequest_TeamID := ValueString (Connection_TeamId data)\<rparr>
                    else apiReq)
      in apiReq)"

definition ConnectionResource_Update_data ::
  "go_lib \<Rightarrow> ConnectionResourceModel \<Rightarrow> ConnectionResponse \<Rightarrow> ConnectionResourceModel" where
  "ConnectionResource_Update_data L data connection =
     (let data = data\<lparr>Connection_Id := StringValue (ConnectionResponse_ID connection),
                      Connection_Name := StringValue (ConnectionResponse_Name connection),
                      Connection_AppName := StringValue (ConnectionResponse_AppName connection),
                      Connection_Verified := BoolValue (ConnectionResponse_Verified connection)\<rparr>;
          data = (if ConnectionResponse_TeamID connection \<noteq> []
                  then data\<lparr>Connection_TeamId := StringValue (ConnectionResponse_TeamID connection)\<rparr>
                  else data\<lparr>Connection_TeamId := StringNull\<rparr>);
          data = (if ConnectionResponse_Settings connection \<noteq> []
                  then data\<lparr>Connection_Settings :=
                              MapValue (settingsVals_v L (ConnectionResponse_Settings connection))\<rparr>
                  else data\<lparr>Connection_Settings := MapNull\<rparr>)
      in data)"

definition ConnectionResource_Update_call ::
  "go_lib \<Rightarrow> MakeAPIClient \<Rightarrow> ConnectionResourceModel \<Rightarrow> ConnectionRequest \<Rightarrow>
   ConnectionResourceModel tf_response \<Rightarrow> trace \<Rightarrow> ConnectionResourceModel tf_response \<times> trace" where
  "ConnectionResource_Update_call L c data apiReq resp tr =
     (case UpdateConnection L c (ValueString (Connection_Id data)) apiReq tr of
        (Inl err, tr') \<Rightarrow>
          (resp\<lparr>Diagnostics := AddError ''Client Error''
              (''Unable to update connection, got error: '' @ err) (Diagnostics resp)\<rparr>, tr')
      | (Inr connection, tr') \<Rightarrow>
          (resp\<lparr>State := Some (ConnectionResource_Update_data L data connection)\<rparr>, tr'))"

definition ConnectionResource_Update ::
  "go_lib \<Rightarrow> MakeAPIClient \<Rightarrow> ConnectionResourceModel tfsdk_data \<Rightarrow>
   ConnectionResourceModel tf_response \<Rightarrow> trace \<Rightarrow> ConnectionResourceModel tf_response \<times> trace" where
  "ConnectionResource_Update L c req_Plan resp tr =
     (let data = Get_data req_Plan;
          resp = resp\<lparr>Diagnostics := Append (Diagnostics resp) (Get_diags req_Plan)\<rparr>
      in if HasError (Diagnostics resp) then (resp, tr)
         else
           (let apiReq = ConnectionResource_Update_apiReq data
            in if \<not> Map_IsNull (Connection_Settings data)
               then (case ElementsAs L (Connection_Settings data) of
                       (ds, settingsMap) \<Rightarrow>
                         (let resp = resp\<lparr>Diagnostics := Append (Diagnostics resp) ds\<rparr>
                          in if HasError (Diagnostics resp) then (resp, tr)
                             else ConnectionResource_Update_call L c data
                                    (apiReq\<lparr>ConnectionRequest_Settings := request_Settings settingsMap\<rparr>)
                                    resp tr))
               else ConnectionResource_Update_call L c data apiReq resp tr))"

definition ConnectionResource_Delete ::
  "go_lib \<Rightarrow> MakeAPIClient \<Rightarrow> ConnectionResourceModel tfsdk_data \<Rightarrow>
   ConnectionResourceModel tf_response \<Rightarrow> trace \<Rightarrow> ConnectionResourceModel tf_response \<times> trace" where
  "ConnectionResource_Delete L c req_State resp tr =
     (let data = Get_data req_State;
          resp = resp\<lparr>Diagnostics := Append (Diagnostics resp) (Get_diags req_State)\<rparr>
      in if HasError (Diagnostics resp) then (resp, tr)
         else
           (case DeleteConnection L c (ValueString (Connection_Id data)) tr of
              (Inl err, tr') \<Rightarrow>
                (resp\<lparr>Diagnostics := AddError ''Client Error''
                    (''Unable to delete connection, got error: '' @ err) (Diagnostics resp)\<rparr>, tr')
            | (Inr u, tr') \<Rightarrow> (resp, tr')))"


subsection \<open>Webhook\<close>

text \<open>
  \<open>Create\<close> and \<open>Update\<close> return early when reading the settings of the plan fails; the
  rest of each function, from the call of the API on, is \<open>WebhookResource_Create_call\<close> and
  \<open>WebhookResource_Update_call\<close>.
\<close>

definition WebhookResource_Create_apiReq :: "WebhookResourceModel \<Rightarrow> WebhookRequest" where
  "WebhookResource_Create_apiReq data =
     (let apiReq = \<lparr>WebhookRequest_Name = ValueString (Webhook_Name data),
                    WebhookRequest_URL = [],
                    WebhookRequest_TeamID = [],
                    WebhookRequest_Active = ValueBool (Webhook_Active data),
                    WebhookRequest_Settings = []\<rparr>;
          apiReq = (if \<not> String_IsNull (Webhook_TeamId data)
                    then apiReq\<lparr>WebhookRequest_TeamID := ValueString (Webhook_TeamId data)\<rparr>
                    else apiReq)
      in apiReq)"

definition WebhookResource_Create_data ::
  "go_lib \<Rightarrow> WebhookResourceModel \<Rightarrow> WebhookResponse \<Rightarrow> WebhookResourceModel" where
  "WebhookResource_Create_data L data webhook =
     (let data = data\<lparr>Webhook_Id := StringValue (WebhookResponse_ID webhook),
                      Webhook_Name := StringValue (WebhookResponse_Name webhook),
                      Webhook_URL := StringValue (WebhookResponse_URL webhook),
                      Webhook_Active := BoolValue (WebhookResponse_Active webhook)\<rparr>;
          data = (if WebhookResponse_TeamID webhook \<noteq> []
                  then data\<lparr>Webhook_TeamId := StringValue (WebhookResponse_TeamID webhook)\<rparr>
                  else data);
          data = (if WebhookResponse_Settings webhook \<noteq> []
                  then data\<lparr>Webhook_Settings :=
                              MapValue (settingsVals L (WebhookResponse_Settings webhook))\<rparr>
                  else data)
      in data)"

definition WebhookResource_Create_call ::
  "go_lib \<Rightarrow> MakeAPIClient \<Rightarrow> WebhookResourceModel \<Rightarrow> WebhookRequest \<Rightarrow>
   WebhookResourceModel tf_response \<Rightarrow> trace \<Rightarrow> WebhookResourceModel tf_response \<times> trace" where
  "WebhookResource_Create_call L c data apiReq resp tr =
     (case CreateWebhook L c apiReq tr of
        (Inl err, tr') \<Rightarrow>
          (resp\<lparr>Diagnostics := AddError ''Client Error''
              (''Unable to create webhook, got error: '' @ err) (Diagnostics resp)\<rparr>, tr')
      | (Inr webhook, tr') \<Rightarrow>
          (resp\<lparr>State := Some (WebhookResource_Create_data L data webhook)\<rparr>, tr'))"

definition WebhookResource_Create ::
  "go_lib \<Rightarrow> MakeAPIClient \<Rightarrow> WebhookResourceModel tfsdk_data \<Rightarrow>
   WebhookResourceModel tf_response \<Rightarrow> trace \<Rightarrow> WebhookResourceModel tf_response \<times> trace" where
  "WebhookResource_Create L c req_Plan resp tr =
     (let data = Get_data req_Plan;
          resp = resp\<lparr>Diagnostics := Append (Diagnostics resp) (Get_diags req_Plan)\<rparr>
      in if HasError (Diagnostics resp) then (resp, tr)
         else
           (let apiReq = WebhookResource_Create_apiReq data
            in if \<not> Map_IsNull (Webhook_Settings data)
               then (case ElementsAs L (Webhook_Settings data) of
                       (ds, settingsMap) \<Rightarrow>
                         (let resp = resp\<lparr>Diagnostics := Append (Diagnostics resp) ds\<rparr>
                          in if HasError (Diagnostics resp) then (resp, tr)
                             else WebhookResource_Create_call L c data
                                    (apiReq\<lparr>WebhookRequest_Settings := request_Settings settingsMap\<rparr>)
                                    resp tr))
               else WebhookResource_Create_call L c data apiReq resp tr))"

definition WebhookResource_Read_data ::
  "go_lib \<Rightarrow> WebhookResourceModel \<Rightarrow> WebhookResponse \<Rightarrow> WebhookResourceModel" where
  "WebhookResource_Read_data L data webhook =
     (let data = data\<lparr>Webhook_Id := StringValue (WebhookResponse_ID webhook),
                      Webhook_Name := StringValue (WebhookResponse_Name webhook),
                      Webhook_URL := StringValue (WebhookResponse_URL webhook),
                      Webhook_Active := BoolValue (WebhookResponse_Active webhook)\<rparr>;
          data = (if WebhookResponse_TeamID webhook \<noteq> []
                  then data\<lparr>Webhook_TeamId := StringValue (WebhookResponse_TeamID webhook)\<rparr>
                  else data\<lparr>Webhook_TeamId := StringNull\<rparr>);
          data = (if WebhookResponse_Settings webhook \<noteq> []
                  then data\<lparr>Webhook_Settings :=
                              MapValue (settingsVals_v L (WebhookResponse_Settings webhook))\<rparr>
                  else data\<lparr>Webhook_Settings := MapNull\<rparr>)
      in data)"

definition WebhookResource_Read ::
  "go_lib \<Rightarrow> MakeAPIClient \<Rightarrow> WebhookResourceModel tfsdk_data \<Rightarrow>
   WebhookResourceModel tf_response \<Rightarrow> trace \<Rightarrow> WebhookResourceModel tf_response \<times> trace" where
  "WebhookResource_Read L c req_State resp tr =
     (let data = Get_data req_State;
          resp = resp\<lparr>Diagnostics := Append (Diagnostics resp) (Get_diags req_State)\<rparr>
      in if HasError (Diagnostics resp) then (resp, tr)
         else
           (case GetWebhook L c (ValueString (Webhook_Id data)) tr of
              (Inl err, tr') \<Rightarrow>
                (resp\<lparr>Diagnostics := AddError ''Client Error''
                    (''Unable to read webhook, got error: '' @ err) (Diagnostics resp)\<rparr>, tr')
            | (Inr webhook, tr') \<Rightarrow>
                (resp\<lparr>State := Some (WebhookResource_Read_data L data webhook)\<rparr>, tr')))"

definition WebhookResource_Update_apiReq :: "WebhookResourceModel \<Rightarrow> WebhookRequest" where
  "WebhookResource_Update_apiReq data =
     (let apiReq = \<lparr>WebhookRequest_Name = ValueString (Webhook_Name data),
                    WebhookRequest_URL = [],
                    WebhookRequest_TeamID = [],
                    WebhookRequest_Active = ValueBool (Webhook_Active data),
                    WebhookRequest_Settings = []\<rparr>;
          apiReq = (if \<not> String_IsNull (Webhook_TeamId data)
                    then apiReq\<lparr>WebhookRequest_TeamID := ValueString (Webhook_TeamId data)\<rparr>
                    else apiReq)
      in apiReq)"

definition WebhookResource_Update_data ::
  "go_lib \<Rightarrow> WebhookResourceModel \<Rightarrow> WebhookResponse \<Rightarrow> WebhookResourceModel" where
  "WebhookResource_Update_data L data webhook =
     (let data = data\<lparr>Webhook_Id := StringValue (WebhookResponse_ID webhook),
                      Webhook_Name := StringValue (WebhookResponse_Name webhook),
                      Webhook_URL := StringValue (WebhookResponse_URL webhook),
                      Webhook_Active := BoolValue (WebhookResponse_Active webhook)\<rparr>;
          data = (if WebhookResponse_TeamID webhook \<noteq> []
                  then data\<lparr>Webhook_TeamId := StringValue (WebhookResponse_TeamID webhook)\<rparr>
                  else data\<lparr>Webhook_TeamId := StringNull\<rparr>);
          data = (if WebhookResponse_Settings webhook \<noteq> []
                  then data\<lparr>Webhook_Settings :=
                              MapValue (settingsVals_v L (WebhookResponse_Settings webhook))\<rparr>
                  else data\<lparr>Webhook_Settings := MapNull\<rparr>)
      in data)"

definition WebhookResource_Update_call ::
  "go_lib \<Rightarrow> MakeAPIClient \<Rightarrow> WebhookResourceModel \<Rightarrow> WebhookRequest \<Rightarrow>
   WebhookResourceModel tf_response \<Rightarrow> trace \<Rightarrow> WebhookResourceModel tf_response \<times> trace" where
  "WebhookResource_Update_call L c data apiReq resp tr =
     (case UpdateWebhook L c (ValueString (Webhook_Id data)) apiReq tr of
        (Inl err, tr') \<Rightarrow>
          (resp\<lparr>Diagnostics := AddError ''Client Error''
              (''Unable to update webhook, got error: '' @ err) (Diagnostics resp)\<rparr>, tr')
      | (Inr webhook, tr') \<Rightarrow>
          (resp\<lparr>State := Some (WebhookResource_Update_data L data webhook)\<rparr>, tr'))"

definition WebhookResource_Update ::
  "go_lib \<Rightarrow> MakeAPIClient \<Rightarrow> WebhookResourceModel tfsdk_data \<Rightarrow>
   WebhookResourceModel tf_response \<Rightarrow> trace \<Rightarrow> WebhookResourceModel tf_response \<times> trace" where
  "WebhookResource_Update L c req_Plan resp tr =
     (let data = Get_data req_Plan;
          resp = resp\<lparr>Diagnostics := Append (Diagnostics resp) (Get_diags req_Plan)\<rparr>
      in if HasError (Diagnostics resp) then (resp, tr)
         else
           (let apiReq = WebhookResource_Update_apiReq data
            in if \<not> Map_IsNull (Webhook_Settings data)
               then (case ElementsAs L (Webhook_Settings data) of
                       (ds, settingsMap) \<Rightarrow>
                         (let resp = resp\<lparr>Diagnostics := Append (Diagnostics resp) ds\<rparr>
                          in if HasError (Diagnostics resp) then (resp, tr)
                             else WebhookResource_Update_call L c data
                                    (apiReq\<lparr>WebhookRequest_Settings := request_Settings settingsMap\<rparr>)
                                    resp tr))
               else WebhookResource_Update_call L c data apiReq resp tr))"

definition WebhookResource_Delete ::
  "go_lib \<Rightarrow> MakeAPIClient \<Rightarrow> WebhookResourceModel tfsdk_data \<Rightarrow>
   WebhookResourceModel tf_response \<Rightarrow> trace \<Rightarrow> WebhookResourceModel tf_response \<times> trace" where
  "WebhookResource_Delete L c req_State resp tr =
     (let data = Get_data req_State;
          resp = resp\<lparr>Diagnostics := Append (Diagnostics resp) (Get_diags req_State)\<rparr>
      in if HasError (Diagnostics resp) then (resp, tr)
         else
           (case DeleteWebhook L c (ValueString (Webhook_Id data)) tr of
              (Inl err, tr') \<Rightarrow>
                (resp\<lparr>Diagnostics := AddError ''Client Error''
                    (''Unable to delete webhook, got error: '' @ err) (Diagnostics resp)\<rparr>, tr')
            | (Inr u, tr') \<Rightarrow> (resp, tr')))"


subsection \<open>Team\<close>

definition TeamResource_Create_apiReq :: "TeamResourceModel \<Rightarrow> TeamRequest" where
  "TeamResource_Create_apiReq data =
     (let apiReq = \<lparr>TeamRequest_Name = ValueString (Team_Name data),
                    TeamRequest_OrganizationID = []\<rparr>;
          apiReq = (if \<not> String_IsNull (Team_OrganizationId data)
                    then apiReq\<lparr>TeamRequest_OrganizationID := ValueString (Team_OrganizationId data)\<rparr>
                    else apiReq)
      in apiReq)"

definition TeamResource_Create_data ::
  "TeamResourceModel \<Rightarrow> TeamResponse \<Rightarrow> TeamResourceModel" where
  "TeamResource_Create_data data team =
     (let data = data\<lparr>Team_Id := StringValue (TeamResponse_ID team),
                      Team_Name := StringValue (TeamResponse_Name team)\<rparr>;
          data = (if TeamResponse_OrganizationID team \<noteq> []
                  then data\<lparr>Team_OrganizationId := StringValue (TeamResponse_OrganizationID team)\<rparr>
                  else data)
      in data)"

definition TeamResource_Create ::
  "go_lib \<Rightarrow> MakeAPIClient \<Rightarrow> TeamResourceModel tfsdk_data \<Rightarrow>
   TeamResourceModel tf_response \<Rightarrow> trace \<Rightarrow> TeamResourceModel tf_response \<times> trace" where
  "TeamResource_Create L c req_Plan resp tr =
     (let data = Get_data req_Plan;
          resp = resp\<lparr>Diagnostics := Append (Diagnostics resp) (Get_diags req_Plan)\<rparr>
      in if HasError (Diagnostics resp) then (resp, tr)
         else
           (let apiReq = TeamResource_Create_apiReq data
            in case CreateTeam L c apiReq tr of
                 (Inl err, tr') \<Rightarrow>
                   (resp\<lparr>Diagnostics := AddError ''Client Error''
                       (''Unable to create team, got error: '' @ err) (Diagnostics resp)\<rparr>, tr')
               | (Inr team, tr') \<Rightarrow>
                   (resp\<lparr>State := Some (TeamResource_Create_data data team)\<rparr>, tr')))"

definition TeamResource_Read_data ::
  "TeamResourceModel \<Rightarrow> TeamResponse \<Rightarrow> TeamResourceModel" where
  "TeamResource_Read_data data team =
     (let data = data\<lparr>Team_Id := StringValue (TeamResponse_ID team),
                      Team_Name := StringValue (TeamResponse_Name team)\<rparr>;
          data = (if TeamResponse_OrganizationID team \<noteq> []
                  then data\<lparr>Team_OrganizationId := StringValue (TeamResponse_OrganizationID team)\<rparr>
                  else data\<lparr>Team_OrganizationId := StringNull\<rparr>)
      in data)"

definition TeamResource_Read ::
  "go_lib \<Rightarrow> MakeAPIClient \<Rightarrow> TeamResourceModel tfsdk_data \<Rightarrow>
   TeamResourceModel tf_response \<Rightarrow> trace \<Rightarrow> TeamResourceModel tf_response \<times> trace" where
  "TeamResource_Read L c req_State resp tr =
     (let data = Get_data req_State;
          resp = resp\<lparr>Diagnostics := Append (Diagnostics resp) (Get_diags req_State)\<rparr>
      in if HasError (Diagnostics resp) then (resp, tr)
         else
           (case GetTeam L c (ValueString (Team_Id data)) tr of
              (Inl err, tr') \<Rightarrow>
                (resp\<lparr>Diagnostics := AddError ''Client Error''
                    (''Unable to read team, got error: '' @ err) (Diagnostics resp)\<rparr>, tr')
            | (Inr team, tr') \<Rightarrow>
                (resp\<lparr>State := Some (TeamResource_Read_data data team)\<rparr>, tr')))"

definition TeamResource_Update_apiReq :: "TeamResourceModel \<Rightarrow> TeamRequest" where
  "TeamResource_Update_apiReq data =
     (let apiReq = \<lparr>TeamRequest_Name = ValueString (Team_Name data),
                    TeamRequest_OrganizationID = []\<rparr>;
          apiReq = (if \<not> String_IsNull (Team_OrganizationId data)
                    then apiReq\<lparr>TeamRequest_OrganizationID := ValueString (Team_OrganizationId data)\<rparr>
                    else apiReq)
      in apiReq)"

definition TeamResource_Update_data ::
  "TeamResourceModel \<Rightarrow> TeamResponse \<Rightarrow> TeamResourceModel" where
  "TeamResource_Update_data data team =
     (let data = data\<lparr>Team_Id := StringValue (TeamResponse_ID team),
                      Team_Name := StringValue (TeamResponse_Name team)\<rparr>;
          data = (if TeamResponse_OrganizationID team \<noteq> []
                  then data\<lparr>Team_OrganizationId := StringValue (TeamResponse_OrganizationID team)\<rparr>
                  else data)
      in data)"

definition TeamResource_Update ::
  "go_lib \<Rightarrow> MakeAPIClient \<Rightarrow> TeamResourceModel tfsdk_data \<Rightarrow>
   TeamResourceModel tf_response \<Rightarrow> trace \<Rightarrow> TeamResourceModel tf_response \<times> trace" where
  "TeamResource_Update L c req_Plan resp tr =
     (let data = Get_data req_Plan;
          resp = resp\<lparr>Diagnostics := Append (Diagnostics resp) (Get_diags req_Plan)\<rparr>
      in if HasError (Diagnostics resp) then (resp, tr)
         else
           (let apiReq = TeamResource_Update_apiReq data
            in case UpdateTeam L c (ValueString (Team_Id data)) apiReq tr of
                 (Inl err, tr') \<Rightarrow>
                   (resp\<lparr>Diagnostics := AddError ''Client Error''
                       (''Unable to update team, got error: '' @ err) (Diagnostics resp)\<rparr>, tr')
               | (Inr team, tr') \<Rightarrow>
                   (resp\<lparr>State := Some (TeamResource_Update_data data team)\<rparr>, tr')))"

definition TeamResource_Delete ::
  "go_lib \<Rightarrow> MakeAPIClient \<Rightarrow> TeamResourceModel tfsdk_data \<Rightarrow>
   TeamResourceModel tf_response \<Rightarrow> trace \<Rightarrow> TeamResourceModel tf_response \<times> trace" where
  "TeamResource_Delete L c req_State resp tr =
     (let data = Get_data req_State;
          resp = resp\<lparr>Diagnostics := Append (Diagnostics resp) (Get_diags req_State)\<rparr>
      in if HasError (Diagnostics resp) then (resp, tr)
         else
           (case DeleteTeam L c (ValueString (Team_Id data)) tr of
              (Inl err, tr') \<Rightarrow>
                (resp\<lparr>Diagnostics := AddError ''Client Error''
                    (''Unable to delete team, got error: '' @ err) (Diagnostics resp)\<rparr>, tr')
            | (Inr u, tr') \<Rightarrow> (resp, tr')))"


subsection \<open>Organization\<close>

definition OrganizationResource_Create_apiReq :: "OrganizationResourceModel \<Rightarrow> OrganizationRequest" where
  "OrganizationResource_Create_apiReq data =
     (let apiReq = \<lparr>OrganizationRequest_Name = ValueString (Organization_Name data)\<rparr>
      in apiReq)"

definition OrganizationResource_Create_data ::
  "OrganizationResourceModel \<Rightarrow> OrganizationResponse \<Rightarrow> OrganizationResourceModel" where
  "OrganizationResource_Create_data data org =
     (let data = data\<lparr>Organization_Id := StringValue (OrganizationResponse_ID org),
                      Organization_Name := StringValue (OrganizationResponse_Name org)\<rparr>
      in data)"

definition OrganizationResource_Create ::
  "go_lib \<Rightarrow> MakeAPIClient \<Rightarrow> OrganizationResourceModel tfsdk_data \<Rightarrow>
   OrganizationResourceModel tf_response \<Rightarrow> trace \<Rightarrow> OrganizationResourceModel tf_response \<times> trace" where
  "OrganizationResource_Create L c req_Plan resp tr =
     (let data = Get_data req_Plan;
          resp = resp\<lparr>Diagnostics := Append (Diagnostics resp) (Get_diags req_Plan)\<rparr>
      in if HasError (Diagnostics resp) then (resp, tr)
         else
           (let apiReq = OrganizationResource_Create_apiReq data
            in case CreateOrganization L c apiReq tr of
                 (Inl err, tr') \<Rightarrow>
                   (resp\<lparr>Diagnostics := AddError ''Client Error''
                       (''Unable to create organization, got error: '' @ err) (Diagnostics resp)\<rparr>, tr')
               | (Inr org, tr') \<Rightarrow>
                   (resp\<lparr>State := Some (OrganizationResource_Create_data data org)\<rparr>, tr')))"

definition OrganizationResource_Read_data ::
  "OrganizationResourceModel \<Rightarrow> OrganizationResponse \<Rightarrow> OrganizationResourceModel" where
  "OrganizationResource_Read_data data org =
     (let data = data\<lparr>Organization_Id := StringValue (OrganizationResponse_ID org),
                      Organization_Name := StringValue (OrganizationResponse_Name org)\<rparr>
      in data)"

definition OrganizationResource_Read ::
  "go_lib \<Rightarrow> MakeAPIClient \<Rightarrow> OrganizationResourceModel tfsdk_data \<Rightarrow>
   OrganizationResourceModel tf_response \<Rightarrow> trace \<Rightarrow> OrganizationResourceModel tf_response \<times> trace" where
  "OrganizationResource_Read L c req_State resp tr =
     (let data = Get_data req_State;
          resp = resp\<lparr>Diagnostics := Append (Diagnostics resp) (Get_diags req_State)\<rparr>
      in if HasError (Diagnostics resp) then (resp, tr)
         else
           (case GetOrganization L c (ValueString (Organization_Id data)) tr of
              (Inl err, tr') \<Rightarrow>
                (resp\<lparr>Diagnostics := AddError ''Client Error''
                    (''Unable to read organization, got error: '' @ err) (Diagnostics resp)\<rparr>, tr')
            | (Inr org, tr') \<Rightarrow>
                (resp\<lparr>State := Some (OrganizationResource_Read_data data org)\<rparr>, tr')))"

definition OrganizationResource_Update_apiReq :: "OrganizationResourceModel \<Rightarrow> OrganizationRequest" where
  "OrganizationResource_Update_apiReq data =
     (let apiReq = \<lparr>OrganizationRequest_Name = ValueString (Organization_Name data)\<rparr>
      in apiReq)"

definition OrganizationResource_Update_data ::
  "OrganizationResourceModel \<Rightarrow> OrganizationResponse \<Rightarrow> OrganizationResourceModel" where
  "OrganizationResource_Update_data data org =
     (let data = data\<lparr>Organization_Id := StringValue (OrganizationResponse_ID org),
                      Organization_Name := StringValue (OrganizationResponse_Name org)\<rparr>
      in data)"

definition OrganizationResource_Update ::
  "go_lib \<Rightarrow> MakeAPIClient \<Rightarrow> OrganizationResourceModel tfsdk_data \<Rightarrow>
   OrganizationResourceModel tf_response \<Rightarrow> trace \<Rightarrow> OrganizationResourceModel tf_response \<times> trace" where
  "OrganizationResource_Update L c req_Plan resp tr =
     (let data = Get_data req_Plan;
          resp = resp\<lparr>Diagnostics := Append (Diagnostics resp) (Get_diags req_Plan)\<rparr>
      in if HasError (Diagnostics resp) then (resp, tr)
         else
           (let apiReq = OrganizationResource_Update_apiReq data
            in case UpdateOrganization L c (ValueString (Organization_Id data)) apiReq tr of
                 (Inl err, tr') \<Rightarrow>
                   (resp\<lparr>Diagnostics := AddError ''Client Error''
                       (''Unable to update organization, got error: '' @ err) (Diagnostics resp)\<rparr>, tr')
               | (Inr org, tr') \<Rightarrow>
                   (resp\<lparr>State := Some (OrganizationResource_Update_data data org)\<rparr>, tr')))"

definition OrganizationResource_Delete ::
  "go_lib \<Rightarrow> MakeAPIClient \<Rightarrow> OrganizationResourceModel tfsdk_data \<Rightarrow>
   OrganizationResourceModel tf_response \<Rightarrow> trace \<Rightarrow> OrganizationResourceModel tf_response \<times> trace" where
  "OrganizationResource_Delete L c req_State resp tr =
     (let data = Get_data req_State;
          resp = resp\<lparr>Diagnostics := Append (Diagnostics resp) (Get_diags req_State)\<rparr>
      in if HasError (Diagnostics resp) then (resp, tr)
         else
           (case DeleteOrganization L c (ValueString (Organization_Id data)) tr of
              (Inl err, tr') \<Rightarrow>
                (resp\<lparr>Diagnostics := AddError ''Client Error''
                    (''Unable to delete organization, got error: '' @ err) (Diagnostics resp)\<rparr>, tr')
            | (Inr u, tr') \<Rightarrow> (resp, tr')))"


subsection \<open>Data store\<close>

definition DataStoreResource_Create_apiReq :: "DataStoreResourceModel \<Rightarrow> DataStoreRequest" where
  "DataStoreResource_Create_apiReq data =
     (let apiReq = \<lparr>DataStoreRequest_Name = ValueString (DataStore_Name data),
                    DataStoreRequest_Description = [],
                    DataStoreRequest_TeamID = []\<rparr>;
          apiReq = (if \<not> String_IsNull (DataStore_Description data)
                    then apiReq\<lparr>DataStoreRequest_Description := ValueString (DataStore_Description data)\<rparr>
                    else apiReq);
          apiReq = (if \<not> String_IsNull (DataStore_TeamId data)
                    then apiReq\<lparr>DataStoreRequest_TeamID := ValueString (DataStore_TeamId data)\<rparr>
                    else apiReq)
      in apiReq)"

definition DataStoreResource_Create_data ::
  "DataStoreResourceModel \<Rightarrow> DataStoreResponse \<Rightarrow> DataStoreResourceModel" where
  "DataStoreResource_Create_data data ds =
     (let data = data\<lparr>DataStore_Id := StringValue (DataStoreResponse_ID ds),
                      DataStore_Name := StringValue (DataStoreResponse_Name ds)\<rparr>;
          data = (if DataStoreResponse_Description ds \<noteq> []
                  then data\<lparr>DataStore_Description := StringValue (DataStoreResponse_Description ds)\<rparr>
                  else data);
          data = (if DataStoreResponse_TeamID ds \<noteq> []
                  then data\<lparr>DataStore_TeamId := StringValue (DataStoreResponse_TeamID ds)\<rparr>
                  else data)
      in data)"

definition DataStoreResource_Create ::
  "go_lib \<Rightarrow> MakeAPIClient \<Rightarrow> DataStoreResourceModel tfsdk_data \<Rightarrow>
   DataStoreResourceModel tf_response \<Rightarrow> trace \<Rightarrow> DataStoreResourceModel tf_response \<times> trace" where
  "DataStoreResource_Create L c req_Plan resp tr =
     (let data = Get_data req_Plan;
          resp = resp\<lparr>Diagnostics := Append (Diagnostics resp) (Get_diags req_Plan)\<rparr>
      in if HasError (Diagnostics resp) then (resp, tr)
         else
           (let apiReq = DataStoreResource_Create_apiReq data
            in case CreateDataStore L c apiReq tr of
                 (Inl err, tr') \<Rightarrow>
                   (resp\<lparr>Diagnostics := AddError ''Client Error''
                       (''Unable to create data store, got error: '' @ err) (Diagnostics resp)\<rparr>, tr')
               | (Inr ds, tr') \<Rightarrow>
                   (resp\<lparr>State := Some (DataStoreResource_Create_data data ds)\<rparr>, tr')))"

definition DataStoreResource_Read_data ::
  "DataStoreResourceModel \<Rightarrow> DataStoreResponse \<Rightarrow> DataStoreResourceModel" where
  "DataStoreResource_Read_data data ds =
     (let data = data\<lparr>DataStore_Id := StringValue (DataStoreResponse_ID ds),
                      DataStore_Name := StringValue (DataStoreResponse_Name ds)\<rparr>;
          data = (if DataStoreResponse_Description ds \<noteq> []
                  then data\<lparr>DataStore_Description := StringValue (DataStoreResponse_Description ds)\<rparr>
                  else data\<lparr>DataStore_Description := StringNull\<rparr>);
          data = (if DataStoreResponse_TeamID ds \<noteq> []
                  then data\<lparr>DataStore_TeamId := StringValue (DataStoreResponse_TeamID ds)\<rparr>
                  else data\<lparr>DataStore_TeamId := StringNull\<rparr>)
      in data)"

definition DataStoreResource_Read ::
  "go_lib \<Rightarrow> MakeAPIClient \<Rightarrow> DataStoreResourceModel tfsdk_data \<Rightarrow>
   DataStoreResourceModel tf_response \<Rightarrow> trace \<Rightarrow> DataStoreResourceModel tf_response \<times> trace" where
  "DataStoreResource_Read L c req_State resp tr =
     (let data = Get_data req_State;
          resp = resp\<lparr>Diagnostics := Append (Diagnostics resp) (Get_diags req_State)\<rparr>
      in if HasError (Diagnostics resp) then (resp, tr)
         else
           (case GetDataStore L c (ValueString (DataStore_Id data)) tr of
              (Inl err, tr') \<Rightarrow>
                (resp\<lparr>Diagnostics := AddError ''Client Error''
                    (''Unable to read data store, got error: '' @ err) (Diagnostics resp)\<rparr>, tr')
            | (Inr ds, tr') \<Rightarrow>
                (resp\<lparr>State := Some (DataStoreResource_Read_data data ds)\<rparr>, tr')))"

definition DataStoreResource_Update_apiReq :: "DataStoreResourceModel \<Rightarrow> DataStoreRequest" where
  "DataStoreResource_Update_apiReq data =
     (let apiReq = \<lparr>DataStoreRequest_Name = ValueString (DataStore_Name data),
                    DataStoreRequest_Description = [],
                    DataStoreRequest_TeamID = []\<rparr>;
          apiReq = (if \<not> String_IsNull (DataStore_Description data)
                    then apiReq\<lparr>DataStoreRequest_Description := ValueString (DataStore_Description data)\<rparr>
                    else apiReq);
          apiReq = (if \<not> String_IsNull (DataStore_TeamId data)
                    then apiReq\<lparr>DataStoreRequest_TeamID := ValueString (DataStore_TeamId data)\<rparr>
                    else apiReq)
      in apiReq)"

definition DataStoreResource_Update_data ::
  "DataStoreResourceModel \<Rightarrow> DataStoreResponse \<Rightarrow> DataStoreResourceModel" where
  "DataStoreResource_Update_data data ds =
     (let data = data\<lparr>DataStore_Id := StringValue (DataStoreResponse_ID ds),
                      DataStore_Name := StringValue (DataStoreResponse_Name ds)\<rparr>;
          data = (if DataStoreResponse_Description ds \<noteq> []
                  then data\<lparr>DataStore_Description := StringValue (DataStoreResponse_Description ds)\<rparr>
                  else data\<lparr>DataStore_Description := StringNull\<rparr>);
          data = (if DataStoreResponse_TeamID ds \<noteq> []
                  then data\<lparr>DataStore_TeamId := StringValue (DataStoreResponse_TeamID ds)\<rparr>
                  else data\<lparr>DataStore_TeamId := StringNull\<rparr>)
      in data)"

definition DataStoreResource_Update ::
  "go_lib \<Rightarrow> MakeAPIClient \<Rightarrow> DataStoreResourceModel tfsdk_data \<Rightarrow>
   DataStoreResourceModel tf_response \<Rightarrow> trace \<Rightarrow> DataStoreResourceModel tf_response \<times> trace" where
  "DataStoreResource_Update L c req_Plan resp tr =
     (let data = Get_data req_Plan;
          resp = resp\<lparr>Diagnostics := Append (Diagnostics resp) (Get_diags req_Plan)\<rparr>
      in if HasError (Diagnostics resp) then (resp, tr)
         else
           (let apiReq = DataStoreResource_Update_apiReq data
            in case UpdateDataStore L c (ValueString (DataStore_Id data)) apiReq tr of
                 (Inl err, tr') \<Rightarrow>
                   (resp\<lparr>Diagnostics := AddError ''Client Error''
                       (''Unable to update data store, got error: '' @ err) (Diagnostics resp)\<rparr>, tr')
               | (Inr ds, tr') \<Rightarrow>
                   (resp\<lparr>State := Some (DataStoreResource_Update_data data ds)\<rparr>, tr')))"

definition DataStoreResource_Delete ::
  "go_lib \<Rightarrow> MakeAPIClient \<Rightarrow> DataStoreResourceModel tfsdk_data \<Rightarrow>
   DataStoreResourceModel tf_response \<Rightarrow> trace \<Rightarrow> DataStoreResourceModel tf_response \<times> trace" where
  "DataStoreResource_Delete L c req_State resp tr =
     (let data = Get_data req_State;
          resp = resp\<lparr>Diagnostics := Append (Diagnostics resp) (Get_diags req_State)\<rparr>
      in if HasError (Diagnostics resp) then (resp, tr)
         else
           (case DeleteDataStore L c (ValueString (DataStore_Id data)) tr of
              (Inl err, tr') \<Rightarrow>
                (resp\<lparr>Diagnostics := AddError ''Client Error''
                    (''Unable to delete data store, got error: '' @ err) (Diagnostics resp)\<rparr>, tr')
            | (Inr u, tr') \<Rightarrow> (resp, tr')))"


section \<open>Notions of the specification\<close>

text \<open>
  The specification speaks of an \<open>ApiError\<close> with a status and a message and of a
  \<open>NotFoundError\<close> with an identifier. In the provider both are errors made by
  \<open>fmt.Errorf\<close>; these are their texts.
\<close>

definition ApiError :: "int \<Rightarrow> string \<Rightarrow> go_error" where
  "ApiError status message =
     ''API request failed with status '' @ Sprintf_d status @ '': '' @ message"

definition NotFoundError :: "resource_kind \<Rightarrow> string \<Rightarrow> go_error" where
  "NotFoundError k id' = kind_name k @ '' with ID '' @ id' @ '' not found''"

text \<open>
  The message extraction policy in the words of the specification: the \<open>message\<close>
  field of the parsed body when it is not empty, otherwise its \<open>error\<close> field when that
  is not empty, and the raw body when parsing fails or both are empty.
\<close>

definition extracted_message :: "go_lib \<Rightarrow> string \<Rightarrow> string" where
  "extracted_message L body =
     (case Unmarshal_ErrorResponse L body of
        None \<Rightarrow> body
      | Some e \<Rightarrow>
          if ErrorResponse_Message e \<noteq> [] then ErrorResponse_Message e
          else if ErrorResponse_Error e \<noteq> [] then ErrorResponse_Error e
          else body)"

fun is_create :: "gateway_call \<Rightarrow> bool" where
  "is_create (CreateCall req) = True"
| "is_create (GetCall k id') = False"
| "is_create (UpdateCall id' req) = False"
| "is_create (DeleteCall k id') = False"

text \<open>The method of the request a call of a gateway function makes.\<close>

fun call_method :: "gateway_call \<Rightarrow> string" where
  "call_method (CreateCall req) = ''POST''"
| "call_method (GetCall k id') = ''GET''"
| "call_method (UpdateCall id' req) = ''PUT''"
| "call_method (DeleteCall k id') = ''DELETE''"

text \<open>
  What \<open>MakeRequest\<close> does before it performs a request: the error it returns, or the
  URL and the body of the request it builds.
\<close>

definition built_request ::
  "go_lib \<Rightarrow> MakeAPIClient \<Rightarrow> string \<Rightarrow> string \<Rightarrow> api_request option \<Rightarrow>
   go_error + string \<times> string option" where
  "built_request L c method endpoint body =
     (case url_Parse L (BaseUrl c) of
        Inl err \<Rightarrow> Inl (''invalid base URL: '' @ err)
      | Inr baseURL \<Rightarrow>
          (let baseURL = baseURL\<lparr>URL_Path := path_Join L (URL_Path baseURL) endpoint\<rparr>
           in case (case body of
                      None \<Rightarrow> Inr None
                    | Some b \<Rightarrow>
                        (case json_Marshal L b of
                           Inl err \<Rightarrow> Inl err
                         | Inr jsonData \<Rightarrow> Inr (Some jsonData))) of
                Inl err \<Rightarrow> Inl (''failed to marshal request body: '' @ err)
              | Inr reqBody \<Rightarrow>
                  (case http_NewRequest L method (URL_String L baseURL) of
                     Some err \<Rightarrow> Inl (''failed to create request: '' @ err)
                   | None \<Rightarrow> Inr (URL_String L baseURL, reqBody))))"

text \<open>
  A resource operation first reads the plan or the prior state of the request and returns
  at once, without a request to the remote, when the diagnostics then hold an error.
  \<open>reads_request\<close>: the operation was given a response without an error diagnostic and
  reads the plan or state without one. \<open>Create\<close> and \<open>Update\<close> of a connection and of a
  webhook also read the settings of the plan when these are not null, and return when
  that fails; \<open>settings_read\<close>: it does not fail.
\<close>

definition reads_request :: "'m tfsdk_data \<Rightarrow> 'm tf_response \<Rightarrow> bool" where
  "reads_request req resp \<longleftrightarrow> \<not> HasError (Diagnostics resp) \<and> \<not> HasError (Get_diags req)"

definition settings_read :: "go_lib \<Rightarrow> tf_map \<Rightarrow> bool" where
  "settings_read L settings \<longleftrightarrow> Map_IsNull settings \<or> \<not> HasError (fst (ElementsAs L settings))"

text \<open>
  The request record \<open>Create\<close> and \<open>Update\<close> of a connection and of a webhook hand to
  the gateway: the one of the block \<open>_apiReq\<close>, with the settings read from the plan when
  these are not null.
\<close>

definition ConnectionResource_Create_request ::
  "go_lib \<Rightarrow> ConnectionResourceModel \<Rightarrow> ConnectionRequest" where
  "ConnectionResource_Create_request L data =
     (if \<not> Map_IsNull (Connection_Settings data)
      then (ConnectionResource_Create_apiReq data)
             \<lparr>ConnectionRequest_Settings :=
                request_Settings (snd (ElementsAs L (Connection_Settings data)))\<rparr>
      else ConnectionResource_Create_apiReq data)"

definition ConnectionResource_Update_request ::
  "go_lib \<Rightarrow> ConnectionResourceModel \<Rightarrow> ConnectionRequest" where
  "ConnectionResource_Update_request L data =
     (if \<not> Map_IsNull (Connection_Settings data)
      then (ConnectionResource_Update_apiReq data)
             \<lparr>ConnectionRequest_Settings :=
                request_Settings (snd (ElementsAs L (Connection_Settings data)))\<rparr>
      else ConnectionResource_Update_apiReq data)"

definition WebhookResource_Create_request ::
  "go_lib \<Rightarrow> WebhookResourceModel \<Rightarrow> WebhookRequest" where
  "WebhookResource_Create_request L data =
     (if \<not> Map_IsNull (Webhook_Settings data)
      then (WebhookResource_Create_apiReq data)
             \<lparr>WebhookRequest_Settings :=
                request_Settings (snd (ElementsAs L (Webhook_Settings data)))\<rparr>
      else WebhookResource_Create_apiReq data)"

definition WebhookResource_Update_request ::
  "go_lib \<Rightarrow> WebhookResourceModel \<Rightarrow> WebhookRequest" where
  "WebhookResource_Update_request L data =
     (if \<not> Map_IsNull (Webhook_Settings data)
      then (WebhookResource_Update_apiReq data)
             \<lparr>WebhookRequest_Settings :=
                request_Settings (snd (ElementsAs L (Webhook_Settings data)))\<rparr>
      else WebhookResource_Update_apiReq data)"

text \<open>
  Outcomes of a resource operation that was given the response \<open>resp\<close> and the trace
  \<open>tr\<close> and returned \<open>out\<close>; \<open>answer\<close> is what \<open>MakeRequest\<close> returns for the call the
  operation hands to its gateway.

  \<open>at_most_one_request\<close>: the operation issued no request, or one request of the given
  method. \<open>not_found_reported\<close>: when the answer is a response with status 404, the
  operation issued its request, one of the given method that the remote answered with
  that response, the response of the operation has an error diagnostic, and the state is
  the one the operation was given. \<open>not_found_tolerated\<close>: in that case the operation
  issued its request, there is no error diagnostic, and the state is still the one given
  (the framework drops the record after a delete without error).
\<close>

definition at_most_one_request :: "trace \<Rightarrow> string \<Rightarrow> 'm tf_response \<times> trace \<Rightarrow> bool" where
  "at_most_one_request tr method out \<longleftrightarrow>
     snd out = tr \<or> (\<exists>q. snd out = tr @ [q] \<and> Method q = method)"

definition not_found_reported ::
  "MakeAPIClient \<Rightarrow> 'm tf_response \<Rightarrow> trace \<Rightarrow> string \<Rightarrow>
   (go_error + http_response) \<times> trace \<Rightarrow> 'm tf_response \<times> trace \<Rightarrow> bool" where
  "not_found_reported c resp tr method answer out \<longleftrightarrow>
     (\<forall>r. fst answer = Inr r \<and> StatusCode r = 404 \<longrightarrow>
          (\<exists>q. snd out = tr @ [q] \<and> Method q = method \<and> HTTPClient c (snd out) = Inr r) \<and>
          HasError (Diagnostics (fst out)) \<and> State (fst out) = State resp)"

definition not_found_tolerated ::
  "MakeAPIClient \<Rightarrow> 'm tf_response \<Rightarrow> trace \<Rightarrow> string \<Rightarrow>
   (go_error + http_response) \<times> trace \<Rightarrow> 'm tf_response \<times> trace \<Rightarrow> bool" where
  "not_found_tolerated c resp tr method answer out \<longleftrightarrow>
     (\<forall>r. fst answer = Inr r \<and> StatusCode r = 404 \<longrightarrow>
          (\<exists>q. snd out = tr @ [q] \<and> Method q = method \<and> HTTPClient c (snd out) = Inr r) \<and>
          \<not> HasError (Diagnostics (fst out)) \<and> State (fst out) = State resp)"



text \<open>Decimal digits, and the number a string of digits denotes.\<close>

definition is_digit :: "char \<Rightarrow> bool" where
  "is_digit ch \<longleftrightarrow> ch \<in> set ''0123456789''"

definition digit_value :: "char \<Rightarrow> nat" where
  "digit_value ch = of_char ch - 48"

definition digits_value :: "string \<Rightarrow> nat" where
  "digits_value s = foldl (\<lambda>a ch. 10 * a + digit_value ch) 0 s"

text \<open>The dynamic types the type switch names before its default branch.\<close>

fun has_own_case :: "go_value \<Rightarrow> bool" where
  "has_own_case GoNil = False"
| "has_own_case (GoSlice vs) = False"
| "has_own_case (GoMap kvs) = False"
| "has_own_case (GoOther description) = False"
| "has_own_case v = True"

subsection \<open>Stubs for the examples\<close>

text \<open>
  A transport that answers every request with the same status and body, one that
  answers the second request with 404 and every other request with 500, and one that
  answers every request with status 502 and a body that cannot be read. The library
  stub parses the base URL of the stub client, joins a path to the root, and marshals and
  decodes the records and bodies the examples use, as the standard library does, and
  fails on every other URL, record and body; it prints the values the examples use as
  \<open>%v\<close> does.
\<close>

definition stub_client :: "int \<Rightarrow> string \<Rightarrow> MakeAPIClient" where
  "stub_client status body =
     \<lparr>ApiToken = ''test-token'', BaseUrl = ''https://api.make.com/'',
      HTTPClient = (\<lambda>tr. Inr \<lparr>StatusCode = status, Status = [], Body = Some body\<rparr>)\<rparr>"

definition stub_client_second_404 :: MakeAPIClient where
  "stub_client_second_404 =
     \<lparr>ApiToken = ''test-token'', BaseUrl = ''https://api.make.com/'',
      HTTPClient = (\<lambda>tr. Inr \<lparr>StatusCode = (if length tr = 2 then 404 else 500), Status = [],
                                 Body = Some []\<rparr>)\<rparr>"

definition stub_client_unreadable :: MakeAPIClient where
  "stub_client_unreadable =
     \<lparr>ApiToken = ''test-token'', BaseUrl = ''https://api.make.com/'',
      HTTPClient = (\<lambda>tr. Inr \<lparr>StatusCode = 502, Status = ''502 Bad Gateway'', Body = None\<rparr>)\<rparr>"

text \<open>A webhook of the remote whose settings hold the number 3.14.\<close>

definition webhook_7_response :: WebhookResponse where
  "webhook_7_response =
     \<lparr>WebhookResponse_ID = ''7'', WebhookResponse_Name = ''w'',
      WebhookResponse_URL = ''https://hook.make.com/x'', WebhookResponse_TeamID = [],
      WebhookResponse_Active = True,
      WebhookResponse_Settings = [(''ratio'', GoFloat64 (Float False 7070651414971679 (- 51)))]\<rparr>"

definition stub_lib :: go_lib where
  "stub_lib =
     \<lparr>url_Parse = (\<lambda>rawURL.
        if rawURL = ''https://api.make.com/''
        then Inr \<lparr>URL_Path = ''/'', URL_others = ''https://api.make.com''\<rparr>
        else Inl ''parse error''),
      path_Join = (\<lambda>dir endpoint. if dir = ''/'' then ''/'' @ endpoint else []),
      URL_String = (\<lambda>u. URL_others u @ URL_Path u),
      json_Marshal = (\<lambda>b.
        if b = ScenarioBody \<lparr>ScenarioRequest_Name = ''n'', ScenarioRequest_Description = ''foo'',
                              ScenarioRequest_Active = True, ScenarioRequest_TeamID = ''team-1''\<rparr>
        then Inr ''{\"name\":\"n\",\"description\":\"foo\",\"is_active\":true,\"team_id\":\"team-1\"}''
        else Inl ''unsupported value''),
      http_NewRequest = (\<lambda>method url. None),
      Unmarshal_ErrorResponse = (\<lambda>body.
        if body = ''{\"message\":\"bad\"}''
        then Some \<lparr>ErrorResponse_Error = [], ErrorResponse_Message = ''bad'', ErrorResponse_Code = 0\<rparr>
        else if body = ''{\"error\":\"denied\",\"message\":\"bad\"}''
        then Some \<lparr>ErrorResponse_Error = ''denied'', ErrorResponse_Message = ''bad'',
                   ErrorResponse_Code = 0\<rparr>
        else if body = ''{\"error\":\"denied\"}''
        then Some \<lparr>ErrorResponse_Error = ''denied'', ErrorResponse_Message = [],
                   ErrorResponse_Code = 0\<rparr>
        else if body = ''{}''
        then Some \<lparr>ErrorResponse_Error = [], ErrorResponse_Message = [], ErrorResponse_Code = 0\<rparr>
        else None),
      Decode_ScenarioResponse = (\<lambda>body.
        if body = Some ''{\"id\":\"1\",\"name\":\"n\",\"is_active\":true}''
        then Inr \<lparr>ScenarioResponse_ID = ''1'', ScenarioResponse_Name = ''n'',
                  ScenarioResponse_Description = [], ScenarioResponse_Active = True,
                  ScenarioResponse_TeamID = []\<rparr>
        else if body = Some ''{\"id\":\"2\",\"name\":\"n\",\"is_active\":true}''
        then Inr \<lparr>ScenarioResponse_ID = ''2'', ScenarioResponse_Name = ''n'',
                  ScenarioResponse_Description = [], ScenarioResponse_Active = True,
                  ScenarioResponse_TeamID = []\<rparr>
        else if body = Some ''{\"name\":\"n\",\"is_active\":true}''
        then Inr \<lparr>ScenarioResponse_ID = [], ScenarioResponse_Name = ''n'',
                  ScenarioResponse_Description = [], ScenarioResponse_Active = True,
                  ScenarioResponse_TeamID = []\<rparr>
        else Inl ''unexpected end of JSON input''),
      Decode_ConnectionResponse = (\<lambda>body. Inl ''unexpected end of JSON input''),
      Decode_WebhookResponse = (\<lambda>body.
        if body = Some ''{\"id\":\"7\",\"name\":\"w\",\"url\":\"https://hook.make.com/x\",\"active\":true,\"settings\":{\"ratio\":3.14}}''
        then Inr webhook_7_response
        else Inl ''unexpected end of JSON input''),
      Decode_TeamResponse = (\<lambda>body. Inl ''unexpected end of JSON input''),
      Decode_OrganizationResponse = (\<lambda>body. Inl ''unexpected end of JSON input''),
      Decode_DataStoreResponse = (\<lambda>body. Inl ''unexpected end of JSON input''),
      Sprintf_v = (\<lambda>v.
        if v = GoMap [(''key'', GoString ''value'')] then ''map[key:value]''
        else if v = GoNil then ''<nil>''
        else if v = GoFloat64 (Float False 7070651414971679 (- 51)) then ''3.14''
        else []),
      ElementsAs = (\<lambda>m.
        case m of MapValue es \<Rightarrow> ([], map (\<lambda>(k, v). (k, ValueString v)) es) | _ \<Rightarrow> ([], []))\<rparr>"

definition scenario_1 :: ScenarioResourceModel where
  "scenario_1 =
     \<lparr>Scenario_Id = StringValue ''1'', Scenario_Name = StringValue ''n'',
      Scenario_Description = StringValue ''foo'', Scenario_Active = BoolValue True,
      Scenario_TeamId = StringValue ''team-1''\<rparr>"

definition scenario_plan :: ScenarioResourceModel where
  "scenario_plan =
     \<lparr>Scenario_Id = StringUnknown, Scenario_Name = StringValue ''n'',
      Scenario_Description = StringValue ''foo'', Scenario_Active = BoolValue True,
      Scenario_TeamId = StringValue ''team-1''\<rparr>"

text \<open>The webhook as its create stores it.\<close>

definition webhook_7 :: WebhookResourceModel where
  "webhook_7 =
     \<lparr>Webhook_Id = StringValue ''7'', Webhook_Name = StringValue ''w'',
      Webhook_URL = StringValue ''https://hook.make.com/x'', Webhook_TeamId = StringNull,
      Webhook_Active = BoolValue True,
      Webhook_Settings = MapValue [(''ratio'', StringValue ''3.140000'')]\<rparr>"

section \<open>Lemmas\<close>

subsection \<open>Diagnostics\<close>

lemma HasError_Append: "HasError (Append ds new) \<longleftrightarrow> HasError ds \<or> HasError new"
  by (induction new arbitrary: ds) (auto simp: HasError_def list_ex_iff)

lemma HasError_AddError: "HasError (AddError summary detail ds)"
  unfolding AddError_def HasError_Append by (simp add: HasError_def)

subsection \<open>The request \<open>MakeRequest\<close> performs\<close>

lemma MakeRequest_performs:
  "MakeRequest L c method endpoint body tr =
     (case built_request L c method endpoint body of
        Inl err \<Rightarrow> (Inl err, tr)
      | Inr (url, reqBody) \<Rightarrow>
          (case HTTPClient c
                  (tr @ [\<lparr>Method = method, URL = url,
                           Header = [(''Authorization'', ''Token '' @ ApiToken c),
                                     (''Content-Type'', ''application/json''),
                                     (''Accept'', ''application/json'')],
                           Request_Body = reqBody\<rparr>]) of
             Inl err \<Rightarrow> Inl (''failed to perform request: '' @ err)
           | Inr resp \<Rightarrow> Inr resp,
           tr @ [\<lparr>Method = method, URL = url,
                    Header = [(''Authorization'', ''Token '' @ ApiToken c),
                              (''Content-Type'', ''application/json''),
                              (''Accept'', ''application/json'')],
                    Request_Body = reqBody\<rparr>]))"
proof (cases "url_Parse L (BaseUrl c)")
  case (Inl err)
  then show ?thesis by (simp add: MakeRequest_def built_request_def)
next
  case (Inr baseURL)
  let ?url = "URL_String L (baseURL\<lparr>URL_Path := path_Join L (URL_Path baseURL) endpoint\<rparr>)"
  let ?marshalled =
    "case body of
       None \<Rightarrow> Inr None
     | Some b \<Rightarrow>
         (case json_Marshal L b of Inl err \<Rightarrow> Inl err | Inr jsonData \<Rightarrow> Inr (Some jsonData))"
  show ?thesis
  proof (cases ?marshalled)
    case (Inl err)
    with \<open>url_Parse L (BaseUrl c) = Inr baseURL\<close> show ?thesis
      by (simp add: MakeRequest_def built_request_def Let_def)
  next
    case marshalled: (Inr reqBody)
    show ?thesis
    proof (cases "http_NewRequest L method ?url")
      case (Some err)
      with \<open>url_Parse L (BaseUrl c) = Inr baseURL\<close> marshalled show ?thesis
        by (simp add: MakeRequest_def built_request_def Let_def)
    next
      case None
      with \<open>url_Parse L (BaseUrl c) = Inr baseURL\<close> marshalled show ?thesis
        by (simp add: MakeRequest_def built_request_def Let_def split: sum.splits)
    qed
  qed
qed

lemma MakeRequest_trace:
  "snd (MakeRequest L c method endpoint body tr) = tr \<or>
   (\<exists>req. snd (MakeRequest L c method endpoint body tr) = tr @ [req] \<and> Method req = method)"
  by (simp add: MakeRequest_performs split: sum.splits prod.splits)

lemma MakeRequest_issued:
  "fst (MakeRequest L c method endpoint body tr) = Inr resp \<Longrightarrow>
   \<exists>q. snd (MakeRequest L c method endpoint body tr) = tr @ [q] \<and> Method q = method \<and>
       HTTPClient c (tr @ [q]) = Inr resp"
  by (simp add: MakeRequest_performs split: sum.splits prod.splits)

lemma MakeRequest_response:
  "fst (MakeRequest L c method endpoint body tr) = Inr resp \<Longrightarrow>
   snd (MakeRequest L c method endpoint body tr) \<noteq> tr \<and>
   HTTPClient c (snd (MakeRequest L c method endpoint body tr)) = Inr resp"
  by (simp add: MakeRequest_performs split: sum.splits prod.splits)

subsection \<open>What each gateway function returns, by the result of its request\<close>

lemma CreateScenario_result:
  "CreateScenario L c req tr =
     (case fst (call_MakeRequest L c (CreateCall (ScenarioBody req)) tr) of
        Inl err \<Rightarrow> Inl err
      | Inr resp \<Rightarrow>
          if 400 \<le> StatusCode resp then Inl (HandleErrorResponse L resp)
          else (case Decode_ScenarioResponse L (Body resp) of
                  Inl err \<Rightarrow> Inl (''failed to decode response: '' @ err)
                | Inr scenario \<Rightarrow> Inr scenario),
      snd (call_MakeRequest L c (CreateCall (ScenarioBody req)) tr))"
  by (simp add: CreateScenario_def Let_def split: prod.splits sum.splits)

lemma GetScenario_result:
  "GetScenario L c i tr =
     (case fst (call_MakeRequest L c (GetCall Scenario i) tr) of
        Inl err \<Rightarrow> Inl err
      | Inr resp \<Rightarrow>
          if StatusCode resp = 404 then Inl (NotFoundError Scenario i)
          else if 400 \<le> StatusCode resp then Inl (HandleErrorResponse L resp)
          else (case Decode_ScenarioResponse L (Body resp) of
                  Inl err \<Rightarrow> Inl (''failed to decode response: '' @ err)
                | Inr scenario \<Rightarrow> Inr scenario),
      snd (call_MakeRequest L c (GetCall Scenario i) tr))"
  by (simp add: GetScenario_def Let_def NotFoundError_def split: prod.splits sum.splits)

lemma UpdateScenario_result:
  "UpdateScenario L c i req tr =
     (case fst (call_MakeRequest L c (UpdateCall i (ScenarioBody req)) tr) of
        Inl err \<Rightarrow> Inl err
      | Inr resp \<Rightarrow>
          if StatusCode resp = 404 then Inl (NotFoundError Scenario i)
          else if 400 \<le> StatusCode resp then Inl (HandleErrorResponse L resp)
          else (case Decode_ScenarioResponse L (Body resp) of
                  Inl err \<Rightarrow> Inl (''failed to decode response: '' @ err)
                | Inr scenario \<Rightarrow> Inr scenario),
      snd (call_MakeRequest L c (UpdateCall i (ScenarioBody req)) tr))"
  by (simp add: UpdateScenario_def Let_def NotFoundError_def split: prod.splits sum.splits)

lemma DeleteScenario_result:
  "DeleteScenario L c i tr =
     (case fst (call_MakeRequest L c (DeleteCall Scenario i) tr) of
        Inl err \<Rightarrow> Inl err
      | Inr resp \<Rightarrow>
          if StatusCode resp = 404 then Inr ()
          else if 400 \<le> StatusCode resp then Inl (HandleErrorResponse L resp)
          else Inr (),
      snd (call_MakeRequest L c (DeleteCall Scenario i) tr))"
  by (simp add: DeleteScenario_def Let_def split: prod.splits sum.splits)

lemma CreateConnection_result:
  "CreateConnection L c req tr =
     (case fst (call_MakeRequest L c (CreateCall (ConnectionBody req)) tr) of
        Inl err \<Rightarrow> Inl err
      | Inr resp \<Rightarrow>
          if 400 \<le> StatusCode resp then Inl (HandleErrorResponse L resp)
          else (case Decode_ConnectionResponse L (Body resp) of
                  Inl err \<Rightarrow> Inl (''failed to decode response: '' @ err)
                | Inr connection \<Rightarrow> Inr connection),
      snd (call_MakeRequest L c (CreateCall (ConnectionBody req)) tr))"
  by (simp add: CreateConnection_def Let_def split: prod.splits sum.splits)

lemma GetConnection_result:
  "GetConnection L c i tr =
     (case fst (call_MakeRequest L c (GetCall Connection i) tr) of
        Inl err \<Rightarrow> Inl err
      | Inr resp \<Rightarrow>
          if StatusCode resp = 404 then Inl (NotFoundError Connection i)
          else if 400 \<le> StatusCode resp then Inl (HandleErrorResponse L resp)
          else (case Decode_ConnectionResponse L (Body resp) of
                  Inl err \<Rightarrow> Inl (''failed to decode response: '' @ err)
                | Inr connection \<Rightarrow> Inr connection),
      snd (call_MakeRequest L c (GetCall Connection i) tr))"
  by (simp add: GetConnection_def Let_def NotFoundError_def split: prod.splits sum.splits)

lemma UpdateConnection_result:
  "UpdateConnection L c i req tr =
     (case fst (call_MakeRequest L c (UpdateCall i (ConnectionBody req)) tr) of
        Inl err \<Rightarrow> Inl err
      | Inr resp \<Rightarrow>
          if StatusCode resp = 404 then Inl (NotFoundError Connection i)
          else if 400 \<le> StatusCode resp then Inl (HandleErrorResponse L resp)
          else (case Decode_ConnectionResponse L (Body resp) of
                  Inl err \<Rightarrow> Inl (''failed to decode response: '' @ err)
                | Inr connection \<Rightarrow> Inr connection),
      snd (call_MakeRequest L c (UpdateCall i (ConnectionBody req)) tr))"
  by (simp add: UpdateConnection_def Let_def NotFoundError_def split: prod.splits sum.splits)

lemma DeleteConnection_result:
  "DeleteConnection L c i tr =
     (case fst (call_MakeRequest L c (DeleteCall Connection i) tr) of
        Inl err \<Rightarrow> Inl err
      | Inr resp \<Rightarrow>
          if StatusCode resp = 404 then Inr ()
          else if 400 \<le> StatusCode resp then Inl (HandleErrorResponse L resp)
          else Inr (),
      snd (call_MakeRequest L c (DeleteCall Connection i) tr))"
  by (simp add: DeleteConnection_def Let_def split: prod.splits sum.splits)

lemma CreateWebhook_result:
  "CreateWebhook L c req tr =
     (case fst (call_MakeRequest L c (CreateCall (WebhookBody req)) tr) of
        Inl err \<Rightarrow> Inl err
      | Inr resp \<Rightarrow>
          if 400 \<le> StatusCode resp then Inl (HandleErrorResponse L resp)
          else (case Decode_WebhookResponse L (Body resp) of
                  Inl err \<Rightarrow> Inl (''failed to decode response: '' @ err)
                | Inr webhook \<Rightarrow> Inr webhook),
      snd (call_MakeRequest L c (CreateCall (WebhookBody req)) tr))"
  by (simp add: CreateWebhook_def Let_def split: prod.splits sum.splits)

lemma GetWebhook_result:
  "GetWebhook L c i tr =
     (case fst (call_MakeRequest L c (GetCall Webhook i) tr) of
        Inl err \<Rightarrow> Inl err
      | Inr resp \<Rightarrow>
          if StatusCode resp = 404 then Inl (NotFoundError Webhook i)
          else if 400 \<le> StatusCode resp then Inl (HandleErrorResponse L resp)
          else (case Decode_WebhookResponse L (Body resp) of
                  Inl err \<Rightarrow> Inl (''failed to decode response: '' @ err)
                | Inr webhook \<Rightarrow> Inr webhook),
      snd (call_MakeRequest L c (GetCall Webhook i) tr))"
  by (simp add: GetWebhook_def Let_def NotFoundError_def split: prod.splits sum.splits)

lemma UpdateWebhook_result:
  "UpdateWebhook L c i req tr =
     (case fst (call_MakeRequest L c (UpdateCall i (WebhookBody req)) tr) of
        Inl err \<Rightarrow> Inl err
      | Inr resp \<Rightarrow>
          if StatusCode resp = 404 then Inl (NotFoundError Webhook i)
          else if 400 \<le> StatusCode resp then Inl (HandleErrorResponse L resp)
          else (case Decode_WebhookResponse L (Body resp) of
                  Inl err \<Rightarrow> Inl (''failed to decode response: '' @ err)
                | Inr webhook \<Rightarrow> Inr webhook),
      snd (call_MakeRequest L c (UpdateCall i (WebhookBody req)) tr))"
  by (simp add: UpdateWebhook_def Let_def NotFoundError_def split: prod.splits sum.splits)

lemma DeleteWebhook_result:
  "DeleteWebhook L c i tr =
     (case fst (call_MakeRequest L c (DeleteCall Webhook i) tr) of
        Inl err \<Rightarrow> Inl err
      | Inr resp \<Rightarrow>
          if StatusCode resp = 404 then Inr ()
          else if 400 \<le> StatusCode resp then Inl (HandleErrorResponse L resp)
          else Inr (),
      snd (call_MakeRequest L c (DeleteCall Webhook i) tr))"
  by (simp add: DeleteWebhook_def Let_def split: prod.splits sum.splits)

lemma CreateTeam_result:
  "CreateTeam L c req tr =
     (case fst (call_MakeRequest L c (CreateCall (TeamBody req)) tr) of
        Inl err \<Rightarrow> Inl err
      | Inr resp \<Rightarrow>
          if 400 \<le> StatusCode resp then Inl (HandleErrorResponse L resp)
          else (case Decode_TeamResponse L (Body resp) of
                  Inl err \<Rightarrow> Inl (''failed to decode response: '' @ err)
                | Inr team \<Rightarrow> Inr team),
      snd (call_MakeRequest L c (CreateCall (TeamBody req)) tr))"
  by (simp add: CreateTeam_def Let_def split: prod.splits sum.splits)

lemma GetTeam_result:
  "GetTeam L c i tr =
     (case fst (call_MakeRequest L c (GetCall Team i) tr) of
        Inl err \<Rightarrow> Inl err
      | Inr resp \<Rightarrow>
          if StatusCode resp = 404 then Inl (NotFoundError Team i)
          else if 400 \<le> StatusCode resp then Inl (HandleErrorResponse L resp)
          else (case Decode_TeamResponse L (Body resp) of
                  Inl err \<Rightarrow> Inl (''failed to decode response: '' @ err)
                | Inr team \<Rightarrow> Inr team),
      snd (call_MakeRequest L c (GetCall Team i) tr))"
  by (simp add: GetTeam_def Let_def NotFoundError_def split: prod.splits sum.splits)

lemma UpdateTeam_result:
  "UpdateTeam L c i req tr =
     (case fst (call_MakeRequest L c (UpdateCall i (TeamBody req)) tr) of
        Inl err \<Rightarrow> Inl err
      | Inr resp \<Rightarrow>
          if StatusCode resp = 404 then Inl (NotFoundError Team i)
          else if 400 \<le> StatusCode resp then Inl (HandleErrorResponse L resp)
          else (case Decode_TeamResponse L (Body resp) of
                  Inl err \<Rightarrow> Inl (''failed to decode response: '' @ err)
                | Inr team \<Rightarrow> Inr team),
      snd (call_MakeRequest L c (UpdateCall i (TeamBody req)) tr))"
  by (simp add: UpdateTeam_def Let_def NotFoundError_def split: prod.splits sum.splits)

lemma DeleteTeam_result:
  "DeleteTeam L c i tr =
     (case fst (call_MakeRequest L c (DeleteCall Team i) tr) of
        Inl err \<Rightarrow> Inl err
      | Inr resp \<Rightarrow>
          if StatusCode resp = 404 then Inr ()
          else if 400 \<le> StatusCode resp then Inl (HandleErrorResponse L resp)
          else Inr (),
      snd (call_MakeRequest L c (DeleteCall Team i) tr))"
  by (simp add: DeleteTeam_def Let_def split: prod.splits sum.splits)

lemma CreateOrganization_result:
  "CreateOrganization L c req tr =
     (case fst (call_MakeRequest L c (CreateCall (OrganizationBody req)) tr) of
        Inl err \<Rightarrow> Inl err
      | Inr resp \<Rightarrow>
          if 400 \<le> StatusCode resp then Inl (HandleErrorResponse L resp)
          else (case Decode_OrganizationResponse L (Body resp) of
                  Inl err \<Rightarrow> Inl (''failed to decode response: '' @ err)
                | Inr org \<Rightarrow> Inr org),
      snd (call_MakeRequest L c (CreateCall (OrganizationBody req)) tr))"
  by (simp add: CreateOrganization_def Let_def split: prod.splits sum.splits)

lemma GetOrganization_result:
  "GetOrganization L c i tr =
     (case fst (call_MakeRequest L c (GetCall Organization i) tr) of
        Inl err \<Rightarrow> Inl err
      | Inr resp \<Rightarrow>
          if StatusCode resp = 404 then Inl (NotFoundError Organization i)
          else if 400 \<le> StatusCode resp then Inl (HandleErrorResponse L resp)
          else (case Decode_OrganizationResponse L (Body resp) of
                  Inl err \<Rightarrow> Inl (''failed to decode response: '' @ err)
                | Inr org \<Rightarrow> Inr org),
      snd (call_MakeRequest L c (GetCall Organization i) tr))"
  by (simp add: GetOrganization_def Let_def NotFoundError_def split: prod.splits sum.splits)

lemma UpdateOrganization_result:
  "UpdateOrganization L c i req tr =
     (case fst (call_MakeRequest L c (UpdateCall i (OrganizationBody req)) tr) of
        Inl err \<Rightarrow> Inl err
      | Inr resp \<Rightarrow>
          if StatusCode resp = 404 then Inl (NotFoundError Organization i)
          else if 400 \<le> StatusCode resp then Inl (HandleErrorResponse L resp)
          else (case Decode_OrganizationResponse L (Body resp) of
                  Inl err \<Rightarrow> Inl (''failed to decode response: '' @ err)
                | Inr org \<Rightarrow> Inr org),
      snd (call_MakeRequest L c (UpdateCall i (OrganizationBody req)) tr))"
  by (simp add: UpdateOrganization_def Let_def NotFoundError_def split: prod.splits sum.splits)

lemma DeleteOrganization_result:
  "DeleteOrganization L c i tr =
     (case fst (call_MakeRequest L c (DeleteCall Organization i) tr) of
        Inl err \<Rightarrow> Inl err
      | Inr resp \<Rightarrow>
          if StatusCode resp = 404 then Inr ()
          else if 400 \<le> StatusCode resp then Inl (HandleErrorResponse L resp)
          else Inr (),
      snd (call_MakeRequest L c (DeleteCall Organization i) tr))"
  by (simp add: DeleteOrganization_def Let_def split: prod.splits sum.splits)

lemma CreateDataStore_result:
  "CreateDataStore L c req tr =
     (case fst (call_MakeRequest L c (CreateCall (DataStoreBody req)) tr) of
        Inl err \<Rightarrow> Inl err
      | Inr resp \<Rightarrow>
          if 400 \<le> StatusCode resp then Inl (HandleErrorResponse L resp)
          else (case Decode_DataStoreResponse L (Body resp) of
                  Inl err \<Rightarrow> Inl (''failed to decode response: '' @ err)
                | Inr ds \<Rightarrow> Inr ds),
      snd (call_MakeRequest L c (CreateCall (DataStoreBody req)) tr))"
  by (simp add: CreateDataStore_def Let_def split: prod.splits sum.splits)

lemma GetDataStore_result:
  "GetDataStore L c i tr =
     (case fst (call_MakeRequest L c (GetCall DataStore i) tr) of
        Inl err \<Rightarrow> Inl err
      | Inr resp \<Rightarrow>
          if StatusCode resp = 404 then Inl (NotFoundError DataStore i)
          else if 400 \<le> StatusCode resp then Inl (HandleErrorResponse L resp)
          else (case Decode_DataStoreResponse L (Body resp) of
                  Inl err \<Rightarrow> Inl (''failed to decode response: '' @ err)
                | Inr ds \<Rightarrow> Inr ds),
      snd (call_MakeRequest L c (GetCall DataStore i) tr))"
  by (simp add: GetDataStore_def Let_def NotFoundError_def split: prod.splits sum.splits)

lemma UpdateDataStore_result:
  "UpdateDataStore L c i req tr =
     (case fst (call_MakeRequest L c (UpdateCall i (DataStoreBody req)) tr) of
        Inl err \<Rightarrow> Inl err
      | Inr resp \<Rightarrow>
          if StatusCode resp = 404 then Inl (NotFoundError DataStore i)
          else if 400 \<le> StatusCode resp then Inl (HandleErrorResponse L resp)
          else (case Decode_DataStoreResponse L (Body resp) of
                  Inl err \<Rightarrow> Inl (''failed to decode response: '' @ err)
                | Inr ds \<Rightarrow> Inr ds),
      snd (call_MakeRequest L c (UpdateCall i (DataStoreBody req)) tr))"
  by (simp add: UpdateDataStore_def Let_def NotFoundError_def split: prod.splits sum.splits)

lemma DeleteDataStore_result:
  "DeleteDataStore L c i tr =
     (case fst (call_MakeRequest L c (DeleteCall DataStore i) tr) of
        Inl err \<Rightarrow> Inl err
      | Inr resp \<Rightarrow>
          if StatusCode resp = 404 then Inr ()
          else if 400 \<le> StatusCode resp then Inl (HandleErrorResponse L resp)
          else Inr (),
      snd (call_MakeRequest L c (DeleteCall DataStore i) tr))"
  by (simp add: DeleteDataStore_def Let_def split: prod.splits sum.splits)

lemmas gateway_results =
  CreateScenario_result GetScenario_result UpdateScenario_result DeleteScenario_result
  CreateConnection_result GetConnection_result UpdateConnection_result DeleteConnection_result
  CreateWebhook_result GetWebhook_result UpdateWebhook_result DeleteWebhook_result
  CreateTeam_result GetTeam_result UpdateTeam_result DeleteTeam_result
  CreateOrganization_result GetOrganization_result UpdateOrganization_result DeleteOrganization_result
  CreateDataStore_result GetDataStore_result UpdateDataStore_result DeleteDataStore_result

lemma gateway_trace: "snd (gateway L c call tr) = snd (call_MakeRequest L c call tr)"
  by (induction L c call tr rule: gateway.induct)
     (simp_all add: gateway_results del: call_MakeRequest.simps)

lemma call_MakeRequest_issued:
  "fst (call_MakeRequest L c call tr) = Inr r \<Longrightarrow>
   \<exists>q. snd (call_MakeRequest L c call tr) = tr @ [q] \<and> Method q = call_method call \<and>
       HTTPClient c (tr @ [q]) = Inr r"
  by (cases call) (simp_all add: MakeRequest_issued)

lemma call_MakeRequest_trace:
  "snd (call_MakeRequest L c call tr) = tr \<or>
   (\<exists>q. snd (call_MakeRequest L c call tr) = tr @ [q] \<and> Method q = call_method call)"
  using MakeRequest_trace by (cases call) simp_all

lemma gateway_delete_404:
  "fst (call_MakeRequest L c (DeleteCall k i) tr) = Inr resp \<Longrightarrow> StatusCode resp = 404 \<Longrightarrow>
   fst (gateway L c (DeleteCall k i) tr) = None"
  by (cases k) (simp_all add: gateway_results del: call_MakeRequest.simps)

lemma gateway_get_404:
  "fst (call_MakeRequest L c (GetCall k i) tr) = Inr resp \<Longrightarrow> StatusCode resp = 404 \<Longrightarrow>
   fst (gateway L c (GetCall k i) tr) = Some (NotFoundError k i)"
  by (cases k) (simp_all add: gateway_results del: call_MakeRequest.simps)

lemma gateway_update_404:
  "fst (call_MakeRequest L c (UpdateCall i req) tr) = Inr resp \<Longrightarrow> StatusCode resp = 404 \<Longrightarrow>
   fst (gateway L c (UpdateCall i req) tr) = Some (NotFoundError (kind_of req) i)"
  by (cases req) (simp_all add: gateway_results del: call_MakeRequest.simps)

lemma gateway_error_status:
  "fst (call_MakeRequest L c call tr) = Inr resp \<Longrightarrow> 400 \<le> StatusCode resp \<Longrightarrow>
   StatusCode resp \<noteq> 404 \<or> is_create call \<Longrightarrow>
   fst (gateway L c call tr) = Some (HandleErrorResponse L resp)"
  by (induction L c call tr rule: gateway.induct)
     (simp_all add: gateway_results del: call_MakeRequest.simps)

subsection \<open>Error texts\<close>

lemma HandleErrorResponse_policy:
  "HandleErrorResponse L resp =
     ApiError (StatusCode resp)
       (case Body resp of None \<Rightarrow> Status resp | Some body \<Rightarrow> extracted_message L body)"
  by (simp add: HandleErrorResponse_def ApiError_def extracted_message_def Let_def
      split: option.splits)

lemma HandleErrorResponse_is_ApiError:
  "\<exists>message. HandleErrorResponse L resp = ApiError (StatusCode resp) message"
  by (simp add: HandleErrorResponse_def ApiError_def Let_def split: option.splits)

lemma NotFoundError_not_ApiError: "NotFoundError k i \<noteq> ApiError status message"
  by (cases k) (simp_all add: NotFoundError_def ApiError_def)

lemma NotFoundError_inject: "NotFoundError k i = NotFoundError k j \<longleftrightarrow> i = j"
  by (simp add: NotFoundError_def)

subsection \<open>Operations that read the settings of the plan\<close>

lemma ConnectionResource_Create_proceeds:
  assumes "reads_request plan resp" and "settings_read L (Connection_Settings (Get_data plan))"
  shows "\<exists>resp'. \<not> HasError (Diagnostics resp') \<and> State resp' = State resp \<and>
     ConnectionResource_Create L c plan resp tr =
       ConnectionResource_Create_call L c (Get_data plan)
         (ConnectionResource_Create_request L (Get_data plan)) resp' tr"
proof (cases "Map_IsNull (Connection_Settings (Get_data plan))")
  case True
  with assms show ?thesis
    by (intro exI [of _ "resp\<lparr>Diagnostics := Append (Diagnostics resp) (Get_diags plan)\<rparr>"])
       (simp add: reads_request_def ConnectionResource_Create_def ConnectionResource_Create_request_def
        HasError_Append Let_def)
next
  case False
  with assms show ?thesis
    by (intro exI [of _ "resp\<lparr>Diagnostics := Append (Append (Diagnostics resp) (Get_diags plan))
          (fst (ElementsAs L (Connection_Settings (Get_data plan))))\<rparr>"])
       (simp add: reads_request_def settings_read_def ConnectionResource_Create_def
        ConnectionResource_Create_request_def HasError_Append Let_def case_prod_beta)
qed


lemma ConnectionResource_Update_proceeds:
  assumes "reads_request plan resp" and "settings_read L (Connection_Settings (Get_data plan))"
  shows "\<exists>resp'. \<not> HasError (Diagnostics resp') \<and> State resp' = State resp \<and>
     ConnectionResource_Update L c plan resp tr =
       ConnectionResource_Update_call L c (Get_data plan)
         (ConnectionResource_Update_request L (Get_data plan)) resp' tr"
proof (cases "Map_IsNull (Connection_Settings (Get_data plan))")
  case True
  with assms show ?thesis
    by (intro exI [of _ "resp\<lparr>Diagnostics := Append (Diagnostics resp) (Get_diags plan)\<rparr>"])
       (simp add: reads_request_def ConnectionResource_Update_def ConnectionResource_Update_request_def
        HasError_Append Let_def)
next
  case False
  with assms show ?thesis
    by (intro exI [of _ "resp\<lparr>Diagnostics := Append (Append (Diagnostics resp) (Get_diags plan))
          (fst (ElementsAs L (Connection_Settings (Get_data plan))))\<rparr>"])
       (simp add: reads_request_def settings_read_def ConnectionResource_Update_def
        ConnectionResource_Update_request_def HasError_Append Let_def case_prod_beta)
qed

lemma ConnectionResource_Update_returns:
  "(\<exists>resp'. HasError (Diagnostics resp') \<and> ConnectionResource_Update L c plan resp tr = (resp', tr)) \<or>
   (\<exists>resp' apiReq. ConnectionResource_Update L c plan resp tr =
      ConnectionResource_Update_call L c (Get_data plan) apiReq resp' tr)"
  by (simp add: ConnectionResource_Update_def Let_def case_prod_beta) blast

lemma WebhookResource_Create_proceeds:
  assumes "reads_request plan resp" and "settings_read L (Webhook_Settings (Get_data plan))"
  shows "\<exists>resp'. \<not> HasError (Diagnostics resp') \<and> State resp' = State resp \<and>
     WebhookResource_Create L c plan resp tr =
       WebhookResource_Create_call L c (Get_data plan)
         (WebhookResource_Create_request L (Get_data plan)) resp' tr"
proof (cases "Map_IsNull (Webhook_Settings (Get_data plan))")
  case True
  with assms show ?thesis
    by (intro exI [of _ "resp\<lparr>Diagnostics := Append (Diagnostics resp) (Get_diags plan)\<rparr>"])
       (simp add: reads_request_def WebhookResource_Create_def WebhookResource_Create_request_def
        HasError_Append Let_def)
next
  case False
  with assms show ?thesis
    by (intro exI [of _ "resp\<lparr>Diagnostics := Append (Append (Diagnostics resp) (Get_diags plan))
          (fst (ElementsAs L (Webhook_Settings (Get_data plan))))\<rparr>"])
       (simp add: reads_request_def settings_read_def WebhookResource_Create_def
        WebhookResource_Create_request_def HasError_Append Let_def case_prod_beta)
qed


lemma WebhookResource_Update_proceeds:
  assumes "reads_request plan resp" and "settings_read L (Webhook_Settings (Get_data plan))"
  shows "\<exists>resp'. \<not> HasError (Diagnostics resp') \<and> State resp' = State resp \<and>
     WebhookResource_Update L c plan resp tr =
       WebhookResource_Update_call L c (Get_data plan)
         (WebhookResource_Update_request L (Get_data plan)) resp' tr"
proof (cases "Map_IsNull (Webhook_Settings (Get_data plan))")
  case True
  with assms show ?thesis
    by (intro exI [of _ "resp\<lparr>Diagnostics := Append (Diagnostics resp) (Get_diags plan)\<rparr>"])
       (simp add: reads_request_def WebhookResource_Update_def WebhookResource_Update_request_def
        HasError_Append Let_def)
next
  case False
  with assms show ?thesis
    by (intro exI [of _ "resp\<lparr>Diagnostics := Append (Append (Diagnostics resp) (Get_diags plan))
          (fst (ElementsAs L (Webhook_Settings (Get_data plan))))\<rparr>"])
       (simp add: reads_request_def settings_read_def WebhookResource_Update_def
        WebhookResource_Update_request_def HasError_Append Let_def case_prod_beta)
qed

lemma WebhookResource_Update_returns:
  "(\<exists>resp'. HasError (Diagnostics resp') \<and> WebhookResource_Update L c plan resp tr = (resp', tr)) \<or>
   (\<exists>resp' apiReq. WebhookResource_Update L c plan resp tr =
      WebhookResource_Update_call L c (Get_data plan) apiReq resp' tr)"
  by (simp add: WebhookResource_Update_def Let_def case_prod_beta) blast

subsection \<open>Resource operations and status 404\<close>

lemma ScenarioResource_Create_not_found:
  assumes "reads_request plan resp"
  shows "not_found_reported c resp tr ''POST''
     (call_MakeRequest L c (CreateCall (ScenarioBody (ScenarioResource_Create_apiReq (Get_data plan)))) tr)
     (ScenarioResource_Create L c plan resp tr)"
  unfolding not_found_reported_def
proof (intro allI impI)
  fix r
  let ?call = "CreateCall (ScenarioBody (ScenarioResource_Create_apiReq (Get_data plan)))"
  let ?out = "ScenarioResource_Create L c plan resp tr"
  assume a: "fst (call_MakeRequest L c ?call tr) = Inr r \<and> StatusCode r = 404"
  then obtain q where q: "snd (call_MakeRequest L c ?call tr) = tr @ [q]" "Method q = ''POST''"
    "HTTPClient c (tr @ [q]) = Inr r"
    using call_MakeRequest_issued [of L c ?call tr r] by auto
  show "(\<exists>q. snd ?out = tr @ [q] \<and> Method q = ''POST'' \<and> HTTPClient c (snd ?out) = Inr r) \<and>
        HasError (Diagnostics (fst ?out)) \<and> State (fst ?out) = State resp"
    using assms a q
    by (simp add: reads_request_def ScenarioResource_Create_def CreateScenario_result HasError_Append
        HasError_AddError Let_def del: call_MakeRequest.simps)
qed

lemma ScenarioResource_Read_not_found:
  assumes "reads_request st resp"
  shows "not_found_reported c resp tr ''GET''
     (call_MakeRequest L c (GetCall Scenario (ValueString (Scenario_Id (Get_data st)))) tr)
     (ScenarioResource_Read L c st resp tr)"
  unfolding not_found_reported_def
proof (intro allI impI)
  fix r
  let ?call = "GetCall Scenario (ValueString (Scenario_Id (Get_data st)))"
  let ?out = "ScenarioResource_Read L c st resp tr"
  assume a: "fst (call_MakeRequest L c ?call tr) = Inr r \<and> StatusCode r = 404"
  then obtain q where q: "snd (call_MakeRequest L c ?call tr) = tr @ [q]" "Method q = ''GET''"
    "HTTPClient c (tr @ [q]) = Inr r"
    using call_MakeRequest_issued [of L c ?call tr r] by auto
  show "(\<exists>q. snd ?out = tr @ [q] \<and> Method q = ''GET'' \<and> HTTPClient c (snd ?out) = Inr r) \<and>
        HasError (Diagnostics (fst ?out)) \<and> State (fst ?out) = State resp"
    using assms a q
    by (simp add: reads_request_def ScenarioResource_Read_def GetScenario_result HasError_Append
        HasError_AddError Let_def del: call_MakeRequest.simps)
qed

lemma ScenarioResource_Update_not_found:
  assumes "reads_request plan resp"
  shows "not_found_reported c resp tr ''PUT''
     (call_MakeRequest L c (UpdateCall (ValueString (Scenario_Id (Get_data plan))) (ScenarioBody (ScenarioResource_Update_apiReq (Get_data plan)))) tr)
     (ScenarioResource_Update L c plan resp tr)"
  unfolding not_found_reported_def
proof (intro allI impI)
  fix r
  let ?call = "UpdateCall (ValueString (Scenario_Id (Get_data plan))) (ScenarioBody (ScenarioResource_Update_apiReq (Get_data plan)))"
  let ?out = "ScenarioResource_Update L c plan resp tr"
  assume a: "fst (call_MakeRequest L c ?call tr) = Inr r \<and> StatusCode r = 404"
  then obtain q where q: "snd (call_MakeRequest L c ?call tr) = tr @ [q]" "Method q = ''PUT''"
    "HTTPClient c (tr @ [q]) = Inr r"
    using call_MakeRequest_issued [of L c ?call tr r] by auto
  show "(\<exists>q. snd ?out = tr @ [q] \<and> Method q = ''PUT'' \<and> HTTPClient c (snd ?out) = Inr r) \<and>
        HasError (Diagnostics (fst ?out)) \<and> State (fst ?out) = State resp"
    using assms a q
    by (simp add: reads_request_def ScenarioResource_Update_def UpdateScenario_result HasError_Append
        HasError_AddError Let_def del: call_MakeRequest.simps)
qed

lemma ScenarioResource_Delete_not_found:
  assumes "reads_request st resp"
  shows "not_found_tolerated c resp tr ''DELETE''
     (call_MakeRequest L c (DeleteCall Scenario (ValueString (Scenario_Id (Get_data st)))) tr)
     (ScenarioResource_Delete L c st resp tr)"
  unfolding not_found_tolerated_def
proof (intro allI impI)
  fix r
  let ?call = "DeleteCall Scenario (ValueString (Scenario_Id (Get_data st)))"
  let ?out = "ScenarioResource_Delete L c st resp tr"
  assume a: "fst (call_MakeRequest L c ?call tr) = Inr r \<and> StatusCode r = 404"
  then obtain q where q: "snd (call_MakeRequest L c ?call tr) = tr @ [q]" "Method q = ''DELETE''"
    "HTTPClient c (tr @ [q]) = Inr r"
    using call_MakeRequest_issued [of L c ?call tr r] by auto
  show "(\<exists>q. snd ?out = tr @ [q] \<and> Method q = ''DELETE'' \<and> HTTPClient c (snd ?out) = Inr r) \<and>
        \<not> HasError (Diagnostics (fst ?out)) \<and> State (fst ?out) = State resp"
    using assms a q
    by (simp add: reads_request_def ScenarioResource_Delete_def DeleteScenario_result HasError_Append
        HasError_AddError Let_def del: call_MakeRequest.simps)
qed

lemma ConnectionResource_Create_call_not_found:
  assumes "\<not> HasError (Diagnostics resp)" and "State resp = State resp0"
  shows "not_found_reported c resp0 tr ''POST'' (call_MakeRequest L c (CreateCall (ConnectionBody apiReq)) tr)
     (ConnectionResource_Create_call L c data apiReq resp tr)"
  unfolding not_found_reported_def
proof (intro allI impI)
  fix r
  let ?call = "CreateCall (ConnectionBody apiReq)"
  let ?out = "ConnectionResource_Create_call L c data apiReq resp tr"
  assume a: "fst (call_MakeRequest L c ?call tr) = Inr r \<and> StatusCode r = 404"
  then obtain q where q: "snd (call_MakeRequest L c ?call tr) = tr @ [q]" "Method q = ''POST''"
    "HTTPClient c (tr @ [q]) = Inr r"
    using call_MakeRequest_issued [of L c ?call tr r] by auto
  show "(\<exists>q. snd ?out = tr @ [q] \<and> Method q = ''POST'' \<and> HTTPClient c (snd ?out) = Inr r) \<and>
        HasError (Diagnostics (fst ?out)) \<and> State (fst ?out) = State resp0"
    using assms a q
    by (simp add: ConnectionResource_Create_call_def CreateConnection_result HasError_AddError
        del: call_MakeRequest.simps)
qed

lemma ConnectionResource_Create_not_found:
  assumes "reads_request plan resp"
    and "settings_read L (Connection_Settings (Get_data plan))"
  shows "not_found_reported c resp tr ''POST''
     (call_MakeRequest L c (CreateCall (ConnectionBody (ConnectionResource_Create_request L (Get_data plan)))) tr)
     (ConnectionResource_Create L c plan resp tr)"
proof -
  from ConnectionResource_Create_proceeds [OF assms, of c tr] obtain resp' where
    resp': "\<not> HasError (Diagnostics resp')" "State resp' = State resp"
    and eq: "ConnectionResource_Create L c plan resp tr =
       ConnectionResource_Create_call L c (Get_data plan)
         (ConnectionResource_Create_request L (Get_data plan)) resp' tr"
    by blast
  show ?thesis
    unfolding eq by (rule ConnectionResource_Create_call_not_found [OF resp'])
qed

lemma ConnectionResource_Read_not_found:
  assumes "reads_request st resp"
  shows "not_found_reported c resp tr ''GET''
     (call_MakeRequest L c (GetCall Connection (ValueString (Connection_Id (Get_data st)))) tr)
     (ConnectionResource_Read L c st resp tr)"
  unfolding not_found_reported_def
proof (intro allI impI)
  fix r
  let ?call = "GetCall Connection (ValueString (Connection_Id (Get_data st)))"
  let ?out = "ConnectionResource_Read L c st resp tr"
  assume a: "fst (call_MakeRequest L c ?call tr) = Inr r \<and> StatusCode r = 404"
  then obtain q where q: "snd (call_MakeRequest L c ?call tr) = tr @ [q]" "Method q = ''GET''"
    "HTTPClient c (tr @ [q]) = Inr r"
    using call_MakeRequest_issued [of L c ?call tr r] by auto
  show "(\<exists>q. snd ?out = tr @ [q] \<and> Method q = ''GET'' \<and> HTTPClient c (snd ?out) = Inr r) \<and>
        HasError (Diagnostics (fst ?out)) \<and> State (fst ?out) = State resp"
    using assms a q
    by (simp add: reads_request_def ConnectionResource_Read_def GetConnection_result HasError_Append
        HasError_AddError Let_def del: call_MakeRequest.simps)
qed

lemma ConnectionResource_Update_call_not_found:
  assumes "\<not> HasError (Diagnostics resp)" and "State resp = State resp0"
  shows "not_found_reported c resp0 tr ''PUT'' (call_MakeRequest L c (UpdateCall (ValueString (Connection_Id data)) (ConnectionBody apiReq)) tr)
     (ConnectionResource_Update_call L c data apiReq resp tr)"
  unfolding not_found_reported_def
proof (intro allI impI)
  fix r
  let ?call = "UpdateCall (ValueString (Connection_Id data)) (ConnectionBody apiReq)"
  let ?out = "ConnectionResource_Update_call L c data apiReq resp tr"
  assume a: "fst (call_MakeRequest L c ?call tr) = Inr r \<and> StatusCode r = 404"
  then obtain q where q: "snd (call_MakeRequest L c ?call tr) = tr @ [q]" "Method q = ''PUT''"
    "HTTPClient c (tr @ [q]) = Inr r"
    using call_MakeRequest_issued [of L c ?call tr r] by auto
  show "(\<exists>q. snd ?out = tr @ [q] \<and> Method q = ''PUT'' \<and> HTTPClient c (snd ?out) = Inr r) \<and>
        HasError (Diagnostics (fst ?out)) \<and> State (fst ?out) = State resp0"
    using assms a q
    by (simp add: ConnectionResource_Update_call_def UpdateConnection_result HasError_AddError
        del: call_MakeRequest.simps)
qed

lemma ConnectionResource_Update_not_found:
  assumes "reads_request plan resp"
    and "settings_read L (Connection_Settings (Get_data plan))"
  shows "not_found_reported c resp tr ''PUT''
     (call_MakeRequest L c (UpdateCall (ValueString (Connection_Id (Get_data plan))) (ConnectionBody (ConnectionResource_Update_request L (Get_data plan)))) tr)
     (ConnectionResource_Update L c plan resp tr)"
proof -
  from ConnectionResource_Update_proceeds [OF assms, of c tr] obtain resp' where
    resp': "\<not> HasError (Diagnostics resp')" "State resp' = State resp"
    and eq: "ConnectionResource_Update L c plan resp tr =
       ConnectionResource_Update_call L c (Get_data plan)
         (ConnectionResource_Update_request L (Get_data plan)) resp' tr"
    by blast
  show ?thesis
    unfolding eq by (rule ConnectionResource_Update_call_not_found [OF resp'])
qed

lemma ConnectionResource_Delete_not_found:
  assumes "reads_request st resp"
  shows "not_found_tolerated c resp tr ''DELETE''
     (call_MakeRequest L c (DeleteCall Connection (ValueString (Connection_Id (Get_data st)))) tr)
     (ConnectionResource_Delete L c st resp tr)"
  unfolding not_found_tolerated_def
proof (intro allI impI)
  fix r
  let ?call = "DeleteCall Connection (ValueString (Connection_Id (Get_data st)))"
  let ?out = "ConnectionResource_Delete L c st resp tr"
  assume a: "fst (call_MakeRequest L c ?call tr) = Inr r \<and> StatusCode r = 404"
  then obtain q where q: "snd (call_MakeRequest L c ?call tr) = tr @ [q]" "Method q = ''DELETE''"
    "HTTPClient c (tr @ [q]) = Inr r"
    using call_MakeRequest_issued [of L c ?call tr r] by auto
  show "(\<exists>q. snd ?out = tr @ [q] \<and> Method q = ''DELETE'' \<and> HTTPClient c (snd ?out) = Inr r) \<and>
        \<not> HasError (Diagnostics (fst ?out)) \<and> State (fst ?out) = State resp"
    using assms a q
    by (simp add: reads_request_def ConnectionResource_Delete_def DeleteConnection_result HasError_Append
        HasError_AddError Let_def del: call_MakeRequest.simps)
qed

lemma WebhookResource_Create_call_not_found:
  assumes "\<not> HasError (Diagnostics resp)" and "State resp = State resp0"
  shows "not_found_reported c resp0 tr ''POST'' (call_MakeRequest L c (CreateCall (WebhookBody apiReq)) tr)
     (WebhookResource_Create_call L c data apiReq resp tr)"
  unfolding not_found_reported_def
proof (intro allI impI)
  fix r
  let ?call = "CreateCall (WebhookBody apiReq)"
  let ?out = "WebhookResource_Create_call L c data apiReq resp tr"
  assume a: "fst (call_MakeRequest L c ?call tr) = Inr r \<and> StatusCode r = 404"
  then obtain q where q: "snd (call_MakeRequest L c ?call tr) = tr @ [q]" "Method q = ''POST''"
    "HTTPClient c (tr @ [q]) = Inr r"
    using call_MakeRequest_issued [of L c ?call tr r] by auto
  show "(\<exists>q. snd ?out = tr @ [q] \<and> Method q = ''POST'' \<and> HTTPClient c (snd ?out) = Inr r) \<and>
        HasError (Diagnostics (fst ?out)) \<and> State (fst ?out) = State resp0"
    using assms a q
    by (simp add: WebhookResource_Create_call_def CreateWebhook_result HasError_AddError
        del: call_MakeRequest.simps)
qed

lemma WebhookResource_Create_not_found:
  assumes "reads_request plan resp"
    and "settings_read L (Webhook_Settings (Get_data plan))"
  shows "not_found_reported c resp tr ''POST''
     (call_MakeRequest L c (CreateCall (WebhookBody (WebhookResource_Create_request L (Get_data plan)))) tr)
     (WebhookResource_Create L c plan resp tr)"
proof -
  from WebhookResource_Create_proceeds [OF assms, of c tr] obtain resp' where
    resp': "\<not> HasError (Diagnostics resp')" "State resp' = State resp"
    and eq: "WebhookResource_Create L c plan resp tr =
       WebhookResource_Create_call L c (Get_data plan)
         (WebhookResource_Create_request L (Get_data plan)) resp' tr"
    by blast
  show ?thesis
    unfolding eq by (rule WebhookResource_Create_call_not_found [OF resp'])
qed

lemma WebhookResource_Read_not_found:
  assumes "reads_request st resp"
  shows "not_found_reported c resp tr ''GET''
     (call_MakeRequest L c (GetCall Webhook (ValueString (Webhook_Id (Get_data st)))) tr)
     (WebhookResource_Read L c st resp tr)"
  unfolding not_found_reported_def
proof (intro allI impI)
  fix r
  let ?call = "GetCall Webhook (ValueString (Webhook_Id (Get_data st)))"
  let ?out = "WebhookResource_Read L c st resp tr"
  assume a: "fst (call_MakeRequest L c ?call tr) = Inr r \<and> StatusCode r = 404"
  then obtain q where q: "snd (call_MakeRequest L c ?call tr) = tr @ [q]" "Method q = ''GET''"
    "HTTPClient c (tr @ [q]) = Inr r"
    using call_MakeRequest_issued [of L c ?call tr r] by auto
  show "(\<exists>q. snd ?out = tr @ [q] \<and> Method q = ''GET'' \<and> HTTPClient c (snd ?out) = Inr r) \<and>
        HasError (Diagnostics (fst ?out)) \<and> State (fst ?out) = State resp"
    using assms a q
    by (simp add: reads_request_def WebhookResource_Read_def GetWebhook_result HasError_Append
        HasError_AddError Let_def del: call_MakeRequest.simps)
qed

lemma WebhookResource_Update_call_not_found:
  assumes "\<not> HasError (Diagnostics resp)" and "State resp = State resp0"
  shows "not_found_reported c resp0 tr ''PUT'' (call_MakeRequest L c (UpdateCall (ValueString (Webhook_Id data)) (WebhookBody apiReq)) tr)
     (WebhookResource_Update_call L c data apiReq resp tr)"
  unfolding not_found_reported_def
proof (intro allI impI)
  fix r
  let ?call = "UpdateCall (ValueString (Webhook_Id data)) (WebhookBody apiReq)"
  let ?out = "WebhookResource_Update_call L c data apiReq resp tr"
  assume a: "fst (call_MakeRequest L c ?call tr) = Inr r \<and> StatusCode r = 404"
  then obtain q where q: "snd (call_MakeRequest L c ?call tr) = tr @ [q]" "Method q = ''PUT''"
    "HTTPClient c (tr @ [q]) = Inr r"
    using call_MakeRequest_issued [of L c ?call tr r] by auto
  show "(\<exists>q. snd ?out = tr @ [q] \<and> Method q = ''PUT'' \<and> HTTPClient c (snd ?out) = Inr r) \<and>
        HasError (Diagnostics (fst ?out)) \<and> State (fst ?out) = State resp0"
    using assms a q
    by (simp add: WebhookResource_Update_call_def UpdateWebhook_result HasError_AddError
        del: call_MakeRequest.simps)
qed

lemma WebhookResource_Update_not_found:
  assumes "reads_request plan resp"
    and "settings_read L (Webhook_Settings (Get_data plan))"
  shows "not_found_reported c resp tr ''PUT''
     (call_MakeRequest L c (UpdateCall (ValueString (Webhook_Id (Get_data plan))) (WebhookBody (WebhookResource_Update_request L (Get_data plan)))) tr)
     (WebhookResource_Update L c plan resp tr)"
proof -
  from WebhookResource_Update_proceeds [OF assms, of c tr] obtain resp' where
    resp': "\<not> HasError (Diagnostics resp')" "State resp' = State resp"
    and eq: "WebhookResource_Update L c plan resp tr =
       WebhookResource_Update_call L c (Get_data plan)
         (WebhookResource_Update_request L (Get_data plan)) resp' tr"
    by blast
  show ?thesis
    unfolding eq by (rule WebhookResource_Update_call_not_found [OF resp'])
qed

lemma WebhookResource_Delete_not_found:
  assumes "reads_request st resp"
  shows "not_found_tolerated c resp tr ''DELETE''
     (call_MakeRequest L c (DeleteCall Webhook (ValueString (Webhook_Id (Get_data st)))) tr)
     (WebhookResource_Delete L c st resp tr)"
  unfolding not_found_tolerated_def
proof (intro allI impI)
  fix r
  let ?call = "DeleteCall Webhook (ValueString (Webhook_Id (Get_data st)))"
  let ?out = "WebhookResource_Delete L c st resp tr"
  assume a: "fst (call_MakeRequest L c ?call tr) = Inr r \<and> StatusCode r = 404"
  then obtain q where q: "snd (call_MakeRequest L c ?call tr) = tr @ [q]" "Method q = ''DELETE''"
    "HTTPClient c (tr @ [q]) = Inr r"
    using call_MakeRequest_issued [of L c ?call tr r] by auto
  show "(\<exists>q. snd ?out = tr @ [q] \<and> Method q = ''DELETE'' \<and> HTTPClient c (snd ?out) = Inr r) \<and>
        \<not> HasError (Diagnostics (fst ?out)) \<and> State (fst ?out) = State resp"
    using assms a q
    by (simp add: reads_request_def WebhookResource_Delete_def DeleteWebhook_result HasError_Append
        HasError_AddError Let_def del: call_MakeRequest.simps)
qed

lemma TeamResource_Create_not_found:
  assumes "reads_request plan resp"
  shows "not_found_reported c resp tr ''POST''
     (call_MakeRequest L c (CreateCall (TeamBody (TeamResource_Create_apiReq (Get_data plan)))) tr)
     (TeamResource_Create L c plan resp tr)"
  unfolding not_found_reported_def
proof (intro allI impI)
  fix r
  let ?call = "CreateCall (TeamBody (TeamResource_Create_apiReq (Get_data plan)))"
  let ?out = "TeamResource_Create L c plan resp tr"
  assume a: "fst (call_MakeRequest L c ?call tr) = Inr r \<and> StatusCode r = 404"
  then obtain q where q: "snd (call_MakeRequest L c ?call tr) = tr @ [q]" "Method q = ''POST''"
    "HTTPClient c (tr @ [q]) = Inr r"
    using call_MakeRequest_issued [of L c ?call tr r] by auto
  show "(\<exists>q. snd ?out = tr @ [q] \<and> Method q = ''POST'' \<and> HTTPClient c (snd ?out) = Inr r) \<and>
        HasError (Diagnostics (fst ?out)) \<and> State (fst ?out) = State resp"
    using assms a q
    by (simp add: reads_request_def TeamResource_Create_def CreateTeam_result HasError_Append
        HasError_AddError Let_def del: call_MakeRequest.simps)
qed

lemma TeamResource_Read_not_found:
  assumes "reads_request st resp"
  shows "not_found_reported c resp tr ''GET''
     (call_MakeRequest L c (GetCall Team (ValueString (Team_Id (Get_data st)))) tr)
     (TeamResource_Read L c st resp tr)"
  unfolding not_found_reported_def
proof (intro allI impI)
  fix r
  let ?call = "GetCall Team (ValueString (Team_Id (Get_data st)))"
  let ?out = "TeamResource_Read L c st resp tr"
  assume a: "fst (call_MakeRequest L c ?call tr) = Inr r \<and> StatusCode r = 404"
  then obtain q where q: "snd (call_MakeRequest L c ?call tr) = tr @ [q]" "Method q = ''GET''"
    "HTTPClient c (tr @ [q]) = Inr r"
    using call_MakeRequest_issued [of L c ?call tr r] by auto
  show "(\<exists>q. snd ?out = tr @ [q] \<and> Method q = ''GET'' \<and> HTTPClient c (snd ?out) = Inr r) \<and>
        HasError (Diagnostics (fst ?out)) \<and> State (fst ?out) = State resp"
    using assms a q
    by (simp add: reads_request_def TeamResource_Read_def GetTeam_result HasError_Append
        HasError_AddError Let_def del: call_MakeRequest.simps)
qed

lemma TeamResource_Update_not_found:
  assumes "reads_request plan resp"
  shows "not_found_reported c resp tr ''PUT''
     (call_MakeRequest L c (UpdateCall (ValueString (Team_Id (Get_data plan))) (TeamBody (TeamResource_Update_apiReq (Get_data plan)))) tr)
     (TeamResource_Update L c plan resp tr)"
  unfolding not_found_reported_def
proof (intro allI impI)
  fix r
  let ?call = "UpdateCall (ValueString (Team_Id (Get_data plan))) (TeamBody (TeamResource_Update_apiReq (Get_data plan)))"
  let ?out = "TeamResource_Update L c plan resp tr"
  assume a: "fst (call_MakeRequest L c ?call tr) = Inr r \<and> StatusCode r = 404"
  then obtain q where q: "snd (call_MakeRequest L c ?call tr) = tr @ [q]" "Method q = ''PUT''"
    "HTTPClient c (tr @ [q]) = Inr r"
    using call_MakeRequest_issued [of L c ?call tr r] by auto
  show "(\<exists>q. snd ?out = tr @ [q] \<and> Method q = ''PUT'' \<and> HTTPClient c (snd ?out) = Inr r) \<and>
        HasError (Diagnostics (fst ?out)) \<and> State (fst ?out) = State resp"
    using assms a q
    by (simp add: reads_request_def TeamResource_Update_def UpdateTeam_result HasError_Append
        HasError_AddError Let_def del: call_MakeRequest.simps)
qed

lemma TeamResource_Delete_not_found:
  assumes "reads_request st resp"
  shows "not_found_tolerated c resp tr ''DELETE''
     (call_MakeRequest L c (DeleteCall Team (ValueString (Team_Id (Get_data st)))) tr)
     (TeamResource_Delete L c st resp tr)"
  unfolding not_found_tolerated_def
proof (intro allI impI)
  fix r
  let ?call = "DeleteCall Team (ValueString (Team_Id (Get_data st)))"
  let ?out = "TeamResource_Delete L c st resp tr"
  assume a: "fst (call_MakeRequest L c ?call tr) = Inr r \<and> StatusCode r = 404"
  then obtain q where q: "snd (call_MakeRequest L c ?call tr) = tr @ [q]" "Method q = ''DELETE''"
    "HTTPClient c (tr @ [q]) = Inr r"
    using call_MakeRequest_issued [of L c ?call tr r] by auto
  show "(\<exists>q. snd ?out = tr @ [q] \<and> Method q = ''DELETE'' \<and> HTTPClient c (snd ?out) = Inr r) \<and>
        \<not> HasError (Diagnostics (fst ?out)) \<and> State (fst ?out) = State resp"
    using assms a q
    by (simp add: reads_request_def TeamResource_Delete_def DeleteTeam_result HasError_Append
        HasError_AddError Let_def del: call_MakeRequest.simps)
qed

lemma OrganizationResource_Create_not_found:
  assumes "reads_request plan resp"
  shows "not_found_reported c resp tr ''POST''
     (call_MakeRequest L c (CreateCall (OrganizationBody (OrganizationResource_Create_apiReq (Get_data plan)))) tr)
     (OrganizationResource_Create L c plan resp tr)"
  unfolding not_found_reported_def
proof (intro allI impI)
  fix r
  let ?call = "CreateCall (OrganizationBody (OrganizationResource_Create_apiReq (Get_data plan)))"
  let ?out = "OrganizationResource_Create L c plan resp tr"
  assume a: "fst (call_MakeRequest L c ?call tr) = Inr r \<and> StatusCode r = 404"
  then obtain q where q: "snd (call_MakeRequest L c ?call tr) = tr @ [q]" "Method q = ''POST''"
    "HTTPClient c (tr @ [q]) = Inr r"
    using call_MakeRequest_issued [of L c ?call tr r] by auto
  show "(\<exists>q. snd ?out = tr @ [q] \<and> Method q = ''POST'' \<and> HTTPClient c (snd ?out) = Inr r) \<and>
        HasError (Diagnostics (fst ?out)) \<and> State (fst ?out) = State resp"
    using assms a q
    by (simp add: reads_request_def OrganizationResource_Create_def CreateOrganization_result HasError_Append
        HasError_AddError Let_def del: call_MakeRequest.simps)
qed

lemma OrganizationResource_Read_not_found:
  assumes "reads_request st resp"
  shows "not_found_reported c resp tr ''GET''
     (call_MakeRequest L c (GetCall Organization (ValueString (Organization_Id (Get_data st)))) tr)
     (OrganizationResource_Read L c st resp tr)"
  unfolding not_found_reported_def
proof (intro allI impI)
  fix r
  let ?call = "GetCall Organization (ValueString (Organization_Id (Get_data st)))"
  let ?out = "OrganizationResource_Read L c st resp tr"
  assume a: "fst (call_MakeRequest L c ?call tr) = Inr r \<and> StatusCode r = 404"
  then obtain q where q: "snd (call_MakeRequest L c ?call tr) = tr @ [q]" "Method q = ''GET''"
    "HTTPClient c (tr @ [q]) = Inr r"
    using call_MakeRequest_issued [of L c ?call tr r] by auto
  show "(\<exists>q. snd ?out = tr @ [q] \<and> Method q = ''GET'' \<and> HTTPClient c (snd ?out) = Inr r) \<and>
        HasError (Diagnostics (fst ?out)) \<and> State (fst ?out) = State resp"
    using assms a q
    by (simp add: reads_request_def OrganizationResource_Read_def GetOrganization_result HasError_Append
        HasError_AddError Let_def del: call_MakeRequest.simps)
qed

lemma OrganizationResource_Update_not_found:
  assumes "reads_request plan resp"
  shows "not_found_reported c resp tr ''PUT''
     (call_MakeRequest L c (UpdateCall (ValueString (Organization_Id (Get_data plan))) (OrganizationBody (OrganizationResource_Update_apiReq (Get_data plan)))) tr)
     (OrganizationResource_Update L c plan resp tr)"
  unfolding not_found_reported_def
proof (intro allI impI)
  fix r
  let ?call = "UpdateCall (ValueString (Organization_Id (Get_data plan))) (OrganizationBody (OrganizationResource_Update_apiReq (Get_data plan)))"
  let ?out = "OrganizationResource_Update L c plan resp tr"
  assume a: "fst (call_MakeRequest L c ?call tr) = Inr r \<and> StatusCode r = 404"
  then obtain q where q: "snd (call_MakeRequest L c ?call tr) = tr @ [q]" "Method q = ''PUT''"
    "HTTPClient c (tr @ [q]) = Inr r"
    using call_MakeRequest_issued [of L c ?call tr r] by auto
  show "(\<exists>q. snd ?out = tr @ [q] \<and> Method q = ''PUT'' \<and> HTTPClient c (snd ?out) = Inr r) \<and>
        HasError (Diagnostics (fst ?out)) \<and> State (fst ?out) = State resp"
    using assms a q
    by (simp add: reads_request_def OrganizationResource_Update_def UpdateOrganization_result HasError_Append
        HasError_AddError Let_def del: call_MakeRequest.simps)
qed

lemma OrganizationResource_Delete_not_found:
  assumes "reads_request st resp"
  shows "not_found_tolerated c resp tr ''DELETE''
     (call_MakeRequest L c (DeleteCall Organization (ValueString (Organization_Id (Get_data st)))) tr)
     (OrganizationResource_Delete L c st resp tr)"
  unfolding not_found_tolerated_def
proof (intro allI impI)
  fix r
  let ?call = "DeleteCall Organization (ValueString (Organization_Id (Get_data st)))"
  let ?out = "OrganizationResource_Delete L c st resp tr"
  assume a: "fst (call_MakeRequest L c ?call tr) = Inr r \<and> StatusCode r = 404"
  then obtain q where q: "snd (call_MakeRequest L c ?call tr) = tr @ [q]" "Method q = ''DELETE''"
    "HTTPClient c (tr @ [q]) = Inr r"
    using call_MakeRequest_issued [of L c ?call tr r] by auto
  show "(\<exists>q. snd ?out = tr @ [q] \<and> Method q = ''DELETE'' \<and> HTTPClient c (snd ?out) = Inr r) \<and>
        \<not> HasError (Diagnostics (fst ?out)) \<and> State (fst ?out) = State resp"
    using assms a q
    by (simp add: reads_request_def OrganizationResource_Delete_def DeleteOrganization_result HasError_Append
        HasError_AddError Let_def del: call_MakeRequest.simps)
qed

lemma DataStoreResource_Create_not_found:
  assumes "reads_request plan resp"
  shows "not_found_reported c resp tr ''POST''
     (call_MakeRequest L c (CreateCall (DataStoreBody (DataStoreResource_Create_apiReq (Get_data plan)))) tr)
     (DataStoreResource_Create L c plan resp tr)"
  unfolding not_found_reported_def
proof (intro allI impI)
  fix r
  let ?call = "CreateCall (DataStoreBody (DataStoreResource_Create_apiReq (Get_data plan)))"
  let ?out = "DataStoreResource_Create L c plan resp tr"
  assume a: "fst (call_MakeRequest L c ?call tr) = Inr r \<and> StatusCode r = 404"
  then obtain q where q: "snd (call_MakeRequest L c ?call tr) = tr @ [q]" "Method q = ''POST''"
    "HTTPClient c (tr @ [q]) = Inr r"
    using call_MakeRequest_issued [of L c ?call tr r] by auto
  show "(\<exists>q. snd ?out = tr @ [q] \<and> Method q = ''POST'' \<and> HTTPClient c (snd ?out) = Inr r) \<and>
        HasError (Diagnostics (fst ?out)) \<and> State (fst ?out) = State resp"
    using assms a q
    by (simp add: reads_request_def DataStoreResource_Create_def CreateDataStore_result HasError_Append
        HasError_AddError Let_def del: call_MakeRequest.simps)
qed

lemma DataStoreResource_Read_not_found:
  assumes "reads_request st resp"
  shows "not_found_reported c resp tr ''GET''
     (call_MakeRequest L c (GetCall DataStore (ValueString (DataStore_Id (Get_data st)))) tr)
     (DataStoreResource_Read L c st resp tr)"
  unfolding not_found_reported_def
proof (intro allI impI)
  fix r
  let ?call = "GetCall DataStore (ValueString (DataStore_Id (Get_data st)))"
  let ?out = "DataStoreResource_Read L c st resp tr"
  assume a: "fst (call_MakeRequest L c ?call tr) = Inr r \<and> StatusCode r = 404"
  then obtain q where q: "snd (call_MakeRequest L c ?call tr) = tr @ [q]" "Method q = ''GET''"
    "HTTPClient c (tr @ [q]) = Inr r"
    using call_MakeRequest_issued [of L c ?call tr r] by auto
  show "(\<exists>q. snd ?out = tr @ [q] \<and> Method q = ''GET'' \<and> HTTPClient c (snd ?out) = Inr r) \<and>
        HasError (Diagnostics (fst ?out)) \<and> State (fst ?out) = State resp"
    using assms a q
    by (simp add: reads_request_def DataStoreResource_Read_def GetDataStore_result HasError_Append
        HasError_AddError Let_def del: call_MakeRequest.simps)
qed

lemma DataStoreResource_Update_not_found:
  assumes "reads_request plan resp"
  shows "not_found_reported c resp tr ''PUT''
     (call_MakeRequest L c (UpdateCall (ValueString (DataStore_Id (Get_data plan))) (DataStoreBody (DataStoreResource_Update_apiReq (Get_data plan)))) tr)
     (DataStoreResource_Update L c plan resp tr)"
  unfolding not_found_reported_def
proof (intro allI impI)
  fix r
  let ?call = "UpdateCall (ValueString (DataStore_Id (Get_data plan))) (DataStoreBody (DataStoreResource_Update_apiReq (Get_data plan)))"
  let ?out = "DataStoreResource_Update L c plan resp tr"
  assume a: "fst (call_MakeRequest L c ?call tr) = Inr r \<and> StatusCode r = 404"
  then obtain q where q: "snd (call_MakeRequest L c ?call tr) = tr @ [q]" "Method q = ''PUT''"
    "HTTPClient c (tr @ [q]) = Inr r"
    using call_MakeRequest_issued [of L c ?call tr r] by auto
  show "(\<exists>q. snd ?out = tr @ [q] \<and> Method q = ''PUT'' \<and> HTTPClient c (snd ?out) = Inr r) \<and>
        HasError (Diagnostics (fst ?out)) \<and> State (fst ?out) = State resp"
    using assms a q
    by (simp add: reads_request_def DataStoreResource_Update_def UpdateDataStore_result HasError_Append
        HasError_AddError Let_def del: call_MakeRequest.simps)
qed

lemma DataStoreResource_Delete_not_found:
  assumes "reads_request st resp"
  shows "not_found_tolerated c resp tr ''DELETE''
     (call_MakeRequest L c (DeleteCall DataStore (ValueString (DataStore_Id (Get_data st)))) tr)
     (DataStoreResource_Delete L c st resp tr)"
  unfolding not_found_tolerated_def
proof (intro allI impI)
  fix r
  let ?call = "DeleteCall DataStore (ValueString (DataStore_Id (Get_data st)))"
  let ?out = "DataStoreResource_Delete L c st resp tr"
  assume a: "fst (call_MakeRequest L c ?call tr) = Inr r \<and> StatusCode r = 404"
  then obtain q where q: "snd (call_MakeRequest L c ?call tr) = tr @ [q]" "Method q = ''DELETE''"
    "HTTPClient c (tr @ [q]) = Inr r"
    using call_MakeRequest_issued [of L c ?call tr r] by auto
  show "(\<exists>q. snd ?out = tr @ [q] \<and> Method q = ''DELETE'' \<and> HTTPClient c (snd ?out) = Inr r) \<and>
        \<not> HasError (Diagnostics (fst ?out)) \<and> State (fst ?out) = State resp"
    using assms a q
    by (simp add: reads_request_def DataStoreResource_Delete_def DeleteDataStore_result HasError_Append
        HasError_AddError Let_def del: call_MakeRequest.simps)
qed

subsection \<open>The requests of an update\<close>

lemma ScenarioResource_Update_one_request:
  "at_most_one_request tr ''PUT'' (ScenarioResource_Update L c plan resp tr)"
  using call_MakeRequest_trace [of L c "UpdateCall (ValueString (Scenario_Id (Get_data plan))) (ScenarioBody (ScenarioResource_Update_apiReq (Get_data plan)))" tr]
  by (simp add: at_most_one_request_def ScenarioResource_Update_def UpdateScenario_result Let_def
      split: sum.splits del: call_MakeRequest.simps)

lemma ConnectionResource_Update_call_one_request:
  "at_most_one_request tr ''PUT'' (ConnectionResource_Update_call L c data apiReq resp tr)"
  using call_MakeRequest_trace [of L c "UpdateCall (ValueString (Connection_Id data)) (ConnectionBody apiReq)" tr]
  by (simp add: at_most_one_request_def ConnectionResource_Update_call_def UpdateConnection_result
      split: sum.splits del: call_MakeRequest.simps)

lemma ConnectionResource_Update_one_request:
  "at_most_one_request tr ''PUT'' (ConnectionResource_Update L c plan resp tr)"
  using ConnectionResource_Update_returns [of L c plan resp tr]
proof (elim disjE exE conjE)
  fix resp'
  assume "HasError (Diagnostics resp')" and "ConnectionResource_Update L c plan resp tr = (resp', tr)"
  then show ?thesis by (simp add: at_most_one_request_def)
next
  fix resp' apiReq
  assume "ConnectionResource_Update L c plan resp tr =
    ConnectionResource_Update_call L c (Get_data plan) apiReq resp' tr"
  then show ?thesis by (simp add: ConnectionResource_Update_call_one_request)
qed

lemma WebhookResource_Update_call_one_request:
  "at_most_one_request tr ''PUT'' (WebhookResource_Update_call L c data apiReq resp tr)"
  using call_MakeRequest_trace [of L c "UpdateCall (ValueString (Webhook_Id data)) (WebhookBody apiReq)" tr]
  by (simp add: at_most_one_request_def WebhookResource_Update_call_def UpdateWebhook_result
      split: sum.splits del: call_MakeRequest.simps)

lemma WebhookResource_Update_one_request:
  "at_most_one_request tr ''PUT'' (WebhookResource_Update L c plan resp tr)"
  using WebhookResource_Update_returns [of L c plan resp tr]
proof (elim disjE exE conjE)
  fix resp'
  assume "HasError (Diagnostics resp')" and "WebhookResource_Update L c plan resp tr = (resp', tr)"
  then show ?thesis by (simp add: at_most_one_request_def)
next
  fix resp' apiReq
  assume "WebhookResource_Update L c plan resp tr =
    WebhookResource_Update_call L c (Get_data plan) apiReq resp' tr"
  then show ?thesis by (simp add: WebhookResource_Update_call_one_request)
qed

lemma TeamResource_Update_one_request:
  "at_most_one_request tr ''PUT'' (TeamResource_Update L c plan resp tr)"
  using call_MakeRequest_trace [of L c "UpdateCall (ValueString (Team_Id (Get_data plan))) (TeamBody (TeamResource_Update_apiReq (Get_data plan)))" tr]
  by (simp add: at_most_one_request_def TeamResource_Update_def UpdateTeam_result Let_def
      split: sum.splits del: call_MakeRequest.simps)

lemma OrganizationResource_Update_one_request:
  "at_most_one_request tr ''PUT'' (OrganizationResource_Update L c plan resp tr)"
  using call_MakeRequest_trace [of L c "UpdateCall (ValueString (Organization_Id (Get_data plan))) (OrganizationBody (OrganizationResource_Update_apiReq (Get_data plan)))" tr]
  by (simp add: at_most_one_request_def OrganizationResource_Update_def UpdateOrganization_result Let_def
      split: sum.splits del: call_MakeRequest.simps)

lemma DataStoreResource_Update_one_request:
  "at_most_one_request tr ''PUT'' (DataStoreResource_Update L c plan resp tr)"
  using call_MakeRequest_trace [of L c "UpdateCall (ValueString (DataStore_Id (Get_data plan))) (DataStoreBody (DataStoreResource_Update_apiReq (Get_data plan)))" tr]
  by (simp add: at_most_one_request_def DataStoreResource_Update_def UpdateDataStore_result Let_def
      split: sum.splits del: call_MakeRequest.simps)

subsection \<open>Resource operations and the identifier\<close>





































































subsection \<open>The lemmas of the operations, collected\<close>

lemmas not_found_rules =
  ScenarioResource_Create_not_found ScenarioResource_Read_not_found
  ScenarioResource_Update_not_found ScenarioResource_Delete_not_found
  ConnectionResource_Create_not_found ConnectionResource_Read_not_found
  ConnectionResource_Update_not_found ConnectionResource_Delete_not_found
  WebhookResource_Create_not_found WebhookResource_Read_not_found
  WebhookResource_Update_not_found WebhookResource_Delete_not_found
  TeamResource_Create_not_found TeamResource_Read_not_found TeamResource_Update_not_found
  TeamResource_Delete_not_found OrganizationResource_Create_not_found
  OrganizationResource_Read_not_found OrganizationResource_Update_not_found
  OrganizationResource_Delete_not_found DataStoreResource_Create_not_found
  DataStoreResource_Read_not_found DataStoreResource_Update_not_found
  DataStoreResource_Delete_not_found

lemmas one_request_rules =
  ScenarioResource_Update_one_request ConnectionResource_Update_one_request
  WebhookResource_Update_one_request TeamResource_Update_one_request
  OrganizationResource_Update_one_request DataStoreResource_Update_one_request



subsection \<open>Decimal digits\<close>

lemma digit_cases:
  "n mod 10 = 0 \<or> n mod 10 = 1 \<or> n mod 10 = 2 \<or> n mod 10 = 3 \<or> n mod 10 = 4 \<or>
   n mod 10 = 5 \<or> n mod 10 = 6 \<or> n mod 10 = 7 \<or> n mod 10 = 8 \<or> n mod 10 = (9::nat)"
  by arith

lemma is_digit_digit: "is_digit (digit n)"
  using digit_cases [of n] by (auto simp: is_digit_def digit_def)

lemma digit_value_digit: "digit_value (digit n) = n mod 10"
  using digit_cases [of n] by (auto simp: digit_value_def digit_def)

lemma is_digit_not_point: "is_digit ch \<Longrightarrow> ch \<noteq> CHR ''.''"
  by (auto simp: is_digit_def)

lemma FormatUint_digits: "list_all is_digit (FormatUint n)"
proof (induction n rule: FormatUint.induct)
  case (1 n)
  show ?case
  proof (cases "n < 10")
    case True
    then show ?thesis by (subst FormatUint.simps) (simp add: is_digit_digit)
  next
    case False
    with 1 show ?thesis by (subst FormatUint.simps) (simp add: is_digit_digit)
  qed
qed

lemma digits_value_snoc: "digits_value (s @ [ch]) = 10 * digits_value s + digit_value ch"
  by (simp add: digits_value_def)

lemma digits_value_FormatUint: "digits_value (FormatUint n) = n"
proof (induction n rule: FormatUint.induct)
  case (1 n)
  show ?case
  proof (cases "n < 10")
    case True
    then show ?thesis
      by (subst FormatUint.simps) (simp add: digits_value_def digit_value_digit)
  next
    case False
    with 1 have "digits_value (FormatUint (n div 10)) = n div 10" by simp
    with False show ?thesis
      by (subst FormatUint.simps) (simp add: digits_value_snoc digit_value_digit)
  qed
qed

lemma Sprintf_d_shape:
  "Sprintf_d i = (if i < 0 then ''-'' else []) @ FormatUint (nat \<bar>i\<bar>)"
  by (simp add: Sprintf_d_def)

lemma six_digits_shape: "length (six_digits k) = 6 \<and> list_all is_digit (six_digits k)"
  by (simp add: six_digits_def is_digit_digit)

lemma Sprintf_f_shape:
  "\<exists>whole frac. Sprintf_f f = whole @ ''.'' @ frac \<and> length frac = 6 \<and>
     list_all is_digit frac \<and> CHR ''.'' \<notin> set whole"
proof -
  let ?n = "micros f"
  let ?whole = "(if negative f then ''-'' else []) @ FormatUint (?n div 1000000)"
  have "list_all is_digit (FormatUint (?n div 1000000))"
    by (rule FormatUint_digits)
  then have "CHR ''.'' \<notin> set (FormatUint (?n div 1000000))"
    using is_digit_not_point by (auto simp: list_all_iff)
  then have "CHR ''.'' \<notin> set ?whole" by simp
  moreover have "Sprintf_f f = ?whole @ ''.'' @ six_digits (?n mod 1000000)"
    by (simp add: Sprintf_f_def Let_def)
  ultimately show ?thesis
    using six_digits_shape [of "?n mod 1000000"] by blast
qed

lemma strVal_fallback: "\<not> has_own_case v \<Longrightarrow> strVal L v = Sprintf_v L v"
  by (cases v) (simp_all add: strVal_def)

lemma map_of_settingsVals:
  "map_of (settingsVals L settings) k =
     map_option (\<lambda>v. StringValue (strVal L v)) (map_of settings k)"
  by (induction settings) (auto simp: settingsVals_def)

lemma keys_settingsVals: "map fst (settingsVals L settings) = map fst settings"
  by (induction settings) (auto simp: settingsVals_def)

lemma known_settingsVals:
  "list_all (\<lambda>(k, s). s \<noteq> StringNull \<and> s \<noteq> StringUnknown) (settingsVals L settings)"
  by (induction settings) (auto simp: settingsVals_def)

text \<open>
  The switch of \<open>WebhookResource.Create\<close> by the type of the value: a string passes
  through; a boolean renders as \<open>true\<close> or \<open>false\<close>; an integer of any width renders
  in base 10, a minus sign for a negative value followed by digits only, which denote the
  value; a floating-point value renders with a point followed by exactly six digits; any
  other value is formatted with \<open>%v\<close>.
\<close>

lemma strVal_by_type:
  "strVal L (GoString s) = s \<and>
   strVal L (GoStringer s) = s \<and>
   strVal L (GoBool b) = (if b then ''true'' else ''false'') \<and>
   strVal L (GoInt w64) = Sprintf_d (sint w64) \<and>
   strVal L (GoInt8 w8) = Sprintf_d (sint w8) \<and>
   strVal L (GoInt16 w16) = Sprintf_d (sint w16) \<and>
   strVal L (GoInt32 w32) = Sprintf_d (sint w32) \<and>
   strVal L (GoInt64 w64) = Sprintf_d (sint w64) \<and>
   strVal L (GoUint w64) = Sprintf_d (uint w64) \<and>
   strVal L (GoUint8 w8) = Sprintf_d (uint w8) \<and>
   strVal L (GoUint16 w16) = Sprintf_d (uint w16) \<and>
   strVal L (GoUint32 w32) = Sprintf_d (uint w32) \<and>
   strVal L (GoUint64 w64) = Sprintf_d (uint w64) \<and>
   Sprintf_d n = (if n < 0 then ''-'' else []) @ FormatUint (nat \<bar>n\<bar>) \<and>
   list_all is_digit (FormatUint m) \<and> digits_value (FormatUint m) = m \<and>
   (\<exists>whole frac. strVal L (GoFloat32 f) = whole @ ''.'' @ frac \<and> length frac = 6 \<and>
      list_all is_digit frac \<and> CHR ''.'' \<notin> set whole) \<and>
   (\<exists>whole frac. strVal L (GoFloat64 f) = whole @ ''.'' @ frac \<and> length frac = 6 \<and>
      list_all is_digit frac \<and> CHR ''.'' \<notin> set whole) \<and>
   strVal L GoNil = Sprintf_v L GoNil \<and>
   strVal L (GoSlice vs) = Sprintf_v L (GoSlice vs) \<and>
   strVal L (GoMap kvs) = Sprintf_v L (GoMap kvs) \<and>
   strVal L (GoOther d) = Sprintf_v L (GoOther d) \<and>
   strVal L (GoInt 42) = ''42'' \<and>
   strVal L (GoUint 100) = ''100'' \<and>
   strVal L (GoFloat64 (Float False 7070651414971679 (- 51))) = ''3.140000'' \<and>
   strVal L (GoBool True) = ''true'' \<and>
   settingsVals L settings = map (\<lambda>(k, v). (k, StringValue (strVal L v))) settings"
proof -
  have floats: "strVal L (GoFloat32 f) = Sprintf_f f" "strVal L (GoFloat64 f) = Sprintf_f f"
    by (simp_all add: strVal_def)
  have examples: "strVal L (GoInt 42) = ''42''" "strVal L (GoUint 100) = ''100''"
    "strVal L (GoBool True) = ''true''"
    by (simp_all add: strVal_def Sprintf_d_def Sprintf_t_def FormatUint.simps digit_def)
  have pi: "strVal L (GoFloat64 (Float False 7070651414971679 (- 51))) = ''3.140000''"
    by (simp add: strVal_def Sprintf_f_def micros_def round_half_even_def six_digits_def
        FormatUint.simps digit_def Let_def)
  have scalars: "strVal L (GoString s) = s" "strVal L (GoStringer s) = s"
    "strVal L (GoBool b) = (if b then ''true'' else ''false'')"
    by (simp_all add: strVal_def Sprintf_t_def)
  have ints: "strVal L (GoInt w64) = Sprintf_d (sint w64)"
    "strVal L (GoInt8 w8) = Sprintf_d (sint w8)" "strVal L (GoInt16 w16) = Sprintf_d (sint w16)"
    "strVal L (GoInt32 w32) = Sprintf_d (sint w32)" "strVal L (GoInt64 w64) = Sprintf_d (sint w64)"
    "strVal L (GoUint w64) = Sprintf_d (uint w64)" "strVal L (GoUint8 w8) = Sprintf_d (uint w8)"
    "strVal L (GoUint16 w16) = Sprintf_d (uint w16)"
    "strVal L (GoUint32 w32) = Sprintf_d (uint w32)"
    "strVal L (GoUint64 w64) = Sprintf_d (uint w64)"
    by (simp_all add: strVal_def)
  have others: "strVal L GoNil = Sprintf_v L GoNil"
    "strVal L (GoSlice vs) = Sprintf_v L (GoSlice vs)"
    "strVal L (GoMap kvs) = Sprintf_v L (GoMap kvs)"
    "strVal L (GoOther d) = Sprintf_v L (GoOther d)"
    by (simp_all add: strVal_def)
  show ?thesis
    unfolding floats
    using scalars ints others examples pi Sprintf_d_shape [of n] FormatUint_digits [of m]
      digits_value_FormatUint [of m] Sprintf_f_shape [of f] settingsVals_def [of L settings]
    by (intro conjI) assumption+
qed

section \<open>Claims\<close>

subsection \<open>C1: null-normalization after create\<close>

text \<open>
  C1 says that after every create, read and update an optional text field whose remote
  value is empty is stored as null, in particular after a create whose response carries
  an empty description or team identifier while the plan carried a value.
  \<open>ScenarioResource.Create\<close> does not do so: the plan holds the description \<open>foo\<close> and
  the team \<open>team-1\<close>, the response carries neither, and the state written keeps both
  planned values. \<open>ScenarioResource.Read\<close> on the same response stores null for both.
\<close>

theorem create_keeps_planned_value:
  "ScenarioResource_Create stub_lib
     (stub_client 201 ''{\"id\":\"1\",\"name\":\"n\",\"is_active\":true}'')
     \<lparr>Get_diags = [], Get_data = scenario_plan\<rparr> \<lparr>Diagnostics = [], State = None\<rparr> [] =
   (\<lparr>Diagnostics = [],
     State = Some \<lparr>Scenario_Id = StringValue ''1'', Scenario_Name = StringValue ''n'',
                   Scenario_Description = StringValue ''foo'', Scenario_Active = BoolValue True,
                   Scenario_TeamId = StringValue ''team-1''\<rparr>\<rparr>,
    [\<lparr>Method = ''POST'', URL = ''https://api.make.com/v2/scenarios'',
      Header = [(''Authorization'', ''Token test-token''),
                (''Content-Type'', ''application/json''), (''Accept'', ''application/json'')],
      Request_Body = Some
        ''{\"name\":\"n\",\"description\":\"foo\",\"is_active\":true,\"team_id\":\"team-1\"}''\<rparr>]) \<and>
   fst (ScenarioResource_Read stub_lib
     (stub_client 200 ''{\"id\":\"1\",\"name\":\"n\",\"is_active\":true}'')
     \<lparr>Get_diags = [], Get_data = scenario_1\<rparr> \<lparr>Diagnostics = [], State = Some scenario_1\<rparr> []) =
   \<lparr>Diagnostics = [],
    State = Some \<lparr>Scenario_Id = StringValue ''1'', Scenario_Name = StringValue ''n'',
                  Scenario_Description = StringNull, Scenario_Active = BoolValue True,
                  Scenario_TeamId = StringNull\<rparr>\<rparr>"
  by (simp add: ScenarioResource_Create_def ScenarioResource_Read_def CreateScenario_def
      GetScenario_def MakeRequest_def ScenarioResource_Create_apiReq_def
      ScenarioResource_Create_data_def ScenarioResource_Read_data_def stub_lib_def
      stub_client_def scenario_plan_def scenario_1_def HasError_def Let_def)

subsection \<open>C2: delete tolerates status 404\<close>

text \<open>
  C2: for every resource kind and identifier, delete returns no error when the remote
  answers with status 404; any other status from 400 on yields an error, the one
  \<open>HandleErrorResponse\<close> makes. So of two deletes in succession the second does not
  fail when it is answered with 404, whatever the first one met.
\<close>

theorem delete_not_found_is_success:
  "(fst (call_MakeRequest L c (DeleteCall k i) tr) = Inr r \<and> StatusCode r = 404 \<longrightarrow>
      fst (gateway L c (DeleteCall k i) tr) = None) \<and>
   (fst (call_MakeRequest L c (DeleteCall k i) tr) = Inr r \<and> 400 \<le> StatusCode r \<and>
    StatusCode r \<noteq> 404 \<longrightarrow>
      fst (gateway L c (DeleteCall k i) tr) = Some (HandleErrorResponse L r)) \<and>
   (fst (call_MakeRequest L c (DeleteCall k i) (snd (gateway L c (DeleteCall k i) tr))) = Inr r2 \<and>
    StatusCode r2 = 404 \<longrightarrow>
      fst (gateway L c (DeleteCall k i) (snd (gateway L c (DeleteCall k i) tr))) = None)"
proof (intro conjI impI)
  assume "fst (call_MakeRequest L c (DeleteCall k i) tr) = Inr r \<and> StatusCode r = 404"
  then show "fst (gateway L c (DeleteCall k i) tr) = None"
    using gateway_delete_404 [of L c k i tr r] by blast
next
  assume "fst (call_MakeRequest L c (DeleteCall k i) tr) = Inr r \<and> 400 \<le> StatusCode r \<and>
    StatusCode r \<noteq> 404"
  then show "fst (gateway L c (DeleteCall k i) tr) = Some (HandleErrorResponse L r)"
    using gateway_error_status [of L c "DeleteCall k i" tr r] by blast
next
  let ?tr = "snd (gateway L c (DeleteCall k i) tr)"
  assume "fst (call_MakeRequest L c (DeleteCall k i) ?tr) = Inr r2 \<and> StatusCode r2 = 404"
  then show "fst (gateway L c (DeleteCall k i) ?tr) = None"
    using gateway_delete_404 [of L c k i ?tr r2] by blast
qed

text \<open>
  The stub answers the second request with 404 and every other request with 500: the
  first delete fails, the second succeeds.
\<close>

theorem delete_not_found_is_success_witness:
  "fst (gateway stub_lib stub_client_second_404 (DeleteCall Scenario ''1'') []) =
     Some ''API request failed with status 500: '' \<and>
   fst (gateway stub_lib stub_client_second_404 (DeleteCall Scenario ''1'')
          (snd (gateway stub_lib stub_client_second_404 (DeleteCall Scenario ''1'') []))) = None"
proof -
  let ?c = stub_client_second_404
  let ?call = "DeleteCall Scenario ''1''"
  let ?r500 = "\<lparr>StatusCode = 500, Status = [], Body = Some []\<rparr>"
  let ?r404 = "\<lparr>StatusCode = 404, Status = [], Body = Some []\<rparr>"
  let ?tr = "snd (gateway stub_lib ?c ?call [])"
  note delete = delete_not_found_is_success [of stub_lib ?c Scenario "''1''" "[]" ?r500 ?r404]
  have first: "fst (call_MakeRequest stub_lib ?c ?call []) = Inr ?r500"
    by (simp add: MakeRequest_def stub_lib_def stub_client_second_404_def)
  have "?tr = snd (call_MakeRequest stub_lib ?c ?call [])"
    by (rule gateway_trace)
  then have second: "fst (call_MakeRequest stub_lib ?c ?call ?tr) = Inr ?r404"
    by (simp add: MakeRequest_def stub_lib_def stub_client_second_404_def)
  have "fst (gateway stub_lib ?c ?call []) = Some (HandleErrorResponse stub_lib ?r500)"
    using delete first by (simp del: gateway.simps call_MakeRequest.simps)
  moreover have "HandleErrorResponse stub_lib ?r500 = ''API request failed with status 500: ''"
    by (simp add: stub_lib_def HandleErrorResponse_def Sprintf_d_def FormatUint.simps digit_def)
  moreover have "fst (gateway stub_lib ?c ?call ?tr) = None"
    using delete second by (simp del: gateway.simps call_MakeRequest.simps)
  ultimately show ?thesis
    by (simp del: gateway.simps call_MakeRequest.simps)
qed

subsection \<open>C3: not-found on a plain read\<close>

text \<open>
  C3 says that a plain read whose get reports not-found swallows it, reports the record as
  no longer present and surfaces no error. The provider does not: the scenario with
  identifier \<open>1\<close> is read, the remote answers 404, and \<open>Read\<close> returns an error
  diagnostic and leaves the state in place.
\<close>

theorem read_not_found_surfaces_error:
  "ScenarioResource_Read stub_lib (stub_client 404 [])
     \<lparr>Get_diags = [], Get_data = scenario_1\<rparr> \<lparr>Diagnostics = [], State = Some scenario_1\<rparr> [] =
   (\<lparr>Diagnostics = [ErrorDiagnostic ''Client Error''
        ''Unable to read scenario, got error: scenario with ID 1 not found''],
     State = Some scenario_1\<rparr>,
    [\<lparr>Method = ''GET'', URL = ''https://api.make.com/v2/scenarios/1'',
      Header = [(''Authorization'', ''Token test-token''),
                (''Content-Type'', ''application/json''), (''Accept'', ''application/json'')],
      Request_Body = None\<rparr>])"
  by (simp add: ScenarioResource_Read_def GetScenario_def MakeRequest_def AddError_def
      stub_lib_def stub_client_def scenario_1_def HasError_def Let_def)

text \<open>
  C3 as amended: for every resource kind, an operation that has read its plan or state
  without error issues its request, and when the remote answers that request with status
  404 a read does not swallow it: it surfaces an error diagnostic and leaves the state as
  it was, as a create and an update do. A delete then adds no error and does not touch the
  state. Not-found becomes success on delete only, and everywhere else, plain read
  included, it is an error.
\<close>

theorem not_found_is_an_error_except_on_delete:
  "(reads_request plan1 resp1 \<longrightarrow>
      not_found_reported c resp1 tr ''POST''
        (call_MakeRequest L c
           (CreateCall (ScenarioBody (ScenarioResource_Create_apiReq (Get_data plan1)))) tr)
        (ScenarioResource_Create L c plan1 resp1 tr)) \<and>
   (reads_request st1 resp1 \<longrightarrow>
      not_found_reported c resp1 tr ''GET''
        (call_MakeRequest L c
           (GetCall Scenario (ValueString (Scenario_Id (Get_data st1)))) tr)
        (ScenarioResource_Read L c st1 resp1 tr)) \<and>
   (reads_request plan1 resp1 \<longrightarrow>
      not_found_reported c resp1 tr ''PUT''
        (call_MakeRequest L c
           (UpdateCall (ValueString (Scenario_Id (Get_data plan1))) (ScenarioBody (ScenarioResource_Update_apiReq (Get_data plan1)))) tr)
        (ScenarioResource_Update L c plan1 resp1 tr)) \<and>
   (reads_request st1 resp1 \<longrightarrow>
      not_found_tolerated c resp1 tr ''DELETE''
        (call_MakeRequest L c
           (DeleteCall Scenario (ValueString (Scenario_Id (Get_data st1)))) tr)
        (ScenarioResource_Delete L c st1 resp1 tr)) \<and>
   (reads_request plan2 resp2 \<and> settings_read L (Connection_Settings (Get_data plan2)) \<longrightarrow>
      not_found_reported c resp2 tr ''POST''
        (call_MakeRequest L c
           (CreateCall (ConnectionBody (ConnectionResource_Create_request L (Get_data plan2)))) tr)
        (ConnectionResource_Create L c plan2 resp2 tr)) \<and>
   (reads_request st2 resp2 \<longrightarrow>
      not_found_reported c resp2 tr ''GET''
        (call_MakeRequest L c
           (GetCall Connection (ValueString (Connection_Id (Get_data st2)))) tr)
        (ConnectionResource_Read L c st2 resp2 tr)) \<and>
   (reads_request plan2 resp2 \<and> settings_read L (Connection_Settings (Get_data plan2)) \<longrightarrow>
      not_found_reported c resp2 tr ''PUT''
        (call_MakeRequest L c
           (UpdateCall (ValueString (Connection_Id (Get_data plan2))) (ConnectionBody (ConnectionResource_Update_request L (Get_data plan2)))) tr)
        (ConnectionResource_Update L c plan2 resp2 tr)) \<and>
   (reads_request st2 resp2 \<longrightarrow>
      not_found_tolerated c resp2 tr ''DELETE''
        (call_MakeRequest L c
           (DeleteCall Connection (ValueString (Connection_Id (Get_data st2)))) tr)
        (ConnectionResource_Delete L c st2 resp2 tr)) \<and>
   (reads_request plan3 resp3 \<and> settings_read L (Webhook_Settings (Get_data plan3)) \<longrightarrow>
      not_found_reported c resp3 tr ''POST''
        (call_MakeRequest L c
           (CreateCall (WebhookBody (WebhookResource_Create_request L (Get_data plan3)))) tr)
        (WebhookResource_Create L c plan3 resp3 tr)) \<and>
   (reads_request st3 resp3 \<longrightarrow>
      not_found_reported c resp3 tr ''GET''
        (call_MakeRequest L c
           (GetCall Webhook (ValueString (Webhook_Id (Get_data st3)))) tr)
        (WebhookResource_Read L c st3 resp3 tr)) \<and>
   (reads_request plan3 resp3 \<and> settings_read L (Webhook_Settings (Get_data plan3)) \<longrightarrow>
      not_found_reported c resp3 tr ''PUT''
        (call_MakeRequest L c
           (UpdateCall (ValueString (Webhook_Id (Get_data plan3))) (WebhookBody (WebhookResource_Update_request L (Get_data plan3)))) tr)
        (WebhookResource_Update L c plan3 resp3 tr)) \<and>
   (reads_request st3 resp3 \<longrightarrow>
      not_found_tolerated c resp3 tr ''DELETE''
        (call_MakeRequest L c
           (DeleteCall Webhook (ValueString (Webhook_Id (Get_data st3)))) tr)
        (WebhookResource_Delete L c st3 resp3 tr)) \<and>
   (reads_request plan4 resp4 \<longrightarrow>
      not_found_reported c resp4 tr ''POST''
        (call_MakeRequest L c
           (CreateCall (TeamBody (TeamResource_Create_apiReq (Get_data plan4)))) tr)
        (TeamResource_Create L c plan4 resp4 tr)) \<and>
   (reads_request st4 resp4 \<longrightarrow>
      not_found_reported c resp4 tr ''GET''
        (call_MakeRequest L c
           (GetCall Team (ValueString (Team_Id (Get_data st4)))) tr)
        (TeamResource_Read L c st4 resp4 tr)) \<and>
   (reads_request plan4 resp4 \<longrightarrow>
      not_found_reported c resp4 tr ''PUT''
        (call_MakeRequest L c
           (UpdateCall (ValueString (Team_Id (Get_data plan4))) (TeamBody (TeamResource_Update_apiReq (Get_data plan4)))) tr)
        (TeamResource_Update L c plan4 resp4 tr)) \<and>
   (reads_request st4 resp4 \<longrightarrow>
      not_found_tolerated c resp4 tr ''DELETE''
        (call_MakeRequest L c
           (DeleteCall Team (ValueString (Team_Id (Get_data st4)))) tr)
        (TeamResource_Delete L c st4 resp4 tr)) \<and>
   (reads_request plan5 resp5 \<longrightarrow>
      not_found_reported c resp5 tr ''POST''
        (call_MakeRequest L c
           (CreateCall (OrganizationBody (OrganizationResource_Create_apiReq (Get_data plan5)))) tr)
        (OrganizationResource_Create L c plan5 resp5 tr)) \<and>
   (reads_request st5 resp5 \<longrightarrow>
      not_found_reported c resp5 tr ''GET''
        (call_MakeRequest L c
           (GetCall Organization (ValueString (Organization_Id (Get_data st5)))) tr)
        (OrganizationResource_Read L c st5 resp5 tr)) \<and>
   (reads_request plan5 resp5 \<longrightarrow>
      not_found_reported c resp5 tr ''PUT''
        (call_MakeRequest L c
           (UpdateCall (ValueString (Organization_Id (Get_data plan5))) (OrganizationBody (OrganizationResource_Update_apiReq (Get_data plan5)))) tr)
        (OrganizationResource_Update L c plan5 resp5 tr)) \<and>
   (reads_request st5 resp5 \<longrightarrow>
      not_found_tolerated c resp5 tr ''DELETE''
        (call_MakeRequest L c
           (DeleteCall Organization (ValueString (Organization_Id (Get_data st5)))) tr)
        (OrganizationResource_Delete L c st5 resp5 tr)) \<and>
   (reads_request plan6 resp6 \<longrightarrow>
      not_found_reported c resp6 tr ''POST''
        (call_MakeRequest L c
           (CreateCall (DataStoreBody (DataStoreResource_Create_apiReq (Get_data plan6)))) tr)
        (DataStoreResource_Create L c plan6 resp6 tr)) \<and>
   (reads_request st6 resp6 \<longrightarrow>
      not_found_reported c resp6 tr ''GET''
        (call_MakeRequest L c
           (GetCall DataStore (ValueString (DataStore_Id (Get_data st6)))) tr)
        (DataStoreResource_Read L c st6 resp6 tr)) \<and>
   (reads_request plan6 resp6 \<longrightarrow>
      not_found_reported c resp6 tr ''PUT''
        (call_MakeRequest L c
           (UpdateCall (ValueString (DataStore_Id (Get_data plan6))) (DataStoreBody (DataStoreResource_Update_apiReq (Get_data plan6)))) tr)
        (DataStoreResource_Update L c plan6 resp6 tr)) \<and>
   (reads_request st6 resp6 \<longrightarrow>
      not_found_tolerated c resp6 tr ''DELETE''
        (call_MakeRequest L c
           (DeleteCall DataStore (ValueString (DataStore_Id (Get_data st6)))) tr)
        (DataStoreResource_Delete L c st6 resp6 tr))"
  by (intro conjI impI; (elim conjE)?; rule not_found_rules; assumption)

text \<open>
  The remote answers every request with 404: the read of the scenario \<open>1\<close> issues its
  GET, reports an error and keeps the state; the delete issues its DELETE and reports no
  error.
\<close>

theorem not_found_is_an_error_except_on_delete_witness:
  "HasError (Diagnostics (fst (ScenarioResource_Read stub_lib (stub_client 404 [])
      \<lparr>Get_diags = [], Get_data = scenario_1\<rparr>
      \<lparr>Diagnostics = [], State = Some scenario_1\<rparr> []))) \<and>
   State (fst (ScenarioResource_Read stub_lib (stub_client 404 [])
      \<lparr>Get_diags = [], Get_data = scenario_1\<rparr>
      \<lparr>Diagnostics = [], State = Some scenario_1\<rparr> [])) = Some scenario_1 \<and>
   map Method (snd (ScenarioResource_Read stub_lib (stub_client 404 [])
      \<lparr>Get_diags = [], Get_data = scenario_1\<rparr>
      \<lparr>Diagnostics = [], State = Some scenario_1\<rparr> [])) = [''GET''] \<and>
   \<not> HasError (Diagnostics (fst (ScenarioResource_Delete stub_lib (stub_client 404 [])
      \<lparr>Get_diags = [], Get_data = scenario_1\<rparr>
      \<lparr>Diagnostics = [], State = Some scenario_1\<rparr> []))) \<and>
   State (fst (ScenarioResource_Delete stub_lib (stub_client 404 [])
      \<lparr>Get_diags = [], Get_data = scenario_1\<rparr>
      \<lparr>Diagnostics = [], State = Some scenario_1\<rparr> [])) = Some scenario_1 \<and>
   map Method (snd (ScenarioResource_Delete stub_lib (stub_client 404 [])
      \<lparr>Get_diags = [], Get_data = scenario_1\<rparr>
      \<lparr>Diagnostics = [], State = Some scenario_1\<rparr> [])) = [''DELETE'']"
proof -
  let ?c = "stub_client 404 []"
  let ?st = "\<lparr>Get_diags = [], Get_data = scenario_1\<rparr>"
  let ?resp = "\<lparr>Diagnostics = [], State = Some scenario_1\<rparr>"
  let ?r = "\<lparr>StatusCode = 404, Status = [], Body = Some []\<rparr>"
  let ?read = "ScenarioResource_Read stub_lib ?c ?st ?resp []"
  let ?delete = "ScenarioResource_Delete stub_lib ?c ?st ?resp []"
  let ?get = "call_MakeRequest stub_lib ?c
    (GetCall Scenario (ValueString (Scenario_Id (Get_data ?st)))) []"
  let ?del = "call_MakeRequest stub_lib ?c
    (DeleteCall Scenario (ValueString (Scenario_Id (Get_data ?st)))) []"
  have reads: "reads_request ?st ?resp"
    by (simp add: reads_request_def HasError_def)
  have answer: "fst ?get = Inr ?r \<and> StatusCode ?r = 404"
    "fst ?del = Inr ?r \<and> StatusCode ?r = 404"
    by (simp_all add: MakeRequest_def stub_lib_def stub_client_def scenario_1_def)
  note claim = not_found_is_an_error_except_on_delete [where ?c = ?c and ?resp1.0 = ?resp
      and ?tr = "[]" and ?L = stub_lib and ?st1.0 = ?st]
  have "not_found_reported ?c ?resp [] ''GET'' ?get ?read"
    by (rule claim [THEN conjunct2, THEN conjunct1, THEN mp]) (rule reads)
  from this [unfolded not_found_reported_def, rule_format, OF answer(1)]
  have read: "HasError (Diagnostics (fst ?read))" "State (fst ?read) = Some scenario_1"
    "map Method (snd ?read) = [''GET'']"
    by auto
  have "not_found_tolerated ?c ?resp [] ''DELETE'' ?del ?delete"
    by (rule claim [THEN conjunct2, THEN conjunct2, THEN conjunct2, THEN conjunct1, THEN mp])
       (rule reads)
  from this [unfolded not_found_tolerated_def, rule_format, OF answer(2)]
  have "\<not> HasError (Diagnostics (fst ?delete))" "State (fst ?delete) = Some scenario_1"
    "map Method (snd ?delete) = [''DELETE'']"
    by auto
  with read show ?thesis by (intro conjI)
qed

subsection \<open>C4: the message of an error response\<close>

text \<open>
  C4 says that every response with a status from 400 on yields an error whose message is
  extracted from the body by the policy, the raw body when nothing else applies. The
  provider makes an exception of a body that cannot be read: the message is then the
  status line of the response. The remote answers a get with status 502 and a body whose
  reading fails: the message is \<open>502 Bad Gateway\<close>, and not what the policy makes of
  the empty text that was read.
\<close>

theorem unreadable_body_gives_status_line:
  "fst (call_MakeRequest stub_lib stub_client_unreadable (GetCall Scenario ''1'') []) =
     Inr \<lparr>StatusCode = 502, Status = ''502 Bad Gateway'', Body = None\<rparr> \<and>
   fst (gateway stub_lib stub_client_unreadable (GetCall Scenario ''1'') []) =
     Some ''API request failed with status 502: 502 Bad Gateway'' \<and>
   fst (gateway stub_lib stub_client_unreadable (GetCall Scenario ''1'') []) \<noteq>
     Some (ApiError 502 (extracted_message stub_lib []))"
  by (simp add: GetScenario_def MakeRequest_def HandleErrorResponse_def ApiError_def
      extracted_message_def stub_lib_def stub_client_unreadable_def Sprintf_d_def
      FormatUint.simps digit_def Let_def)

text \<open>
  C4 as amended: every response with a status from 400 on, but for status 404 on get,
  update and delete, makes the gateway return the error of that status. When the body of
  the response can be read, its message is extracted from the body by the policy: the
  \<open>message\<close> field of the parsed body when it is not empty, otherwise its \<open>error\<close>
  field when that is not empty, and the raw body when parsing fails or both are empty.
  When reading the body fails, the message is the status line of the response.
\<close>

theorem error_message_policy:
  assumes "fst (call_MakeRequest L c call tr) = Inr resp"
    and "400 \<le> StatusCode resp"
    and "StatusCode resp \<noteq> 404 \<or> is_create call"
  shows "fst (gateway L c call tr) =
           Some (ApiError (StatusCode resp)
                   (case Body resp of
                      None \<Rightarrow> Status resp
                    | Some body \<Rightarrow> extracted_message L body))"
  using assms gateway_error_status [of L c call tr resp] HandleErrorResponse_policy [of L resp]
  by simp

text \<open>
  Status 500 with the body \<open>{"message":"bad"}\<close> yields the message \<open>bad\<close>; status 500
  with a body that does not parse yields the body; status 502 on a create with a body
  that cannot be read yields the status line.
\<close>

theorem error_message_policy_witness:
  "fst (gateway stub_lib (stub_client 500 ''{\"message\":\"bad\"}'') (GetCall Scenario ''1'') []) =
     Some ''API request failed with status 500: bad'' \<and>
   fst (gateway stub_lib (stub_client 500 ''<html>'') (GetCall Scenario ''1'') []) =
     Some ''API request failed with status 500: <html>'' \<and>
   fst (gateway stub_lib stub_client_unreadable (DeleteCall Team ''9'') []) =
     Some ''API request failed with status 502: 502 Bad Gateway''"
proof -
  let ?call = "GetCall Scenario ''1''"
  have "fst (call_MakeRequest stub_lib (stub_client 500 body) ?call []) =
      Inr \<lparr>StatusCode = 500, Status = [], Body = Some body\<rparr>" for body
    by (simp add: MakeRequest_def stub_lib_def stub_client_def)
  then have readable: "fst (gateway stub_lib (stub_client 500 body) ?call []) =
      Some (ApiError 500 (extracted_message stub_lib body))" for body
    using error_message_policy [of stub_lib "stub_client 500 body" ?call "[]"
        "\<lparr>StatusCode = 500, Status = [], Body = Some body\<rparr>"]
    by (simp del: gateway.simps call_MakeRequest.simps)
  have "fst (call_MakeRequest stub_lib stub_client_unreadable (DeleteCall Team ''9'') []) =
      Inr \<lparr>StatusCode = 502, Status = ''502 Bad Gateway'', Body = None\<rparr>"
    by (simp add: MakeRequest_def stub_lib_def stub_client_unreadable_def)
  then have unreadable: "fst (gateway stub_lib stub_client_unreadable (DeleteCall Team ''9'') []) =
      Some (ApiError 502 ''502 Bad Gateway'')"
    using error_message_policy [of stub_lib stub_client_unreadable "DeleteCall Team ''9''" "[]"
        "\<lparr>StatusCode = 502, Status = ''502 Bad Gateway'', Body = None\<rparr>"]
    by (simp del: gateway.simps call_MakeRequest.simps)
  show ?thesis
    unfolding readable unreadable
    by (simp add: stub_lib_def ApiError_def extracted_message_def Sprintf_d_def
        FormatUint.simps digit_def)
qed

subsection \<open>C5: settings values by type\<close>

text \<open>
  C5 says that the settings of a record are converted by type, a floating-point value with
  exactly six digits after the point. The switch of \<open>WebhookResource.Create\<close> does so
  (\<open>strVal_by_type\<close>), and the test of the conversion expects \<open>3.140000\<close> for 3.14. The
  other operations that store settings, \<open>Read\<close> and \<open>Update\<close> of a webhook and every
  operation of a connection, format each value with \<open>%v\<close>. The create of the webhook
  whose settings hold 3.14 stores \<open>3.140000\<close>; the read of the same remote record then
  stores \<open>3.14\<close>.
\<close>

theorem read_formats_float_by_v:
  "Webhook_Settings (WebhookResource_Create_data stub_lib webhook_7 webhook_7_response) =
     MapValue [(''ratio'', StringValue ''3.140000'')] \<and>
   fst (WebhookResource_Read stub_lib
     (stub_client 200 ''{\"id\":\"7\",\"name\":\"w\",\"url\":\"https://hook.make.com/x\",\"active\":true,\"settings\":{\"ratio\":3.14}}'')
     \<lparr>Get_diags = [], Get_data = webhook_7\<rparr> \<lparr>Diagnostics = [], State = Some webhook_7\<rparr> []) =
   \<lparr>Diagnostics = [],
    State = Some \<lparr>Webhook_Id = StringValue ''7'', Webhook_Name = StringValue ''w'',
                  Webhook_URL = StringValue ''https://hook.make.com/x'',
                  Webhook_TeamId = StringNull, Webhook_Active = BoolValue True,
                  Webhook_Settings = MapValue [(''ratio'', StringValue ''3.14'')]\<rparr>\<rparr>"
proof -
  have "strVal stub_lib (GoFloat64 (Float False 7070651414971679 (- 51))) = ''3.140000''"
    by (simp add: strVal_def Sprintf_f_def micros_def round_half_even_def six_digits_def
        FormatUint.simps digit_def Let_def)
  then have "Webhook_Settings (WebhookResource_Create_data stub_lib webhook_7 webhook_7_response) =
      MapValue [(''ratio'', StringValue ''3.140000'')]"
    by (simp add: WebhookResource_Create_data_def settingsVals_def webhook_7_response_def Let_def)
  moreover have "Sprintf_v stub_lib (GoFloat64 (Float False 7070651414971679 (- 51))) = ''3.14''"
    by (simp add: stub_lib_def)
  then have "WebhookResource_Read_data stub_lib webhook_7 webhook_7_response =
      \<lparr>Webhook_Id = StringValue ''7'', Webhook_Name = StringValue ''w'',
       Webhook_URL = StringValue ''https://hook.make.com/x'',
       Webhook_TeamId = StringNull, Webhook_Active = BoolValue True,
       Webhook_Settings = MapValue [(''ratio'', StringValue ''3.14'')]\<rparr>"
    by (simp add: WebhookResource_Read_data_def settingsVals_v_def webhook_7_response_def
        webhook_7_def Let_def)
  moreover have "GetWebhook stub_lib
      (stub_client 200 ''{\"id\":\"7\",\"name\":\"w\",\"url\":\"https://hook.make.com/x\",\"active\":true,\"settings\":{\"ratio\":3.14}}'')
      ''7'' [] =
      (Inr webhook_7_response,
       [\<lparr>Method = ''GET'', URL = ''https://api.make.com/v2/webhooks/7'',
         Header = [(''Authorization'', ''Token test-token''),
                   (''Content-Type'', ''application/json''), (''Accept'', ''application/json'')],
         Request_Body = None\<rparr>])"
    by (simp add: GetWebhook_def MakeRequest_def stub_lib_def stub_client_def Let_def)
  ultimately show ?thesis
    by (simp add: WebhookResource_Read_def HasError_def Let_def)
       (simp add: webhook_7_def)
qed

subsection \<open>C6: the conversion of settings is total\<close>

text \<open>
  C6: the conversion gives every key of the settings map a string, whatever the type of
  its value: the result has the keys of the input, the value under a key is the known
  string made of the input's value, and a value of a type without a case of its own in
  the switch, a nested one included, takes the default branch, which formats it with
  \<open>%v\<close>. The conversion is a function of the map with no failing branch, and the
  create of a webhook stores its result whenever the remote record has settings.
\<close>

theorem settings_conversion_total:
  "map fst (settingsVals L settings) = map fst settings \<and>
   map_of (settingsVals L settings) k =
     map_option (\<lambda>v. StringValue (strVal L v)) (map_of settings k) \<and>
   list_all (\<lambda>(k, s). s \<noteq> StringNull \<and> s \<noteq> StringUnknown) (settingsVals L settings) \<and>
   (\<not> has_own_case v \<longrightarrow> strVal L v = Sprintf_v L v) \<and>
   (WebhookResponse_Settings webhook \<noteq> [] \<longrightarrow>
      Webhook_Settings (WebhookResource_Create_data L data webhook) =
        MapValue (settingsVals L (WebhookResponse_Settings webhook)))"
  using keys_settingsVals [of L settings] map_of_settingsVals [of L settings k]
    known_settingsVals [of L settings] strVal_fallback [of v L]
  by (simp add: WebhookResource_Create_data_def Let_def)

theorem settings_conversion_total_witness:
  "\<not> has_own_case (GoMap [(''key'', GoString ''value'')]) \<and>
   settingsVals stub_lib
     [(''string_val'', GoString ''test_string''), (''int_val'', GoInt 42),
      (''complex_val'', GoMap [(''key'', GoString ''value'')]), (''null_val'', GoNil)] =
     [(''string_val'', StringValue ''test_string''), (''int_val'', StringValue ''42''),
      (''complex_val'', StringValue ''map[key:value]''), (''null_val'', StringValue ''<nil>'')]"
proof -
  have "strVal stub_lib (GoMap [(''key'', GoString ''value'')]) =
      Sprintf_v stub_lib (GoMap [(''key'', GoString ''value'')])"
    using settings_conversion_total [of stub_lib "[]" "[]" "GoMap [(''key'', GoString ''value'')]"]
    by simp
  moreover have "strVal stub_lib GoNil = Sprintf_v stub_lib GoNil"
    using settings_conversion_total [of stub_lib "[]" "[]" GoNil] by simp
  ultimately show ?thesis
    by (simp add: settingsVals_def stub_lib_def)
       (simp add: strVal_def Sprintf_d_def FormatUint.simps digit_def)
qed

subsection \<open>C7: not-found on get\<close>

text \<open>
  C7: for every resource kind and identifier, a get that the remote answers with status
  404 returns the not-found error of that kind and identifier. It is an error of its own:
  its text names the identifier, differs for different identifiers, and is the text of
  no error that \<open>HandleErrorResponse\<close> makes of a response, whatever the status and the
  message.
\<close>

theorem get_not_found_is_distinct_error:
  "(fst (call_MakeRequest L c (GetCall k i) tr) = Inr r \<and> StatusCode r = 404 \<longrightarrow>
      fst (gateway L c (GetCall k i) tr) = Some (NotFoundError k i)) \<and>
   NotFoundError k i = kind_name k @ '' with ID '' @ i @ '' not found'' \<and>
   (NotFoundError k i = NotFoundError k j) = (i = j) \<and>
   NotFoundError k i \<noteq> ApiError status message \<and>
   NotFoundError k i \<noteq> HandleErrorResponse L r'"
proof -
  have "NotFoundError k i \<noteq> HandleErrorResponse L r'"
    using HandleErrorResponse_is_ApiError [of L r'] NotFoundError_not_ApiError [of k i]
    by metis
  then show ?thesis
    using gateway_get_404 [of L c k i tr r] NotFoundError_inject [of k i j]
      NotFoundError_not_ApiError [of k i status message]
    by (simp add: NotFoundError_def del: gateway.simps call_MakeRequest.simps)
qed

theorem get_not_found_is_distinct_error_witness:
  "fst (gateway stub_lib (stub_client 404 ''{\"message\":\"bad\"}'') (GetCall DataStore ''42'') []) =
     Some ''data store with ID 42 not found''"
proof -
  let ?c = "stub_client 404 ''{\"message\":\"bad\"}''"
  let ?r = "\<lparr>StatusCode = 404, Status = [], Body = Some ''{\"message\":\"bad\"}''\<rparr>"
  have "fst (call_MakeRequest stub_lib ?c (GetCall DataStore ''42'') []) = Inr ?r"
    by (simp add: MakeRequest_def stub_lib_def stub_client_def)
  then have "fst (gateway stub_lib ?c (GetCall DataStore ''42'') []) =
      Some (NotFoundError DataStore ''42'')"
    using get_not_found_is_distinct_error [of stub_lib ?c DataStore "''42''" "[]" ?r]
    by (simp del: gateway.simps call_MakeRequest.simps)
  then show ?thesis
    by (simp add: NotFoundError_def del: gateway.simps)
qed

subsection \<open>C8: not-found on update\<close>

text \<open>
  C8: for every resource kind and identifier, an update that the remote answers with
  status 404 returns the not-found error. The \<open>Update\<close> of the resource issues at most
  one request, a PUT, whatever the remote answers, so no create. When it has read its
  plan without error and the remote answers its request with status 404, it has issued
  that PUT, reports an error diagnostic and leaves the state as it was.
\<close>

theorem update_not_found_is_error:
  "(fst (call_MakeRequest L c (UpdateCall i req) tr) = Inr r \<and> StatusCode r = 404 \<longrightarrow>
      fst (gateway L c (UpdateCall i req) tr) = Some (NotFoundError (kind_of req) i)) \<and>
   (snd (gateway L c (UpdateCall i req) tr) = tr \<or>
    (\<exists>q. snd (gateway L c (UpdateCall i req) tr) = tr @ [q] \<and> Method q = ''PUT'')) \<and>
   at_most_one_request tr ''PUT'' (ScenarioResource_Update L c plan1 resp1 tr) \<and>
   (reads_request plan1 resp1 \<longrightarrow>
      not_found_reported c resp1 tr ''PUT''
        (call_MakeRequest L c
           (UpdateCall (ValueString (Scenario_Id (Get_data plan1))) (ScenarioBody (ScenarioResource_Update_apiReq (Get_data plan1)))) tr)
        (ScenarioResource_Update L c plan1 resp1 tr)) \<and>
   at_most_one_request tr ''PUT'' (ConnectionResource_Update L c plan2 resp2 tr) \<and>
   (reads_request plan2 resp2 \<and> settings_read L (Connection_Settings (Get_data plan2)) \<longrightarrow>
      not_found_reported c resp2 tr ''PUT''
        (call_MakeRequest L c
           (UpdateCall (ValueString (Connection_Id (Get_data plan2))) (ConnectionBody (ConnectionResource_Update_request L (Get_data plan2)))) tr)
        (ConnectionResource_Update L c plan2 resp2 tr)) \<and>
   at_most_one_request tr ''PUT'' (WebhookResource_Update L c plan3 resp3 tr) \<and>
   (reads_request plan3 resp3 \<and> settings_read L (Webhook_Settings (Get_data plan3)) \<longrightarrow>
      not_found_reported c resp3 tr ''PUT''
        (call_MakeRequest L c
           (UpdateCall (ValueString (Webhook_Id (Get_data plan3))) (WebhookBody (WebhookResource_Update_request L (Get_data plan3)))) tr)
        (WebhookResource_Update L c plan3 resp3 tr)) \<and>
   at_most_one_request tr ''PUT'' (TeamResource_Update L c plan4 resp4 tr) \<and>
   (reads_request plan4 resp4 \<longrightarrow>
      not_found_reported c resp4 tr ''PUT''
        (call_MakeRequest L c
           (UpdateCall (ValueString (Team_Id (Get_data plan4))) (TeamBody (TeamResource_Update_apiReq (Get_data plan4)))) tr)
        (TeamResource_Update L c plan4 resp4 tr)) \<and>
   at_most_one_request tr ''PUT'' (OrganizationResource_Update L c plan5 resp5 tr) \<and>
   (reads_request plan5 resp5 \<longrightarrow>
      not_found_reported c resp5 tr ''PUT''
        (call_MakeRequest L c
           (UpdateCall (ValueString (Organization_Id (Get_data plan5))) (OrganizationBody (OrganizationResource_Update_apiReq (Get_data plan5)))) tr)
        (OrganizationResource_Update L c plan5 resp5 tr)) \<and>
   at_most_one_request tr ''PUT'' (DataStoreResource_Update L c plan6 resp6 tr) \<and>
   (reads_request plan6 resp6 \<longrightarrow>
      not_found_reported c resp6 tr ''PUT''
        (call_MakeRequest L c
           (UpdateCall (ValueString (DataStore_Id (Get_data plan6))) (DataStoreBody (DataStoreResource_Update_apiReq (Get_data plan6)))) tr)
        (DataStoreResource_Update L c plan6 resp6 tr))"
proof -
  have gateway_404:
    "fst (call_MakeRequest L c (UpdateCall i req) tr) = Inr r \<and> StatusCode r = 404 \<longrightarrow>
      fst (gateway L c (UpdateCall i req) tr) = Some (NotFoundError (kind_of req) i)"
    using gateway_update_404 [of L c i req tr r] by blast
  have gateway_put: "snd (gateway L c (UpdateCall i req) tr) = tr \<or>
      (\<exists>q. snd (gateway L c (UpdateCall i req) tr) = tr @ [q] \<and> Method q = ''PUT'')"
    using MakeRequest_trace [of L c "''PUT''" "collection (kind_of req) @ ''/'' @ i" "Some req" tr]
    by (simp add: gateway_trace)
  show ?thesis
    by (rule conjI [OF gateway_404], rule conjI [OF gateway_put])
       (intro conjI impI; (elim conjE)?;
        (rule one_request_rules | (rule not_found_rules; assumption)))
qed

text \<open>
  The remote answers every request with 404: the update of the scenario \<open>1\<close> issues its
  PUT and no other request, reports the not-found error and keeps the state.
\<close>

theorem update_not_found_is_error_witness:
  "ScenarioResource_Update stub_lib (stub_client 404 [])
     \<lparr>Get_diags = [], Get_data = scenario_1\<rparr> \<lparr>Diagnostics = [], State = Some scenario_1\<rparr> [] =
   (\<lparr>Diagnostics = [ErrorDiagnostic ''Client Error''
        ''Unable to update scenario, got error: scenario with ID 1 not found''],
     State = Some scenario_1\<rparr>,
    [\<lparr>Method = ''PUT'', URL = ''https://api.make.com/v2/scenarios/1'',
      Header = [(''Authorization'', ''Token test-token''),
                (''Content-Type'', ''application/json''), (''Accept'', ''application/json'')],
      Request_Body = Some
        ''{\"name\":\"n\",\"description\":\"foo\",\"is_active\":true,\"team_id\":\"team-1\"}''\<rparr>]) \<and>
   HasError (Diagnostics (fst (ScenarioResource_Update stub_lib (stub_client 404 [])
     \<lparr>Get_diags = [], Get_data = scenario_1\<rparr> \<lparr>Diagnostics = [], State = Some scenario_1\<rparr> []))) \<and>
   State (fst (ScenarioResource_Update stub_lib (stub_client 404 [])
     \<lparr>Get_diags = [], Get_data = scenario_1\<rparr> \<lparr>Diagnostics = [], State = Some scenario_1\<rparr> [])) =
     Some scenario_1 \<and>
   map Method (snd (ScenarioResource_Update stub_lib (stub_client 404 [])
     \<lparr>Get_diags = [], Get_data = scenario_1\<rparr> \<lparr>Diagnostics = [], State = Some scenario_1\<rparr> [])) =
     [''PUT'']"
proof -
  let ?c = "stub_client 404 []"
  let ?plan = "\<lparr>Get_diags = [], Get_data = scenario_1\<rparr>"
  let ?resp = "\<lparr>Diagnostics = [], State = Some scenario_1\<rparr>"
  let ?r = "\<lparr>StatusCode = 404, Status = [], Body = Some []\<rparr>"
  let ?out = "ScenarioResource_Update stub_lib ?c ?plan ?resp []"
  let ?put = "call_MakeRequest stub_lib ?c
    (UpdateCall (ValueString (Scenario_Id (Get_data ?plan)))
       (ScenarioBody (ScenarioResource_Update_apiReq (Get_data ?plan)))) []"
  have out: "?out =
     (\<lparr>Diagnostics = [ErrorDiagnostic ''Client Error''
          ''Unable to update scenario, got error: scenario with ID 1 not found''],
       State = Some scenario_1\<rparr>,
      [\<lparr>Method = ''PUT'', URL = ''https://api.make.com/v2/scenarios/1'',
        Header = [(''Authorization'', ''Token test-token''),
                  (''Content-Type'', ''application/json''), (''Accept'', ''application/json'')],
        Request_Body = Some
          ''{\"name\":\"n\",\"description\":\"foo\",\"is_active\":true,\"team_id\":\"team-1\"}''\<rparr>])"
    by (simp add: ScenarioResource_Update_def UpdateScenario_def MakeRequest_def
        ScenarioResource_Update_apiReq_def AddError_def stub_lib_def stub_client_def
        scenario_1_def HasError_def Let_def)
  have reads: "reads_request ?plan ?resp"
    by (simp add: reads_request_def HasError_def)
  have answer: "fst ?put = Inr ?r \<and> StatusCode ?r = 404"
    by (simp add: MakeRequest_def ScenarioResource_Update_apiReq_def stub_lib_def
        stub_client_def scenario_1_def Let_def)
  note claim = update_not_found_is_error [where ?c = ?c and ?tr = "[]" and ?L = stub_lib
      and ?resp1.0 = ?resp and ?plan1.0 = ?plan]
  have "not_found_reported ?c ?resp [] ''PUT'' ?put ?out"
    by (rule claim [THEN conjunct2, THEN conjunct2, THEN conjunct2, THEN conjunct1, THEN mp])
       (rule reads)
  from this [unfolded not_found_reported_def, rule_format, OF answer]
  have "HasError (Diagnostics (fst ?out))" "State (fst ?out) = Some scenario_1"
    "map Method (snd ?out) = [''PUT'']"
    by auto
  with out show ?thesis by (intro conjI)
qed

subsection \<open>C9: the identifier of a record\<close>




subsection \<open>C10: message before error\<close>

text \<open>
  C10: when the body of an error response parses, the message of the error returned is
  the \<open>message\<close> field whenever that is not empty, also when the \<open>error\<close> field is not
  empty; the \<open>error\<close> field is the message only when \<open>message\<close> is empty.
\<close>

theorem message_takes_precedence:
  assumes "Body resp = Some body" and "Unmarshal_ErrorResponse L body = Some e"
  shows "(ErrorResponse_Message e \<noteq> [] \<longrightarrow>
            HandleErrorResponse L resp = ApiError (StatusCode resp) (ErrorResponse_Message e)) \<and>
         (ErrorResponse_Message e = [] \<and> ErrorResponse_Error e \<noteq> [] \<longrightarrow>
            HandleErrorResponse L resp = ApiError (StatusCode resp) (ErrorResponse_Error e))"
  using assms by (simp add: HandleErrorResponse_def ApiError_def Let_def)

theorem message_takes_precedence_witness:
  "HandleErrorResponse stub_lib
     \<lparr>StatusCode = 403, Status = [], Body = Some ''{\"error\":\"denied\",\"message\":\"bad\"}''\<rparr> =
     ''API request failed with status 403: bad'' \<and>
   HandleErrorResponse stub_lib
     \<lparr>StatusCode = 403, Status = [], Body = Some ''{\"error\":\"denied\"}''\<rparr> =
     ''API request failed with status 403: denied''"
  using message_takes_precedence [of
      "\<lparr>StatusCode = 403, Status = [], Body = Some ''{\"error\":\"denied\",\"message\":\"bad\"}''\<rparr>"
      "''{\"error\":\"denied\",\"message\":\"bad\"}''" stub_lib
      "\<lparr>ErrorResponse_Error = ''denied'', ErrorResponse_Message = ''bad'', ErrorResponse_Code = 0\<rparr>"]
    message_takes_precedence [of
      "\<lparr>StatusCode = 403, Status = [], Body = Some ''{\"error\":\"denied\"}''\<rparr>"
      "''{\"error\":\"denied\"}''" stub_lib
      "\<lparr>ErrorResponse_Error = ''denied'', ErrorResponse_Message = [], ErrorResponse_Code = 0\<rparr>"]
  by (simp add: stub_lib_def ApiError_def Sprintf_d_def FormatUint.simps digit_def)

end
